theory Spec2Isabelle
  imports Complex_Main
begin

section \<open>Common vocabulary\<close>

text \<open>
  The two processors of the repository, \<^verbatim>\<open>fink_science/cats/processor.py\<close>
  (\<^verbatim>\<open>predict_nn\<close>) and \<^verbatim>\<open>fink_science/t2/processor.py\<close> (\<^verbatim>\<open>t2\<close>), are
  embedded as functions over an explicit program state.  A pandas Series is a list of its
  values, a numpy array of floats a list of reals (rounding to float32/float64 is not
  modelled), a dict a partial map.  Every \<^verbatim>\<open>raise\<close> the source can reach is a value
  \<open>Inl e\<close>.  Library calls whose code is not part of the repository sources at hand
  (keras/tensorflow, the t2 and cats \<^verbatim>\<open>utilities\<close> modules, \<^verbatim>\<open>fink_utils\<close>,
  \<^verbatim>\<open>astronet\<close>) are parameters collected in an environment record.
\<close>

datatype error = KeyError | IndexError | ValueError | TypeError | IOError

text \<open>Observable library effects of one invocation, in program order.\<close>

datatype event =
    LoadKeras string          \<comment> \<open>\<^verbatim>\<open>tf.keras.models.load_model(model_path)\<close>\<close>
  | LoadLite "string option"  \<comment> \<open>\<^verbatim>\<open>get_lite_model()\<close> or \<^verbatim>\<open>get_lite_model(model_name=...)\<close>\<close>
  | Predict                   \<comment> \<open>an input enters inference: \<^verbatim>\<open>NN.predict([lc])\<close>, or lines 166-176 of \<^verbatim>\<open>t2\<close> for one object\<close>

definition raise_bind :: "error + 'a \<Rightarrow> ('a \<Rightarrow> error + 'b) \<Rightarrow> error + 'b" where
  "raise_bind r f = (case r of Inl e \<Rightarrow> Inl e | Inr v \<Rightarrow> f v)"

text \<open>\<^verbatim>\<open>series.apply(f)\<close>: \<open>f\<close> on every element in order; the first raise ends it.\<close>

fun apply_series :: "('a \<Rightarrow> error + 'b) \<Rightarrow> 'a list \<Rightarrow> error + 'b list" where
  "apply_series f [] = Inr []"
| "apply_series f (x # xs) =
     (case f x of
        Inl e \<Rightarrow> Inl e
      | Inr y \<Rightarrow> (case apply_series f xs of Inl e \<Rightarrow> Inl e | Inr ys \<Rightarrow> Inr (y # ys)))"

text \<open>\<^verbatim>\<open>col.to_numpy()[0]\<close>: the first element, IndexError on an empty column.\<close>

definition first_element :: "'a list \<Rightarrow> error + 'a" where
  "first_element col = (case col of [] \<Rightarrow> Inl IndexError | x # _ \<Rightarrow> Inr x)"

section \<open>CATS: \<^verbatim>\<open>predict_nn\<close>\<close>

text \<open>\<^verbatim>\<open>filter_dict = {"u": 1, "g": 2, "r": 3, "i": 4, "z": 5, "Y": 6}\<close>\<close>

definition filter_dict :: "string \<rightharpoonup> nat" where
  "filter_dict = [''u'' \<mapsto> 1, ''g'' \<mapsto> 2, ''r'' \<mapsto> 3, ''i'' \<mapsto> 4, ''z'' \<mapsto> 5, ''Y'' \<mapsto> 6]"

text \<open>\<^verbatim>\<open>[filter_dict[f] for f in filterName.to_numpy()[i]]\<close>; a missing key raises KeyError.\<close>

fun encode_filters :: "string list \<Rightarrow> error + nat list" where
  "encode_filters [] = Inr []"
| "encode_filters (f # fs) =
     (case filter_dict f of
        None \<Rightarrow> Inl KeyError
      | Some c \<Rightarrow> (case encode_filters fs of Inl e \<Rightarrow> Inl e | Inr cs \<Rightarrow> Inr (c # cs)))"

text \<open>\<^verbatim>\<open>mjds - mjds[0]\<close> (numpy broadcast; only evaluated under \<^verbatim>\<open>len(mjds) > 0\<close>).\<close>

definition cats_rescale :: "real list \<Rightarrow> real list" where
  "cats_rescale mjds = map (\<lambda>t. t - mjds ! 0) mjds"

text \<open>
  The arguments of \<^verbatim>\<open>predict_nn\<close>, its two mutable local lists \<^verbatim>\<open>mjd\<close> and
  \<^verbatim>\<open>filters\<close>, and the log of library effects.
\<close>

record cats_state =
  midpointTai :: "real list list"
  psFlux :: "real list list"
  psFluxErr :: "real list list"
  filterName :: "string list list"
  model :: "string list option"
  mjd :: "real list list"
  filters :: "nat list list"
  cats_trace :: "event list"

text \<open>
  What \<^verbatim>\<open>predict_nn\<close> calls outside the sources at hand: the package directory
  (\<^verbatim>\<open>os.path.dirname(os.path.abspath(__file__))\<close>), \<^verbatim>\<open>norm_column\<close> of
  \<^verbatim>\<open>fink_science.cats.utilities\<close>, the keras loader (the file system, read-only) and
  the inference entry point of a loaded network.
\<close>

record 'm cats_env =
  curdir :: string
  norm_column :: "real list \<Rightarrow> error + real list"
  load_model :: "string \<Rightarrow> error + 'm"
  nn_predict :: "'m \<Rightarrow> real list list list \<Rightarrow> error + real list list"

text \<open>
  Lines 109-117: \<^verbatim>\<open>for i, mjds in enumerate(midpointTai)\<close>.  An empty record is skipped;
  for the others the band codes are appended to \<^verbatim>\<open>filters\<close> and the shifted times to
  \<^verbatim>\<open>mjd\<close>.
\<close>

fun collect :: "nat \<Rightarrow> real list list \<Rightarrow> cats_state \<Rightarrow> error option \<times> cats_state" where
  "collect i [] s = (None, s)"
| "collect i (mjds # rest) s =
     (if length mjds > 0 then
        (if i < length (filterName s) then
           (case encode_filters (filterName s ! i) of
              Inl e \<Rightarrow> (Some e, s)
            | Inr codes \<Rightarrow>
                collect (Suc i) rest
                  (s\<lparr>filters := filters s @ [codes], mjd := mjd s @ [cats_rescale mjds]\<rparr>))
         else (Some IndexError, s))
      else collect (Suc i) rest s)"

text \<open>
  \<^verbatim>\<open>keras.utils.pad_sequences(seqs, maxlen=n, value=v, padding="post", dtype=...)\<close>:
  \<^verbatim>\<open>truncating\<close> keeps its default \<^verbatim>\<open>"pre"\<close>, so a longer sequence keeps its last
  \<open>n\<close> entries (\<^verbatim>\<open>s[-maxlen:]\<close>); a shorter one is filled with \<open>v\<close> at the end.
\<close>

definition pad_row :: "nat \<Rightarrow> 'a \<Rightarrow> 'a list \<Rightarrow> 'a list" where
  "pad_row maxlen v s =
     (let trunc = drop (length s - maxlen) s
      in trunc @ replicate (maxlen - length trunc) v)"

definition pad_sequences :: "nat \<Rightarrow> 'a \<Rightarrow> 'a list list \<Rightarrow> 'a list list" where
  "pad_sequences maxlen v sequences = map (pad_row maxlen v) sequences"

text \<open>
  \<^verbatim>\<open>np.concatenate([mjd[..., None], flux[..., None], error[..., None], band[..., None]], axis=-1)\<close>:
  the four matrices must have the same shape, else ValueError; entry \<open>(r, j)\<close> of the
  result is the 4-vector of the four channels.
\<close>

definition stack_row :: "real list \<Rightarrow> real list \<Rightarrow> real list \<Rightarrow> nat list \<Rightarrow> real list list" where
  "stack_row ts fs es bs = map (\<lambda>(t, f, e, b). [t, f, e, real b]) (zip ts (zip fs (zip es bs)))"

definition concatenate :: 
  "real list list \<Rightarrow> real list list \<Rightarrow> real list list \<Rightarrow> nat list list \<Rightarrow> error + real list list list" where
  "concatenate m f e b =
     (if map length f = map length m \<and> map length e = map length m \<and> map length b = map length m
      then Inr (map (\<lambda>(ts, fs, es, bs). stack_row ts fs es bs) (zip m (zip f (zip e b))))
      else Inl ValueError)"

text \<open>Lines 119-140: normalise, pad the four channels to 395 steps, stack them.\<close>

definition build_lc :: "'m cats_env \<Rightarrow> cats_state \<Rightarrow> error + real list list list" where
  "build_lc env s =
     raise_bind (apply_series (norm_column env) (psFlux s)) (\<lambda>flux.
     raise_bind (apply_series (norm_column env) (psFluxErr s)) (\<lambda>error.
       concatenate (pad_sequences 395 (-999) (mjd s))
                   (pad_sequences 395 (-999) flux)
                   (pad_sequences 395 (-999) error)
                   (pad_sequences 395 0 (filters s))))"

text \<open>Lines 142-147: the default artifact under the package directory, or \<^verbatim>\<open>model.to_numpy()[0]\<close>.\<close>

definition model_path :: "'m cats_env \<Rightarrow> string list option \<Rightarrow> error + string" where
  "model_path env mdl =
     (case mdl of
        None \<Rightarrow> Inr (curdir env @ ''/data/models/cats_models/cats_small_nometa_serial.keras'')
      | Some col \<Rightarrow> first_element col)"

definition log_cats :: "event \<Rightarrow> cats_state \<Rightarrow> cats_state" where
  "log_cats ev s = s\<lparr>cats_trace := cats_trace s @ [ev]\<rparr>"

text \<open>Lines 106-140: the tensor \<^verbatim>\<open>lc\<close> handed to the network, if its construction does not raise.\<close>

definition lc_tensor :: "'m cats_env \<Rightarrow> cats_state \<Rightarrow> (error + real list list list) \<times> cats_state" where
  "lc_tensor env s0 =
     (let s1 = s0\<lparr>mjd := [], filters := []\<rparr> in
      case collect 0 (midpointTai s1) s1 of
        (Some e, s2) \<Rightarrow> (Inl e, s2)
      | (None, s2) \<Rightarrow> (build_lc env s2, s2))"

text \<open>Lines 142-153: choose the artifact, load it, run it on \<^verbatim>\<open>lc\<close>, return \<^verbatim>\<open>pd.Series(list(preds))\<close>.\<close>

definition predict_nn :: "'m cats_env \<Rightarrow> cats_state \<Rightarrow> (error + real list list) \<times> cats_state" where
  "predict_nn env s0 =
     (case lc_tensor env s0 of
        (Inl e, s2) \<Rightarrow> (Inl e, s2)
      | (Inr lc, s2) \<Rightarrow>
          (case model_path env (model s2) of
             Inl e \<Rightarrow> (Inl e, s2)
           | Inr p \<Rightarrow>
               (let s3 = log_cats (LoadKeras p) s2 in
                case load_model env p of
                  Inl e \<Rightarrow> (Inl e, s3)
                | Inr NN \<Rightarrow>
                    (let s4 = log_cats Predict s3 in
                     case nn_predict env NN lc of
                       Inl e \<Rightarrow> (Inl e, s4)
                     | Inr preds \<Rightarrow> (Inr preds, s4)))))"

text \<open>An instance of the environment on which the definitions can be run.\<close>

definition cats_env0 :: "unit cats_env" where
  "cats_env0 =
     \<lparr>curdir = ''/pkg'',
      norm_column = (\<lambda>col. Inr col),
      load_model = (\<lambda>p. Inr ()),
      nn_predict = (\<lambda>NN lc. Inr (map (\<lambda>row. [1, 0, 0, 0, 0]) lc))\<rparr>"

definition cats_batch ::
  "real list list \<Rightarrow> real list list \<Rightarrow> real list list \<Rightarrow> string list list \<Rightarrow> string list option \<Rightarrow> cats_state" where
  "cats_batch t f e b m =
     \<lparr>midpointTai = t, psFlux = f, psFluxErr = e, filterName = b, model = m,
      mjd = [], filters = [], cats_trace = []\<rparr>"

text \<open>
  Reading the tensor: channel \<open>k\<close> of one object's row of cells, and what it means for a
  row to be a series cut to its last \<open>n\<close> steps and filled at the end with a sentinel.
\<close>

definition channel :: "nat \<Rightarrow> 'a list list \<Rightarrow> 'a list" where
  "channel k row = map (\<lambda>cell. cell ! k) row"

definition post_padded :: "nat \<Rightarrow> 'a \<Rightarrow> 'a list \<Rightarrow> 'a list \<Rightarrow> bool" where
  "post_padded n v series row \<longleftrightarrow>
     length row = n \<and>
     (\<forall>j<n. row ! j = (if j < length series then series ! (length series - n + j) else v))"

section \<open>T2: \<^verbatim>\<open>t2\<close>\<close>

text \<open>\<^verbatim>\<open>dict(pairs)\<close> and a dict comprehension: a key given twice keeps its last value.\<close>

definition dict :: "('k \<times> 'v) list \<Rightarrow> 'k \<rightharpoonup> 'v" where
  "dict kvs = map_of (rev kvs)"

text \<open>\<^verbatim>\<open>ZTF_FILTER_MAP = {1: "ztfg", 2: "ztfr", 3: "ztfi"}\<close> and \<^verbatim>\<open>ZTF_PB_WAVELENGTHS\<close>.\<close>

definition ZTF_FILTER_MAP :: "int \<rightharpoonup> string" where
  "ZTF_FILTER_MAP = [1 \<mapsto> ''ztfg'', 2 \<mapsto> ''ztfr'', 3 \<mapsto> ''ztfi'']"

definition ZTF_PB_WAVELENGTHS :: "(string \<times> real) list" where
  "ZTF_PB_WAVELENGTHS = [(''ztfg'', 4804.79), (''ztfr'', 6436.92), (''ztfi'', 7968.22)]"

text \<open>\<^verbatim>\<open>lambda x: [x[0] - i for i in x]\<close>; on an empty list the body is never evaluated.\<close>

definition t2_rescale :: "real list \<Rightarrow> real list" where
  "t2_rescale x = map (\<lambda>i. x ! 0 - i) x"

text \<open>
  A cell of the filter column.  \<^verbatim>\<open>format_data_as_snana\<close> turns a filter id into a
  band name through \<^verbatim>\<open>filter_conversion_dic\<close>; an id that the dictionary does not
  know stays in the column as the integer it was.
\<close>

datatype flt = FltName string | FltId int

text \<open>
  One row of the table that \<^verbatim>\<open>format_data_as_snana\<close> returns (columns SNID, MJD,
  FLUXCAL, FLUXCALERR, FLT; \<open>None\<close> is a missing value), and of the table after
  \<^verbatim>\<open>pdf.rename(columns=...)\<close>.
\<close>

record snana_row =
  SNID :: int
  MJD :: "real option"
  FLUXCAL :: "real option"
  FLUXCALERR :: "real option"
  FLT :: "flt option"

record lc_row =
  object_id :: int
  lc_mjd :: "real option"
  flux :: "real option"
  flux_error :: "real option"
  lc_filter :: "flt option"

definition rename :: "snana_row list \<Rightarrow> lc_row list" where
  "rename pdf =
     map (\<lambda>r. \<lparr>object_id = SNID r, lc_mjd = MJD r, flux = FLUXCAL r,
                flux_error = FLUXCALERR r, lc_filter = FLT r\<rparr>) pdf"

text \<open>\<^verbatim>\<open>pdf.dropna()\<close>: rows with a missing value in any column are removed.\<close>

definition dropna :: "lc_row list \<Rightarrow> lc_row list" where
  "dropna pdf =
     filter (\<lambda>r. lc_mjd r \<noteq> None \<and> flux r \<noteq> None \<and> flux_error r \<noteq> None \<and> lc_filter r \<noteq> None) pdf"

text \<open>
  \<^verbatim>\<open>pdf.reset_index()\<close> renumbers the row labels by position; a list carries no labels,
  so the rows are unchanged.
\<close>

definition reset_index :: "lc_row list \<Rightarrow> lc_row list" where
  "reset_index pdf = pdf"

text \<open>
  Boolean indexing.  \<^verbatim>\<open>series[mask]\<close> keeps the entries whose mask is true, in order;
  \<^verbatim>\<open>arr[mask] = vals\<close> writes the values, in order, to the positions whose mask is true
  (one value is broadcast).  A mask of the wrong length raises, and so does a wrong number
  of values.
\<close>

definition mask_select :: "'a list \<Rightarrow> bool list \<Rightarrow> error + 'a list" where
  "mask_select xs msk =
     (if length msk = length xs then Inr (map fst (filter snd (zip xs msk)))
      else Inl IndexError)"

fun mask_update :: "'a list \<Rightarrow> bool list \<Rightarrow> 'a list \<Rightarrow> 'a list" where
  "mask_update (x # xs) (True # ms) (v # vs) = v # mask_update xs ms vs"
| "mask_update (x # xs) (False # ms) vs = x # mask_update xs ms vs"
| "mask_update xs ms vs = xs"

definition mask_assign :: "'a list \<Rightarrow> bool list \<Rightarrow> 'a list \<Rightarrow> error + 'a list" where
  "mask_assign arr msk vs =
     (let k = length (filter (\<lambda>b. b) msk) in
      if length msk \<noteq> length arr then Inl IndexError
      else if length vs = k then Inr (mask_update arr msk vs)
      else if length vs = 1 then Inr (mask_update arr msk (replicate k (vs ! 0)))
      else Inl ValueError)"

text \<open>
  The arguments of \<^verbatim>\<open>t2\<close>, its mutable locals \<^verbatim>\<open>to_return\<close> (a numpy object array)
  and \<^verbatim>\<open>vals\<close> (a list), and the log of library effects.
\<close>

record t2_state =
  candid :: "int list"
  jd :: "real list list"
  fid :: "int list list"
  magpsf :: "real list list"
  sigmapsf :: "real list list"
  roid :: "int list"
  cdsxmatch :: "string list"
  jdstarthist :: "real list"
  model_name :: "string list option"
  to_return :: "(string \<rightharpoonup> real) list"
  vals :: "(string \<rightharpoonup> real) list"
  t2_trace :: "event list"

text \<open>
  What \<^verbatim>\<open>t2\<close> calls outside the sources at hand: the class labels \<^verbatim>\<open>T2_COLS\<close>,
  \<^verbatim>\<open>apply_selection_cuts_ztf\<close> and \<^verbatim>\<open>get_lite_model\<close> of
  \<^verbatim>\<open>fink_science.t2.utilities\<close> (the latter called with no argument, \<open>None\<close>, or with
  a model name), \<^verbatim>\<open>format_data_as_snana\<close> of \<^verbatim>\<open>fink_utils\<close>, the feature
  extraction of lines 166-174 (\<^verbatim>\<open>generate_gp_all_objects\<close>, \<^verbatim>\<open>robust_scale\<close>, the
  column selection and the cast to a float32 batch of one), and \<^verbatim>\<open>model.predict(X).tolist()\<close>.
\<close>

record ('m, 'x) t2_env =
  T2_COLS :: "string list"
  apply_selection_cuts_ztf ::
    "real list list \<Rightarrow> string list \<Rightarrow> real list list \<Rightarrow> real list \<Rightarrow> int list \<Rightarrow> error + bool list"
  format_data_as_snana ::
    "real list list \<Rightarrow> real list list \<Rightarrow> real list list \<Rightarrow> int list list \<Rightarrow> int list \<Rightarrow>
       bool list \<Rightarrow> (int \<rightharpoonup> string) \<Rightarrow> error + snana_row list"
  get_lite_model :: "string option \<Rightarrow> error + 'm"
  gp_features :: "int list \<Rightarrow> lc_row list \<Rightarrow> (string \<times> real) list \<Rightarrow> error + 'x"
  lite_predict :: "'m \<Rightarrow> 'x \<Rightarrow> error + real list list"

text \<open>\<^verbatim>\<open>default = {k: -1.0 for k in T2_COLS}\<close>\<close>

definition default_t2 :: "('m, 'x) t2_env \<Rightarrow> string \<rightharpoonup> real" where
  "default_t2 env = dict (map (\<lambda>k. (k, -1)) (T2_COLS env))"

definition log_t2 :: "event \<Rightarrow> t2_state \<Rightarrow> t2_state" where
  "log_t2 ev s = s\<lparr>t2_trace := t2_trace s @ [ev]\<rparr>"

text \<open>\<^verbatim>\<open>sub = pdf[pdf["object_id"] == candid_]\<close>\<close>

definition object_rows :: "lc_row list \<Rightarrow> int \<Rightarrow> lc_row list" where
  "object_rows pdf cand = filter (\<lambda>r. object_id r = cand) pdf"

text \<open>
  \<^verbatim>\<open>len(np.unique(sub["filter"]))\<close>.  \<^verbatim>\<open>np.unique\<close> sorts the column, and
  comparing a band name with an integer (or with a missing value) raises TypeError: the
  count exists only for a column whose cells are all of one kind.
\<close>

fun flt_kind :: "flt option \<Rightarrow> nat" where
  "flt_kind None = 0"
| "flt_kind (Some (FltName b)) = 1"
| "flt_kind (Some (FltId i)) = 2"

definition n_filters :: "lc_row list \<Rightarrow> error + nat" where
  "n_filters sub =
     (let col = map lc_filter sub in
      if length (remdups (map flt_kind col)) > 1 then Inl TypeError
      else Inr (length (remdups col)))"

text \<open>
  Lines 166-179, for an object that shows two filters: features, inference, and
  \<^verbatim>\<open>dict(zip(T2_COLS, values[0]))\<close>.
\<close>

definition predictions ::
  "('m, 'x) t2_env \<Rightarrow> 'm \<Rightarrow> int \<Rightarrow> lc_row list \<Rightarrow> error + (string \<rightharpoonup> real)" where
  "predictions env mdl cand sub =
     raise_bind (gp_features env [cand] sub ZTF_PB_WAVELENGTHS) (\<lambda>X.
     raise_bind (lite_predict env mdl X) (\<lambda>values.
     raise_bind (first_element values) (\<lambda>v.
       Inr (dict (zip (T2_COLS env) v)))))"

text \<open>Lines 156-180: \<^verbatim>\<open>for candid_ in candid[mask].to_numpy()\<close>, one object at a time.\<close>

fun classify ::
  "('m, 'x) t2_env \<Rightarrow> 'm \<Rightarrow> lc_row list \<Rightarrow> int list \<Rightarrow> t2_state \<Rightarrow> error option \<times> t2_state" where
  "classify env mdl pdf [] s = (None, s)"
| "classify env mdl pdf (cand # rest) s =
     (let sub = object_rows pdf cand in
      case n_filters sub of
        Inl e \<Rightarrow> (Some e, s)
      | Inr k \<Rightarrow>
          if k \<noteq> 2 then
            classify env mdl pdf rest (s\<lparr>vals := vals s @ [default_t2 env]\<rparr>)
          else
            (let s' = log_t2 Predict s in
             case predictions env mdl cand sub of
               Inl e \<Rightarrow> (Some e, s')
             | Inr p \<Rightarrow> classify env mdl pdf rest (s'\<lparr>vals := vals s' @ [p]\<rparr>)))"

text \<open>Lines 148-153: the argument of \<^verbatim>\<open>get_lite_model\<close>.\<close>

definition lite_model_arg :: "string list option \<Rightarrow> error + string option" where
  "lite_model_arg mn =
     (case mn of
        None \<Rightarrow> Inr None
      | Some col \<Rightarrow> raise_bind (first_element col) (\<lambda>name. Inr (Some name)))"

text \<open>Lines 128-146: rescaled dates, the SNANA table, renamed, without missing values.\<close>

definition light_curves :: "('m, 'x) t2_env \<Rightarrow> bool list \<Rightarrow> t2_state \<Rightarrow> error + lc_row list" where
  "light_curves env msk s =
     (let dates = map t2_rescale (jd s) in
      raise_bind
        (format_data_as_snana env dates (magpsf s) (sigmapsf s) (fid s) (candid s) msk ZTF_FILTER_MAP)
        (\<lambda>pdf. Inr (reset_index (dropna (rename pdf)))))"

text \<open>Lines 120-185: what \<^verbatim>\<open>t2\<close> does once some record has passed the cuts.\<close>

definition t2_classified ::
  "('m, 'x) t2_env \<Rightarrow> bool list \<Rightarrow> t2_state \<Rightarrow> (error + (string \<rightharpoonup> real) list) \<times> t2_state" where
  "t2_classified env msk s1 =
     (case light_curves env msk s1 of
        Inl e \<Rightarrow> (Inl e, s1)
      | Inr pdf \<Rightarrow>
          (case lite_model_arg (model_name s1) of
             Inl e \<Rightarrow> (Inl e, s1)
           | Inr name \<Rightarrow>
               (let s2 = log_t2 (LoadLite name) s1 in
                case get_lite_model env name of
                  Inl e \<Rightarrow> (Inl e, s2)
                | Inr mdl \<Rightarrow>
                    (let s3 = s2\<lparr>vals := []\<rparr> in
                     case mask_select (candid s3) msk of
                       Inl e \<Rightarrow> (Inl e, s3)
                     | Inr selected \<Rightarrow>
                         (case classify env mdl pdf selected s3 of
                            (Some e, s4) \<Rightarrow> (Inl e, s4)
                          | (None, s4) \<Rightarrow>
                              (case mask_assign (to_return s4) msk (vals s4) of
                                 Inl e \<Rightarrow> (Inl e, s4)
                               | Inr arr \<Rightarrow>
                                   (let s5 = s4\<lparr>to_return := arr\<rparr>
                                    in (Inr (to_return s5), s5))))))))"

text \<open>Lines 112-118 and the call of the rest.\<close>

definition t2 ::
  "('m, 'x) t2_env \<Rightarrow> t2_state \<Rightarrow> (error + (string \<rightharpoonup> real) list) \<times> t2_state" where
  "t2 env s0 =
     (let s1 = s0\<lparr>to_return := replicate (length (jd s0)) (default_t2 env)\<rparr> in
      case apply_selection_cuts_ztf env (magpsf s1) (cdsxmatch s1) (jd s1) (jdstarthist s1) (roid s1) of
        Inl e \<Rightarrow> (Inl e, s1)
      | Inr msk \<Rightarrow>
          (case mask_select (jd s1) msk of
             Inl e \<Rightarrow> (Inl e, s1)
           | Inr passed \<Rightarrow>
               if length passed = 0 then (Inr (to_return s1), s1)
               else t2_classified env msk s1))"

text \<open>An instance of the environment on which the definitions can be run.\<close>

definition snana_rows_of ::
  "(real list \<times> real list \<times> real list \<times> int list \<times> int \<times> bool) \<Rightarrow> (int \<rightharpoonup> string) \<Rightarrow> snana_row list" where
  "snana_rows_of obj fmap =
     (case obj of (ds, ms, es, fs, c, keep) \<Rightarrow>
        if keep then
          map (\<lambda>(d, m, e, f).
                 \<lparr>SNID = c, MJD = Some d, FLUXCAL = Some m, FLUXCALERR = Some e,
                  FLT = Some (case fmap f of None \<Rightarrow> FltId f | Some b \<Rightarrow> FltName b)\<rparr>)
            (zip ds (zip ms (zip es fs)))
        else [])"

definition t2_env0 :: "(unit, lc_row list) t2_env" where
  "t2_env0 =
     \<lparr>T2_COLS = [''AGN'', ''SNIa''],
      apply_selection_cuts_ztf = (\<lambda>mag cds jds start rd. Inr (map (\<lambda>m. 2 \<le> length m) mag)),
      format_data_as_snana = (\<lambda>dates mag sig fids cands msk fmap.
         Inr (concat (map (\<lambda>obj. snana_rows_of obj fmap)
                (zip dates (zip mag (zip sig (zip fids (zip cands msk)))))))),
      get_lite_model = (\<lambda>name. Inr ()),
      gp_features = (\<lambda>ids sub wl. Inr sub),
      lite_predict = (\<lambda>mdl X. Inr [[1 / 4, 3 / 4]])\<rparr>"

definition t2_batch ::
  "int list \<Rightarrow> real list list \<Rightarrow> int list list \<Rightarrow> real list list \<Rightarrow> real list list \<Rightarrow>
     string list option \<Rightarrow> t2_state" where
  "t2_batch c t f m e mn =
     \<lparr>candid = c, jd = t, fid = f, magpsf = m, sigmapsf = e,
      roid = map (\<lambda>_. 0) c, cdsxmatch = map (\<lambda>_. ''Unknown'') c, jdstarthist = map (\<lambda>_. 0) c,
      model_name = mn, to_return = [], vals = [], t2_trace = []\<rparr>"

section \<open>Properties of \<^verbatim>\<open>predict_nn\<close>\<close>

lemma length_pad_row: "length (pad_row n v s) = n"
  by (simp add: pad_row_def Let_def)

lemma pad_row_short: "length s \<le> n \<Longrightarrow> pad_row n v s = s @ replicate (n - length s) v"
  by (simp add: pad_row_def Let_def)

lemma pad_row_long: "n \<le> length s \<Longrightarrow> pad_row n v s = drop (length s - n) s"
  by (simp add: pad_row_def Let_def)

lemma pad_row_nth_data:
  "j < n \<Longrightarrow> j < length s \<Longrightarrow> pad_row n v s ! j = s ! (length s - n + j)"
proof (cases "length s \<le> n")
  case True
  assume "j < length s"
  with True show ?thesis by (simp add: pad_row_short nth_append)
next
  case False
  assume "j < n"
  with False show ?thesis by (simp add: pad_row_long)
qed

lemma pad_row_nth_pad:
  "j < n \<Longrightarrow> length s \<le> j \<Longrightarrow> pad_row n v s ! j = v"
  by (simp add: pad_row_def Let_def nth_append)

lemma apply_series_Inr:
  "apply_series f xs = Inr ys \<Longrightarrow>
     length ys = length xs \<and> (\<forall>i<length xs. f (xs ! i) = Inr (ys ! i))"
proof (induction xs arbitrary: ys)
  case Nil
  then show ?case by simp
next
  case (Cons x xs)
  then obtain y ys' where y: "f x = Inr y" and ys': "apply_series f xs = Inr ys'"
    and eq: "ys = y # ys'"
    by (auto split: sum.splits)
  from Cons.IH [OF ys'] y eq show ?case
    by (auto simp: nth_Cons split: nat.splits)
qed

lemma apply_series_total:
  "\<forall>x\<in>set xs. \<exists>y. f x = Inr y \<Longrightarrow> \<exists>ys. apply_series f xs = Inr ys"
  by (induction xs) (auto split: sum.splits)

lemma filter_dict_range: "filter_dict f = Some c \<Longrightarrow> 1 \<le> c \<and> c \<le> 6"
  by (auto simp: filter_dict_def split: if_splits)

lemma encode_filters_Inr:
  "encode_filters fs = Inr cs \<Longrightarrow>
     length cs = length fs \<and> (\<forall>j<length fs. filter_dict (fs ! j) = Some (cs ! j))"
proof (induction fs arbitrary: cs)
  case Nil
  then show ?case by simp
next
  case (Cons f fs)
  then obtain c cs' where c: "filter_dict f = Some c" and cs': "encode_filters fs = Inr cs'"
    and eq: "cs = c # cs'"
    by (auto split: option.splits sum.splits)
  from Cons.IH [OF cs'] c eq show ?case
    by (auto simp: nth_Cons split: nat.splits)
qed

lemma encode_filters_total:
  "set fs \<subseteq> dom filter_dict \<Longrightarrow> \<exists>cs. encode_filters fs = Inr cs"
  by (induction fs) (auto split: option.splits sum.splits)

lemma encode_filters_error: "encode_filters fs = Inl e \<Longrightarrow> e = KeyError"
  by (induction fs arbitrary: e) (auto split: option.splits sum.splits)

lemma encode_filters_KeyError:
  assumes "\<not> set fs \<subseteq> dom filter_dict"
  shows "encode_filters fs = Inl KeyError"
proof (cases "encode_filters fs")
  case (Inl e)
  then show ?thesis using encode_filters_error by blast
next
  case (Inr cs)
  from encode_filters_Inr [OF Inr] have "\<forall>j<length fs. fs ! j \<in> dom filter_dict" by blast
  then have "set fs \<subseteq> dom filter_dict" by (auto simp: in_set_conv_nth)
  with assms show ?thesis by simp
qed

lemma collect_frame:
  "collect i xs s = (r, s') \<Longrightarrow>
     midpointTai s' = midpointTai s \<and> psFlux s' = psFlux s \<and> psFluxErr s' = psFluxErr s \<and>
     filterName s' = filterName s \<and> model s' = model s \<and> cats_trace s' = cats_trace s"
proof (induction i xs s rule: collect.induct)
  case (1 i s)
  then show ?case by simp
next
  case (2 i mjds rest s)
  then show ?case
    by (auto split: if_splits sum.splits)
qed

lemma collect_lengths:
  "collect i xs s = (None, s') \<Longrightarrow>
     length (mjd s') = length (mjd s) + length (filter (\<lambda>m. m \<noteq> []) xs) \<and>
     length (filters s') = length (filters s) + length (filter (\<lambda>m. m \<noteq> []) xs)"
proof (induction i xs s rule: collect.induct)
  case (1 i s)
  then show ?case by simp
next
  case (2 i mjds rest s)
  then show ?case
    by (auto split: if_splits sum.splits)
qed

lemma collect_nonempty:
  "collect i xs s = (None, s') \<Longrightarrow> \<forall>m\<in>set xs. m \<noteq> [] \<Longrightarrow>
     mjd s' = mjd s @ map cats_rescale xs \<and>
     length (filters s') = length (filters s) + length xs \<and>
     take (length (filters s)) (filters s') = filters s \<and>
     (\<forall>k<length xs. i + k < length (filterName s) \<and>
         encode_filters (filterName s ! (i + k)) = Inr (filters s' ! (length (filters s) + k)))"
proof (induction i xs s rule: collect.induct)
  case (1 i s)
  then show ?case by simp
next
  case (2 i mjds rest s)
  from "2.prems" have ne: "mjds \<noteq> []" and rest: "\<forall>m\<in>set rest. m \<noteq> []" by auto
  from "2.prems"(1) ne obtain codes where
    i: "i < length (filterName s)" and codes: "encode_filters (filterName s ! i) = Inr codes"
    and rec: "collect (Suc i) rest
       (s\<lparr>filters := filters s @ [codes], mjd := mjd s @ [cats_rescale mjds]\<rparr>) = (None, s')"
    by (auto split: if_splits sum.splits)
  let ?s = "s\<lparr>filters := filters s @ [codes], mjd := mjd s @ [cats_rescale mjds]\<rparr>"
  from "2.IH"(1) [OF _ i codes rec rest] ne
  have ih: "mjd s' = mjd ?s @ map cats_rescale rest"
    "length (filters s') = length (filters ?s) + length rest"
    "take (length (filters ?s)) (filters s') = filters ?s"
    "\<forall>k<length rest. Suc i + k < length (filterName ?s) \<and>
         encode_filters (filterName ?s ! (Suc i + k)) = Inr (filters s' ! (length (filters ?s) + k))"
    by auto
  have a: "mjd s' = mjd s @ map cats_rescale (mjds # rest)" using ih(1) by simp
  have b: "length (filters s') = length (filters s) + length (mjds # rest)" using ih(2) by simp
  have t: "take (Suc (length (filters s))) (filters s') = filters s @ [codes]" using ih(3) by simp
  have c: "take (length (filters s)) (filters s') = filters s"
  proof -
    have "take (length (filters s)) (take (Suc (length (filters s))) (filters s')) = filters s"
      unfolding t by simp
    then show ?thesis by simp
  qed
  have d0: "filters s' ! length (filters s) = codes"
  proof -
    have "take (Suc (length (filters s))) (filters s') ! length (filters s) = codes"
      unfolding t by simp
    then show ?thesis by simp
  qed
  have d: "\<forall>k<length (mjds # rest). i + k < length (filterName s) \<and>
         encode_filters (filterName s ! (i + k)) = Inr (filters s' ! (length (filters s) + k))"
  proof (intro allI impI)
    fix k assume k: "k < length (mjds # rest)"
    show "i + k < length (filterName s) \<and>
         encode_filters (filterName s ! (i + k)) = Inr (filters s' ! (length (filters s) + k))"
    proof (cases k)
      case 0
      then show ?thesis using i codes d0 by simp
    next
      case (Suc k')
      with k have "k' < length rest" by simp
      with ih(4) Suc show ?thesis by simp
    qed
  qed
  from a b c d show ?case by blast
qed

lemma collect_total:
  "\<forall>m\<in>set xs. m \<noteq> [] \<Longrightarrow> i + length xs \<le> length (filterName s) \<Longrightarrow>
   \<forall>k<length xs. set (filterName s ! (i + k)) \<subseteq> dom filter_dict \<Longrightarrow>
   fst (collect i xs s) = None"
proof (induction i xs s rule: collect.induct)
  case (1 i s)
  then show ?case by simp
next
  case (2 i mjds rest s)
  from "2.prems" have ne: "mjds \<noteq> []" and rest: "\<forall>m\<in>set rest. m \<noteq> []"
    and i: "i < length (filterName s)" by auto
  from "2.prems"(3) have "set (filterName s ! (i + 0)) \<subseteq> dom filter_dict" by blast
  then obtain codes where codes: "encode_filters (filterName s ! i) = Inr codes"
    using encode_filters_total by fastforce
  let ?s = "s\<lparr>filters := filters s @ [codes], mjd := mjd s @ [cats_rescale mjds]\<rparr>"
  have len: "Suc i + length rest \<le> length (filterName ?s)" using "2.prems"(2) by simp
  have val: "\<forall>k<length rest. set (filterName ?s ! (Suc i + k)) \<subseteq> dom filter_dict"
  proof (intro allI impI)
    fix k assume "k < length rest"
    then have "Suc k < length (mjds # rest)" by simp
    with "2.prems"(3) have "set (filterName s ! (i + Suc k)) \<subseteq> dom filter_dict" by blast
    then show "set (filterName ?s ! (Suc i + k)) \<subseteq> dom filter_dict" by simp
  qed
  from "2.IH"(1) [OF _ i codes rest len val] ne
  have "fst (collect (Suc i) rest ?s) = None" by simp
  with ne i codes show ?case by simp
qed

lemma stack_row_nth:
  "length fs = length ts \<Longrightarrow> length es = length ts \<Longrightarrow> length bs = length ts \<Longrightarrow> j < length ts \<Longrightarrow>
     stack_row ts fs es bs ! j = [ts ! j, fs ! j, es ! j, real (bs ! j)]"
  by (simp add: stack_row_def)

lemma length_stack_row:
  "length fs = length ts \<Longrightarrow> length es = length ts \<Longrightarrow> length bs = length ts \<Longrightarrow>
     length (stack_row ts fs es bs) = length ts"
  by (simp add: stack_row_def)

lemma concatenate_Inr:
  assumes "concatenate m f e b = Inr lc"
  shows "length lc = length m \<and> length f = length m \<and> length e = length m \<and> length b = length m \<and>
    (\<forall>r<length m. lc ! r = stack_row (m ! r) (f ! r) (e ! r) (b ! r) \<and>
        length (f ! r) = length (m ! r) \<and> length (e ! r) = length (m ! r) \<and>
        length (b ! r) = length (m ! r))"
proof -
  from assms have sh: "map length f = map length m" "map length e = map length m"
    "map length b = map length m"
    and lc: "lc = map (\<lambda>(ts, fs, es, bs). stack_row ts fs es bs) (zip m (zip f (zip e b)))"
    by (auto simp: concatenate_def split: if_splits)
  from sh have len: "length f = length m" "length e = length m" "length b = length m"
    by (metis length_map)+
  have rows: "\<forall>r<length m. length (f ! r) = length (m ! r) \<and> length (e ! r) = length (m ! r) \<and>
        length (b ! r) = length (m ! r)"
  proof (intro allI impI)
    fix r assume r: "r < length m"
    from sh(1) r len have "length (f ! r) = length (m ! r)" by (metis nth_map)
    moreover from sh(2) r len have "length (e ! r) = length (m ! r)" by (metis nth_map)
    moreover from sh(3) r len have "length (b ! r) = length (m ! r)" by (metis nth_map)
    ultimately show "length (f ! r) = length (m ! r) \<and> length (e ! r) = length (m ! r) \<and>
        length (b ! r) = length (m ! r)" by simp
  qed
  from lc len have "length lc = length m" by simp
  moreover from lc len have "\<forall>r<length m. lc ! r = stack_row (m ! r) (f ! r) (e ! r) (b ! r)"
    by simp
  ultimately show ?thesis using len rows by blast
qed

lemma concatenate_mismatch:
  "length f \<noteq> length m \<Longrightarrow> concatenate m f e b = Inl ValueError"
  by (auto simp: concatenate_def dest: map_eq_imp_length_eq)

lemma concatenate_total:
  assumes "length f = length m" "length e = length m" "length b = length m"
    and "\<forall>r<length m. length (f ! r) = length (m ! r) \<and> length (e ! r) = length (m ! r) \<and>
        length (b ! r) = length (m ! r)"
  shows "\<exists>lc. concatenate m f e b = Inr lc"
proof -
  from assms have "map length f = map length m" "map length e = map length m"
    "map length b = map length m"
    by (simp_all add: list_eq_iff_nth_eq)
  then show ?thesis by (simp add: concatenate_def)
qed

lemma length_pad_sequences: "length (pad_sequences n v xs) = length xs"
  by (simp add: pad_sequences_def)

lemma pad_sequences_nth: "r < length xs \<Longrightarrow> pad_sequences n v xs ! r = pad_row n v (xs ! r)"
  by (simp add: pad_sequences_def)

lemma raise_bind_Inr: "raise_bind r f = Inr y \<Longrightarrow> \<exists>v. r = Inr v \<and> f v = Inr y"
  by (auto simp: raise_bind_def split: sum.splits)

lemma filter_all:
  "length (filter P xs) = length xs \<Longrightarrow> \<forall>x\<in>set xs. P x"
  by (metis length_filter_less less_irrefl)

text \<open>What a successful construction of lc looks like.\<close>

lemma lc_tensor_Inr:
  assumes n: "length (midpointTai s) = n" "length (psFlux s) = n" "length (psFluxErr s) = n"
      "length (filterName s) = n"
    and ok: "fst (lc_tensor env s) = Inr lc"
  shows "\<exists>flux err codes.
      apply_series (norm_column env) (psFlux s) = Inr flux \<and>
      apply_series (norm_column env) (psFluxErr s) = Inr err \<and>
      length codes = n \<and>
      (\<forall>r<n. midpointTai s ! r \<noteq> [] \<and> encode_filters (filterName s ! r) = Inr (codes ! r)) \<and>
      length lc = n \<and>
      (\<forall>r<n. lc ! r = stack_row (pad_row 395 (-999) (cats_rescale (midpointTai s ! r)))
                                 (pad_row 395 (-999) (flux ! r))
                                 (pad_row 395 (-999) (err ! r))
                                 (pad_row 395 0 (codes ! r)))"
proof -
  let ?s1 = "s\<lparr>mjd := [], filters := []\<rparr>"
  obtain r0 s2 where c: "collect 0 (midpointTai ?s1) ?s1 = (r0, s2)" by (cases "collect 0 (midpointTai ?s1) ?s1")
  from ok c have r0: "r0 = None" and b: "build_lc env s2 = Inr lc"
    by (auto simp: lc_tensor_def Let_def split: option.splits)
  from collect_frame [OF c] have fr: "midpointTai s2 = midpointTai s" "psFlux s2 = psFlux s"
    "psFluxErr s2 = psFluxErr s" "filterName s2 = filterName s"
    by simp_all
  from b obtain flux err where flux: "apply_series (norm_column env) (psFlux s) = Inr flux"
    and err: "apply_series (norm_column env) (psFluxErr s) = Inr err"
    and cc: "concatenate (pad_sequences 395 (-999) (mjd s2)) (pad_sequences 395 (-999) flux)
               (pad_sequences 395 (-999) err) (pad_sequences 395 0 (filters s2)) = Inr lc"
    unfolding build_lc_def fr by (blast dest: raise_bind_Inr)
  from apply_series_Inr [OF flux] n have lf: "length flux = n" by simp
  from concatenate_Inr [OF cc] have
    l1: "length lc = length (mjd s2)" and l2: "length flux = length (mjd s2)"
    and l3: "length err = length (mjd s2)" and l4: "length (filters s2) = length (mjd s2)"
    and rows: "\<forall>r<length (mjd s2). lc ! r =
       stack_row (pad_sequences 395 (-999) (mjd s2) ! r) (pad_sequences 395 (-999) flux ! r)
         (pad_sequences 395 (-999) err ! r) (pad_sequences 395 0 (filters s2) ! r)"
    by (simp_all add: length_pad_sequences)
  from l2 lf have lm: "length (mjd s2) = n" by simp
  from c r0 have c': "collect 0 (midpointTai s) ?s1 = (None, s2)" by simp
  from collect_lengths [OF c'] lm n
  have "length (filter (\<lambda>m. m \<noteq> []) (midpointTai s)) = length (midpointTai s)" by simp
  then have ne: "\<forall>m\<in>set (midpointTai s). m \<noteq> []" by (rule filter_all)
  from collect_nonempty [OF c' ne]
  have m2: "mjd s2 = map cats_rescale (midpointTai s)"
    and enc: "\<forall>k<n. encode_filters (filterName s ! k) = Inr (filters s2 ! k)"
    using n by simp_all
  have "\<forall>r<n. midpointTai s ! r \<noteq> [] \<and> encode_filters (filterName s ! r) = Inr (filters s2 ! r)"
    using ne enc n by (simp add: all_set_conv_all_nth)
  moreover have "\<forall>r<n. lc ! r = stack_row (pad_row 395 (-999) (cats_rescale (midpointTai s ! r)))
                                 (pad_row 395 (-999) (flux ! r))
                                 (pad_row 395 (-999) (err ! r))
                                 (pad_row 395 0 (filters s2 ! r))"
    using rows lm l2 l3 l4 n by (simp add: pad_sequences_nth m2)
  ultimately show ?thesis using flux err l1 l4 lm by blast
qed

lemma lc_tensor_total:
  assumes n: "length (midpointTai s) = n" "length (psFlux s) = n" "length (psFluxErr s) = n"
      "length (filterName s) = n"
    and wf: "\<forall>r<n. midpointTai s ! r \<noteq> [] \<and> set (filterName s ! r) \<subseteq> dom filter_dict \<and>
        (\<exists>y. norm_column env (psFlux s ! r) = Inr y) \<and>
        (\<exists>y. norm_column env (psFluxErr s ! r) = Inr y)"
  shows "\<exists>lc. fst (lc_tensor env s) = Inr lc"
proof -
  let ?s1 = "s\<lparr>mjd := [], filters := []\<rparr>"
  obtain r0 s2 where c: "collect 0 (midpointTai ?s1) ?s1 = (r0, s2)" by (cases "collect 0 (midpointTai ?s1) ?s1")
  have ne: "\<forall>m\<in>set (midpointTai s). m \<noteq> []" using wf n by (simp add: all_set_conv_all_nth)
  have "fst (collect 0 (midpointTai s) ?s1) = None"
    using ne n wf by (intro collect_total) simp_all
  with c have c': "collect 0 (midpointTai s) ?s1 = (None, s2)" by simp
  from collect_frame [OF c'] have fr: "midpointTai s2 = midpointTai s" "psFlux s2 = psFlux s"
    "psFluxErr s2 = psFluxErr s" "filterName s2 = filterName s"
    by simp_all
  from collect_lengths [OF c'] ne have lm: "length (mjd s2) = n" "length (filters s2) = n"
    using n by (simp_all add: filter_id_conv [THEN iffD2])
  have "\<forall>x\<in>set (psFlux s). \<exists>y. norm_column env x = Inr y"
    using wf n by (simp add: all_set_conv_all_nth)
  then obtain flux where flux: "apply_series (norm_column env) (psFlux s) = Inr flux"
    using apply_series_total by blast
  have "\<forall>x\<in>set (psFluxErr s). \<exists>y. norm_column env x = Inr y"
    using wf n by (simp add: all_set_conv_all_nth)
  then obtain err where err: "apply_series (norm_column env) (psFluxErr s) = Inr err"
    using apply_series_total by blast
  from apply_series_Inr [OF flux] apply_series_Inr [OF err] n
  have lf: "length flux = n" "length err = n" by simp_all
  have "\<exists>lc. concatenate (pad_sequences 395 (-999) (mjd s2)) (pad_sequences 395 (-999) flux)
               (pad_sequences 395 (-999) err) (pad_sequences 395 0 (filters s2)) = Inr lc"
    by (rule concatenate_total)
       (simp_all add: length_pad_sequences lm lf pad_sequences_nth length_pad_row)
  then obtain lc where "build_lc env s2 = Inr lc"
    by (auto simp: build_lc_def fr flux err raise_bind_def)
  with c' show ?thesis by (simp add: lc_tensor_def Let_def)
qed

lemma post_padded_pad_row: "post_padded n v s (pad_row n v s)"
  by (simp add: post_padded_def length_pad_row pad_row_nth_data pad_row_nth_pad)

lemma channel_stack_row:
  assumes "length ts = n" "length fs = n" "length es = n" "length bs = n"
  shows "channel 0 (stack_row ts fs es bs) = ts \<and> channel (Suc 0) (stack_row ts fs es bs) = fs \<and>
    channel 2 (stack_row ts fs es bs) = es \<and> channel 3 (stack_row ts fs es bs) = map real bs \<and>
    length (stack_row ts fs es bs) = n \<and> (\<forall>cell\<in>set (stack_row ts fs es bs). length cell = 4)"
proof -
  have l: "length (stack_row ts fs es bs) = n" using assms by (simp add: length_stack_row)
  have nth: "\<forall>j<n. stack_row ts fs es bs ! j = [ts ! j, fs ! j, es ! j, real (bs ! j)]"
    using assms by (simp add: stack_row_nth)
  have "channel 0 (stack_row ts fs es bs) = ts"
    using l nth assms by (simp add: channel_def list_eq_iff_nth_eq)
  moreover have "channel (Suc 0) (stack_row ts fs es bs) = fs"
    using l nth assms by (simp add: channel_def list_eq_iff_nth_eq)
  moreover have "channel 2 (stack_row ts fs es bs) = es"
    using l nth assms by (simp add: channel_def list_eq_iff_nth_eq)
  moreover have "channel 3 (stack_row ts fs es bs) = map real bs"
    using l nth assms by (simp add: channel_def list_eq_iff_nth_eq)
  moreover have "\<forall>cell\<in>set (stack_row ts fs es bs). length cell = 4"
    using l nth by (auto simp: in_set_conv_nth)
  ultimately show ?thesis using l by blast
qed

text \<open>
  Claim C4.  For a batch of \<open>n\<close> objects, the tensor that \<^verbatim>\<open>predict_nn\<close> hands to the
  network has shape \<open>(n, 395, 4)\<close>: for each object the shifted times, the normalised
  fluxes and errors and the band codes are each cut to their last 395 steps, filled at the
  end with the sentinel (\<open>-999\<close> for time, flux and error, \<open>0\<close> for the band), and stacked
  cell by cell.  The tensor exists whenever every record is non-empty, every filter name is
  known and \<^verbatim>\<open>norm_column\<close> returns.
\<close>

theorem predict_nn_padded_tensor:
  assumes "length (midpointTai s) = n" "length (psFlux s) = n" "length (psFluxErr s) = n"
      "length (filterName s) = n"
  shows "((\<forall>r<n. midpointTai s ! r \<noteq> [] \<and> set (filterName s ! r) \<subseteq> dom filter_dict \<and>
             (\<exists>y. norm_column env (psFlux s ! r) = Inr y) \<and>
             (\<exists>y. norm_column env (psFluxErr s ! r) = Inr y))
          \<longrightarrow> (\<exists>lc. fst (lc_tensor env s) = Inr lc)) \<and>
     (\<forall>lc. fst (lc_tensor env s) = Inr lc \<longrightarrow>
        length lc = n \<and>
        (\<forall>r<n. length (lc ! r) = 395 \<and> (\<forall>cell\<in>set (lc ! r). length cell = 4) \<and>
           (\<exists>flux err codes.
              norm_column env (psFlux s ! r) = Inr flux \<and>
              norm_column env (psFluxErr s ! r) = Inr err \<and>
              encode_filters (filterName s ! r) = Inr codes \<and>
              post_padded 395 (-999) (cats_rescale (midpointTai s ! r)) (channel 0 (lc ! r)) \<and>
              post_padded 395 (-999) flux (channel 1 (lc ! r)) \<and>
              post_padded 395 (-999) err (channel 2 (lc ! r)) \<and>
              post_padded 395 0 (map real codes) (channel 3 (lc ! r)))))"
proof (intro conjI impI allI)
  assume "\<forall>r<n. midpointTai s ! r \<noteq> [] \<and> set (filterName s ! r) \<subseteq> dom filter_dict \<and>
             (\<exists>y. norm_column env (psFlux s ! r) = Inr y) \<and>
             (\<exists>y. norm_column env (psFluxErr s ! r) = Inr y)"
  with assms show "\<exists>lc. fst (lc_tensor env s) = Inr lc" by (rule lc_tensor_total)
next
  fix lc assume ok: "fst (lc_tensor env s) = Inr lc"
  from lc_tensor_Inr [OF assms ok] show "length lc = n" by blast
next
  fix lc r assume ok: "fst (lc_tensor env s) = Inr lc" and r: "r < n"
  from lc_tensor_Inr [OF assms ok] obtain flux err codes where
    flux: "apply_series (norm_column env) (psFlux s) = Inr flux"
    and err: "apply_series (norm_column env) (psFluxErr s) = Inr err"
    and enc: "encode_filters (filterName s ! r) = Inr (codes ! r)"
    and row: "lc ! r = stack_row (pad_row 395 (-999) (cats_rescale (midpointTai s ! r)))
                                 (pad_row 395 (-999) (flux ! r))
                                 (pad_row 395 (-999) (err ! r))
                                 (pad_row 395 0 (codes ! r))"
    using r by blast
  have ch: "channel 0 (lc ! r) = pad_row 395 (-999) (cats_rescale (midpointTai s ! r))"
    "channel 1 (lc ! r) = pad_row 395 (-999) (flux ! r)"
    "channel 2 (lc ! r) = pad_row 395 (-999) (err ! r)"
    "channel 3 (lc ! r) = map real (pad_row 395 0 (codes ! r))"
    "length (lc ! r) = 395" "\<forall>cell\<in>set (lc ! r). length cell = 4"
    unfolding row
    using channel_stack_row [of "pad_row 395 (-999) (cats_rescale (midpointTai s ! r))" 395
        "pad_row 395 (-999) (flux ! r)" "pad_row 395 (-999) (err ! r)" "pad_row 395 0 (codes ! r)"]
    by (simp_all add: length_pad_row)
  have band: "post_padded 395 0 (map real (codes ! r)) (map real (pad_row 395 0 (codes ! r)))"
    by (simp add: post_padded_def length_pad_row pad_row_nth_data pad_row_nth_pad)
  from apply_series_Inr [OF flux] assms r
  have f: "norm_column env (psFlux s ! r) = Inr (flux ! r)" by simp
  from apply_series_Inr [OF err] assms r
  have e: "norm_column env (psFluxErr s ! r) = Inr (err ! r)" by simp
  show "length (lc ! r) = 395" by (rule ch(5))
  show "\<forall>cell\<in>set (lc ! r). length cell = 4" by (rule ch(6))
  show "\<exists>flux err codes.
              norm_column env (psFlux s ! r) = Inr flux \<and>
              norm_column env (psFluxErr s ! r) = Inr err \<and>
              encode_filters (filterName s ! r) = Inr codes \<and>
              post_padded 395 (-999) (cats_rescale (midpointTai s ! r)) (channel 0 (lc ! r)) \<and>
              post_padded 395 (-999) flux (channel 1 (lc ! r)) \<and>
              post_padded 395 (-999) err (channel 2 (lc ! r)) \<and>
              post_padded 395 0 (map real codes) (channel 3 (lc ! r))"
    using f e enc band unfolding ch by (blast intro: post_padded_pad_row)
qed

theorem predict_nn_padded_tensor_witness:
  "\<exists>lc. fst (lc_tensor cats_env0 (cats_batch [[1, 3]] [[5, 7]] [[1, 2]] [[''g'', ''r'']] None)) = Inr lc \<and>
        length lc = 1 \<and> length (lc ! 0) = 395 \<and> (\<forall>cell\<in>set (lc ! 0). length cell = 4) \<and>
        post_padded 395 (-999) [0, 2] (channel 0 (lc ! 0)) \<and>
        post_padded 395 (-999) [5, 7] (channel 1 (lc ! 0)) \<and>
        post_padded 395 (-999) [1, 2] (channel 2 (lc ! 0)) \<and>
        post_padded 395 0 [2, 3] (channel 3 (lc ! 0))"
proof -
  let ?s = "cats_batch [[1, 3]] [[5, 7]] [[1, 2]] [[''g'', ''r'']] None"
  have len: "length (midpointTai ?s) = 1" "length (psFlux ?s) = 1" "length (psFluxErr ?s) = 1"
    "length (filterName ?s) = 1"
    by (simp_all add: cats_batch_def)
  have wf: "\<forall>r<1. midpointTai ?s ! r \<noteq> [] \<and> set (filterName ?s ! r) \<subseteq> dom filter_dict \<and>
             (\<exists>y. norm_column cats_env0 (psFlux ?s ! r) = Inr y) \<and>
             (\<exists>y. norm_column cats_env0 (psFluxErr ?s ! r) = Inr y)"
    by (simp add: cats_batch_def cats_env0_def filter_dict_def)
  from predict_nn_padded_tensor [OF len, of cats_env0] wf
  obtain lc where lc: "fst (lc_tensor cats_env0 ?s) = Inr lc" by blast
  from predict_nn_padded_tensor [OF len, of cats_env0] lc
  have "length lc = 1 \<and> length (lc ! 0) = 395 \<and> (\<forall>cell\<in>set (lc ! 0). length cell = 4) \<and>
           (\<exists>flux err codes.
              norm_column cats_env0 (psFlux ?s ! 0) = Inr flux \<and>
              norm_column cats_env0 (psFluxErr ?s ! 0) = Inr err \<and>
              encode_filters (filterName ?s ! 0) = Inr codes \<and>
              post_padded 395 (-999) (cats_rescale (midpointTai ?s ! 0)) (channel 0 (lc ! 0)) \<and>
              post_padded 395 (-999) flux (channel 1 (lc ! 0)) \<and>
              post_padded 395 (-999) err (channel 2 (lc ! 0)) \<and>
              post_padded 395 0 (map real codes) (channel 3 (lc ! 0)))"
    by simp
  then have "length lc = 1 \<and> length (lc ! 0) = 395 \<and> (\<forall>cell\<in>set (lc ! 0). length cell = 4) \<and>
        post_padded 395 (-999) [0, 2] (channel 0 (lc ! 0)) \<and>
        post_padded 395 (-999) [5, 7] (channel 1 (lc ! 0)) \<and>
        post_padded 395 (-999) [1, 2] (channel 2 (lc ! 0)) \<and>
        post_padded 395 0 [2, 3] (channel 3 (lc ! 0))"
    by (auto simp: cats_batch_def cats_env0_def filter_dict_def cats_rescale_def)
  with lc show ?thesis by blast
qed

text \<open>
  Claim C10.  Every key of \<^verbatim>\<open>filter_dict\<close> has a code between 1 and 6, and in the
  tensor of \<^verbatim>\<open>predict_nn\<close> the band channel of object \<open>r\<close> is \<open>0\<close> at step \<open>j\<close>
  exactly when \<open>j\<close> lies beyond the object's observations, that is at a padded position;
  at an observation it is the code of that observation's filter.
\<close>

theorem predict_nn_band_zero_is_padding:
  assumes "length (midpointTai s) = n" "length (psFlux s) = n" "length (psFluxErr s) = n"
      "length (filterName s) = n"
    and ok: "fst (lc_tensor env s) = Inr lc"
    and r: "r < n" and j: "j < 395"
  shows "(\<forall>f c. filter_dict f = Some c \<longrightarrow> c \<in> {1..6}) \<and>
     (lc ! r ! j ! 3 = 0 \<longleftrightarrow> length (filterName s ! r) \<le> j) \<and>
     (j < length (filterName s ! r) \<longrightarrow>
        (\<exists>c\<in>{1..6}. lc ! r ! j ! 3 = real c \<and>
           filter_dict (filterName s ! r ! (length (filterName s ! r) - 395 + j)) = Some c))"
proof -
  let ?fs = "filterName s ! r"
  from lc_tensor_Inr [OF assms(1-4) ok] obtain flux err codes where
    enc: "encode_filters ?fs = Inr (codes ! r)"
    and row: "lc ! r = stack_row (pad_row 395 (-999) (cats_rescale (midpointTai s ! r)))
                                 (pad_row 395 (-999) (flux ! r))
                                 (pad_row 395 (-999) (err ! r))
                                 (pad_row 395 0 (codes ! r))"
    using r by blast
  from encode_filters_Inr [OF enc] have len: "length (codes ! r) = length ?fs"
    and code: "\<forall>k<length ?fs. filter_dict (?fs ! k) = Some (codes ! r ! k)"
    by simp_all
  have cell: "lc ! r ! j ! 3 = real (pad_row 395 0 (codes ! r) ! j)"
    unfolding row using j by (simp add: stack_row_nth length_pad_row)
  have rng: "\<forall>f c. filter_dict f = Some c \<longrightarrow> c \<in> {1..6}"
    using filter_dict_range by simp
  show ?thesis
  proof (cases "j < length ?fs")
    case True
    let ?k = "length ?fs - 395 + j"
    from True j have k: "?k < length ?fs" by simp
    from True j len have "pad_row 395 0 (codes ! r) ! j = codes ! r ! ?k"
      by (simp add: pad_row_nth_data)
    moreover from code k have fd: "filter_dict (?fs ! ?k) = Some (codes ! r ! ?k)" by blast
    moreover from fd rng have in16: "codes ! r ! ?k \<in> {1..6}" by blast
    moreover from in16 have "codes ! r ! ?k \<noteq> 0" by simp
    ultimately show ?thesis using cell True rng by auto
  next
    case False
    with j len have "pad_row 395 0 (codes ! r) ! j = 0" by (simp add: pad_row_nth_pad)
    with cell False rng show ?thesis by simp
  qed
qed

theorem predict_nn_band_zero_is_padding_witness:
  "\<exists>lc. fst (lc_tensor cats_env0 (cats_batch [[1, 3]] [[5, 7]] [[1, 2]] [[''g'', ''r'']] None)) = Inr lc \<and>
     lc ! 0 ! 1 ! 3 = 3 \<and> lc ! 0 ! 2 ! 3 = 0"
proof -
  let ?s = "cats_batch [[1, 3]] [[5, 7]] [[1, 2]] [[''g'', ''r'']] None"
  have len: "length (midpointTai ?s) = 1" "length (psFlux ?s) = 1" "length (psFluxErr ?s) = 1"
    "length (filterName ?s) = 1"
    by (simp_all add: cats_batch_def)
  have wf: "\<forall>r<1. midpointTai ?s ! r \<noteq> [] \<and> set (filterName ?s ! r) \<subseteq> dom filter_dict \<and>
             (\<exists>y. norm_column cats_env0 (psFlux ?s ! r) = Inr y) \<and>
             (\<exists>y. norm_column cats_env0 (psFluxErr ?s ! r) = Inr y)"
    by (simp add: cats_batch_def cats_env0_def filter_dict_def)
  from lc_tensor_total [OF len wf]
  obtain lc where lc: "fst (lc_tensor cats_env0 ?s) = Inr lc" by blast
  have r: "(0::nat) < 1" and j1: "(1::nat) < 395" and j2: "(2::nat) < 395" by simp_all
  from predict_nn_band_zero_is_padding [OF len lc r j1]
  have "lc ! 0 ! 1 ! 3 = 3"
    by (auto simp: cats_batch_def filter_dict_def)
  moreover from predict_nn_band_zero_is_padding [OF len lc r j2]
  have "lc ! 0 ! 2 ! 3 = 0"
    by (simp add: cats_batch_def)
  ultimately show ?thesis using lc by blast
qed

section \<open>Errors, effects and frame of \<^verbatim>\<open>predict_nn\<close>\<close>

lemma log_cats_fields [simp]:
  "midpointTai (log_cats ev s) = midpointTai s" "psFlux (log_cats ev s) = psFlux s"
  "psFluxErr (log_cats ev s) = psFluxErr s" "filterName (log_cats ev s) = filterName s"
  "model (log_cats ev s) = model s" "mjd (log_cats ev s) = mjd s"
  "filters (log_cats ev s) = filters s" "cats_trace (log_cats ev s) = cats_trace s @ [ev]"
  by (simp_all add: log_cats_def)

lemma lc_tensor_frame:
  assumes "lc_tensor env s = (r, s2)"
  shows "midpointTai s2 = midpointTai s \<and> psFlux s2 = psFlux s \<and> psFluxErr s2 = psFluxErr s \<and>
     filterName s2 = filterName s \<and> model s2 = model s \<and> cats_trace s2 = cats_trace s"
proof -
  let ?s1 = "s\<lparr>mjd := [], filters := []\<rparr>"
  obtain r0 s' where c: "collect 0 (midpointTai ?s1) ?s1 = (r0, s')"
    by (cases "collect 0 (midpointTai ?s1) ?s1")
  from assms c have "s2 = s'" by (auto simp: lc_tensor_def Let_def split: option.splits)
  with collect_frame [OF c] show ?thesis by simp
qed

lemma predict_nn_cases:
  assumes "predict_nn env s = (r, s')" and "lc_tensor env s = (lr, s2)"
  shows "(isl r \<and> s' = s2) \<or>
     (\<exists>p. model_path env (model s) = Inr p \<and>
        ((isl r \<and> s' = log_cats (LoadKeras p) s2) \<or>
         s' = log_cats Predict (log_cats (LoadKeras p) s2)))"
proof (cases lr)
  case (Inl e)
  with assms show ?thesis by (auto simp: predict_nn_def)
next
  case lc: (Inr lc)
  from lc_tensor_frame [OF assms(2)] have m: "model s2 = model s" by simp
  show ?thesis
  proof (cases "model_path env (model s)")
    case (Inl e)
    with assms lc m show ?thesis by (auto simp: predict_nn_def)
  next
    case p: (Inr p)
    show ?thesis
    proof (cases "load_model env p")
      case (Inl e)
      with assms lc m p show ?thesis by (auto simp: predict_nn_def Let_def)
    next
      case (Inr NN)
      with assms lc m p have "s' = log_cats Predict (log_cats (LoadKeras p) s2)"
        by (auto simp: predict_nn_def Let_def split: sum.splits)
      with p show ?thesis by blast
    qed
  qed
qed

lemma predict_nn_Inr:
  assumes "predict_nn env s = (Inr preds, s')" and "lc_tensor env s = (lr, s2)"
  shows "\<exists>lc p NN. lr = Inr lc \<and> model_path env (model s) = Inr p \<and> load_model env p = Inr NN \<and>
     nn_predict env NN lc = Inr preds \<and> s' = log_cats Predict (log_cats (LoadKeras p) s2)"
proof -
  from lc_tensor_frame [OF assms(2)] have m: "model s2 = model s" by simp
  from assms m show ?thesis
    by (auto simp: predict_nn_def Let_def split: sum.splits)
qed

lemma predict_nn_frame:
  "midpointTai (snd (predict_nn env s)) = midpointTai s \<and>
   psFlux (snd (predict_nn env s)) = psFlux s \<and>
   psFluxErr (snd (predict_nn env s)) = psFluxErr s \<and>
   filterName (snd (predict_nn env s)) = filterName s \<and>
   model (snd (predict_nn env s)) = model s"
proof -
  obtain r s' where p: "predict_nn env s = (r, s')" by (cases "predict_nn env s")
  obtain lr s2 where l: "lc_tensor env s = (lr, s2)" by (cases "lc_tensor env s")
  from predict_nn_cases [OF p l] lc_tensor_frame [OF l] p show ?thesis by auto
qed

lemma predict_nn_trace:
  "(isl (fst (predict_nn env s)) \<and> cats_trace (snd (predict_nn env s)) = cats_trace s) \<or>
   (\<exists>p. model_path env (model s) = Inr p \<and>
      ((isl (fst (predict_nn env s)) \<and> cats_trace (snd (predict_nn env s)) = cats_trace s @ [LoadKeras p]) \<or>
       cats_trace (snd (predict_nn env s)) = cats_trace s @ [LoadKeras p, Predict]))"
proof -
  obtain r s' where p: "predict_nn env s = (r, s')" by (cases "predict_nn env s")
  obtain lr s2 where l: "lc_tensor env s = (lr, s2)" by (cases "lc_tensor env s")
  from lc_tensor_frame [OF l] have t: "cats_trace s2 = cats_trace s" by simp
  from predict_nn_cases [OF p l] p t show ?thesis by auto
qed

lemma collect_KeyError:
  "length (filterName s) = i + length xs \<Longrightarrow>
   \<exists>k<length xs. xs ! k \<noteq> [] \<and> \<not> set (filterName s ! (i + k)) \<subseteq> dom filter_dict \<Longrightarrow>
   fst (collect i xs s) = Some KeyError"
proof (induction i xs s rule: collect.induct)
  case (1 i s)
  then show ?case by simp
next
  case (2 i mjds rest s)
  from "2.prems"(1) have i: "i < length (filterName s)" by simp
  from "2.prems"(2) obtain k where k: "k < length (mjds # rest)" "(mjds # rest) ! k \<noteq> []"
    "\<not> set (filterName s ! (i + k)) \<subseteq> dom filter_dict" by blast
  show ?case
  proof (cases "mjds = []")
    case True
    with k obtain k' where k': "k = Suc k'" by (cases k) auto
    with k have ex: "\<exists>k<length rest. rest ! k \<noteq> [] \<and> \<not> set (filterName s ! (Suc i + k)) \<subseteq> dom filter_dict"
      by auto
    from "2.IH"(2) [OF _ _ ex] True "2.prems"(1) show ?thesis by simp
  next
    case ne: False
    show ?thesis
    proof (cases "encode_filters (filterName s ! i)")
      case (Inl e)
      with encode_filters_error have "e = KeyError" by blast
      with Inl ne i show ?thesis by simp
    next
      case (Inr codes)
      from encode_filters_Inr [OF Inr] have "set (filterName s ! i) \<subseteq> dom filter_dict"
        by (auto simp: in_set_conv_nth)
      with k obtain k' where k': "k = Suc k'" by (cases k) auto
      let ?s = "s\<lparr>filters := filters s @ [codes], mjd := mjd s @ [cats_rescale mjds]\<rparr>"
      from k k' have ex: "\<exists>k<length rest. rest ! k \<noteq> [] \<and>
          \<not> set (filterName ?s ! (Suc i + k)) \<subseteq> dom filter_dict"
        by auto
      have len: "length (filterName ?s) = Suc i + length rest" using "2.prems"(1) by simp
      from "2.IH"(1) [OF _ i Inr len ex] ne have "fst (collect (Suc i) rest ?s) = Some KeyError"
        by simp
      with ne i Inr show ?thesis by simp
    qed
  qed
qed

lemma predict_nn_KeyError:
  assumes len: "length (filterName s) = length (midpointTai s)"
    and bad: "r < length (midpointTai s)" "midpointTai s ! r \<noteq> []"
      "\<not> set (filterName s ! r) \<subseteq> dom filter_dict"
  shows "fst (predict_nn env s) = Inl KeyError \<and> cats_trace (snd (predict_nn env s)) = cats_trace s"
proof -
  let ?s1 = "s\<lparr>mjd := [], filters := []\<rparr>"
  have "fst (collect 0 (midpointTai ?s1) ?s1) = Some KeyError"
    using len bad by (intro collect_KeyError) auto
  then obtain s2 where c: "collect 0 (midpointTai ?s1) ?s1 = (Some KeyError, s2)"
    by (cases "collect 0 (midpointTai ?s1) ?s1") simp
  from collect_frame [OF c] have t: "cats_trace s2 = cats_trace s" by simp
  from c have "lc_tensor env s = (Inl KeyError, s2)" by (simp add: lc_tensor_def Let_def)
  then have "predict_nn env s = (Inl KeyError, s2)" by (simp add: predict_nn_def)
  with t show ?thesis by simp
qed

lemma lc_tensor_empty_record:
  assumes e: "[] \<in> set (midpointTai s)" and len: "length (psFlux s) = length (midpointTai s)"
  shows "isl (fst (lc_tensor env s))"
proof (rule ccontr)
  assume "\<not> isl (fst (lc_tensor env s))"
  then obtain lc where ok: "fst (lc_tensor env s) = Inr lc" by (cases "fst (lc_tensor env s)") auto
  let ?s1 = "s\<lparr>mjd := [], filters := []\<rparr>"
  obtain r0 s2 where c: "collect 0 (midpointTai ?s1) ?s1 = (r0, s2)"
    by (cases "collect 0 (midpointTai ?s1) ?s1")
  from ok c have r0: "r0 = None" and b: "build_lc env s2 = Inr lc"
    by (auto simp: lc_tensor_def Let_def split: option.splits)
  from collect_frame [OF c] have fr: "psFlux s2 = psFlux s" by simp
  from b obtain flux err where flux: "apply_series (norm_column env) (psFlux s) = Inr flux"
    and cc: "concatenate (pad_sequences 395 (-999) (mjd s2)) (pad_sequences 395 (-999) flux)
               (pad_sequences 395 (-999) err) (pad_sequences 395 0 (filters s2)) = Inr lc"
    unfolding build_lc_def fr by (blast dest: raise_bind_Inr)
  from concatenate_Inr [OF cc] have "length flux = length (mjd s2)"
    by (simp add: length_pad_sequences)
  with apply_series_Inr [OF flux] len have l: "length (mjd s2) = length (midpointTai s)" by simp
  from c r0 have "collect 0 (midpointTai s) ?s1 = (None, s2)" by simp
  from collect_lengths [OF this] l
  have "length (filter (\<lambda>m. m \<noteq> []) (midpointTai s)) = length (midpointTai s)" by simp
  then have "\<forall>m\<in>set (midpointTai s). m \<noteq> []" by (rule filter_all)
  with e show False by blast
qed

lemma predict_nn_empty_record:
  assumes "[] \<in> set (midpointTai s)" and "length (psFlux s) = length (midpointTai s)"
  shows "isl (fst (predict_nn env s))"
proof -
  obtain lr s2 where l: "lc_tensor env s = (lr, s2)" by (cases "lc_tensor env s")
  from lc_tensor_empty_record [OF assms, of env] l have "isl lr" by simp
  then obtain e where "lr = Inl e" by (cases lr) auto
  with l show ?thesis by (simp add: predict_nn_def)
qed

lemma predict_nn_output_length:
  assumes n: "length (midpointTai s) = n" "length (psFlux s) = n" "length (psFluxErr s) = n"
      "length (filterName s) = n"
    and contract: "\<forall>NN lc preds. nn_predict env NN lc = Inr preds \<longrightarrow> length preds = length lc"
    and ok: "fst (predict_nn env s) = Inr preds"
  shows "length preds = n"
proof -
  obtain s' where p: "predict_nn env s = (Inr preds, s')" using ok by (cases "predict_nn env s") simp
  obtain lr s2 where l: "lc_tensor env s = (lr, s2)" by (cases "lc_tensor env s")
  from predict_nn_Inr [OF p l] obtain lc NN where lc: "lr = Inr lc"
    and pr: "nn_predict env NN lc = Inr preds" by blast
  from l lc have "fst (lc_tensor env s) = Inr lc" by simp
  from lc_tensor_Inr [OF n this] have "length lc = n" by blast
  with contract pr show ?thesis by auto
qed

text \<open>
  Claim C1 (the output has one entry per input record, also with empty records).  On the
  batch below, whose first record is empty, \<^verbatim>\<open>predict_nn\<close> does not return a series of
  length 2: the loop leaves the empty record out of \<^verbatim>\<open>mjd\<close> and \<^verbatim>\<open>filters\<close> while
  \<^verbatim>\<open>flux\<close> and \<^verbatim>\<open>error\<close> keep a row for it, and \<^verbatim>\<open>np.concatenate\<close> raises on
  the mismatch.  Whatever \<^verbatim>\<open>norm_column\<close>, the loader and the network do, the call raises.
\<close>

theorem predict_nn_empty_record_raises:
  "fst (predict_nn cats_env0
          (cats_batch [[], [1, 3]] [[], [5, 7]] [[], [1, 2]] [[], [''g'', ''r'']] None)) = Inl ValueError \<and>
   isl (fst (predict_nn env
          (cats_batch [[], [1, 3]] [[], [5, 7]] [[], [1, 2]] [[], [''g'', ''r'']] None)))"
proof
  let ?s = "cats_batch [[], [1, 3]] [[], [5, 7]] [[], [1, 2]] [[], [''g'', ''r'']] None"
  let ?s2 = "?s\<lparr>mjd := [[0, 2]], filters := [[2, 3]]\<rparr>"
  have c: "collect 0 (midpointTai (?s\<lparr>mjd := [], filters := []\<rparr>)) (?s\<lparr>mjd := [], filters := []\<rparr>)
      = (None, ?s2)"
    by (simp add: cats_batch_def filter_dict_def cats_rescale_def)
  have f: "apply_series (norm_column cats_env0) (psFlux ?s2) = Inr [[], [5, 7]]"
    "apply_series (norm_column cats_env0) (psFluxErr ?s2) = Inr [[], [1, 2]]"
    by (simp_all add: cats_batch_def cats_env0_def)
  have "concatenate (pad_sequences 395 (- 999) (mjd ?s2)) (pad_sequences 395 (- 999) [[], [5, 7]])
      (pad_sequences 395 (- 999) [[], [1, 2]]) (pad_sequences 395 0 (filters ?s2)) = Inl ValueError"
    by (rule concatenate_mismatch) (simp add: length_pad_sequences)
  then have "build_lc cats_env0 ?s2 = Inl ValueError"
    unfolding build_lc_def f by (simp add: raise_bind_def)
  with c have "lc_tensor cats_env0 ?s = (Inl ValueError, ?s2)"
    by (simp add: lc_tensor_def Let_def)
  then show "fst (predict_nn cats_env0 ?s) = Inl ValueError"
    by (simp add: predict_nn_def)
next
  let ?s = "cats_batch [[], [1, 3]] [[], [5, 7]] [[], [1, 2]] [[], [''g'', ''r'']] None"
  have "[] \<in> set (midpointTai ?s)" "length (psFlux ?s) = length (midpointTai ?s)"
    by (simp_all add: cats_batch_def)
  then show "isl (fst (predict_nn env ?s))" by (rule predict_nn_empty_record)
qed

section \<open>Properties of \<^verbatim>\<open>t2\<close>\<close>

lemma default_lookup:
  "default_t2 env k = (if k \<in> set (T2_COLS env) then Some (- 1) else None)"
proof (cases "k \<in> set (T2_COLS env)")
  case True
  then have "k \<in> fst ` set (rev (map (\<lambda>k. (k, - 1 :: real)) (T2_COLS env)))" by force
  then obtain v where v: "map_of (rev (map (\<lambda>k. (k, - 1 :: real)) (T2_COLS env))) k = Some v"
    by (metis map_of_eq_None_iff not_None_eq)
  from map_of_SomeD [OF v] have "v = - 1" by auto
  with v True show ?thesis by (simp add: default_t2_def dict_def)
next
  case False
  then have "k \<notin> fst ` set (rev (map (\<lambda>k. (k, - 1 :: real)) (T2_COLS env)))" by force
  then have "map_of (rev (map (\<lambda>k. (k, - 1 :: real)) (T2_COLS env))) k = None"
    by (simp add: map_of_eq_None_iff)
  with False show ?thesis by (simp add: default_t2_def dict_def)
qed

lemma mask_select_Inr:
  "mask_select xs msk = Inr ys \<Longrightarrow>
     length msk = length xs \<and> ys = map fst (filter snd (zip xs msk))"
  by (auto simp: mask_select_def split: if_splits)

lemma length_selected:
  "length xs = length msk \<Longrightarrow>
     length (map fst (filter snd (zip xs msk))) = length (filter (\<lambda>b. b) msk)"
proof (induction msk arbitrary: xs)
  case Nil
  then show ?case by simp
next
  case (Cons b msk)
  then obtain x xs' where "xs = x # xs'" by (cases xs) auto
  with Cons show ?case by simp
qed

lemma selected_empty_iff:
  "length xs = length msk \<Longrightarrow>
     map fst (filter snd (zip xs msk)) = [] \<longleftrightarrow> (\<forall>b\<in>set msk. \<not> b)"
proof (induction msk arbitrary: xs)
  case Nil
  then show ?case by simp
next
  case (Cons b msk)
  then obtain x xs' where "xs = x # xs'" by (cases xs) auto
  with Cons show ?case by auto
qed

lemma length_mask_update: "length (mask_update arr msk vs) = length arr"
  by (induction arr msk vs rule: mask_update.induct) simp_all

lemma mask_update_none: "\<forall>b\<in>set msk. \<not> b \<Longrightarrow> mask_update arr msk vs = arr"
  by (induction arr msk vs rule: mask_update.induct) simp_all

lemma mask_update_rel:
  "length xs = length msk \<Longrightarrow> length arr = length msk \<Longrightarrow>
   list_all2 R (map fst (filter snd (zip xs msk))) vs \<Longrightarrow>
   (\<forall>i<length msk. if msk ! i then R (xs ! i) (mask_update arr msk vs ! i)
                     else mask_update arr msk vs ! i = arr ! i)"
proof (induction msk arbitrary: xs arr vs)
  case Nil
  then show ?case by simp
next
  case (Cons b msk)
  from Cons.prems obtain x xs' where xs: "xs = x # xs'" by (cases xs) auto
  from Cons.prems obtain a arr' where arr: "arr = a # arr'" by (cases arr) auto
  show ?case
  proof (cases b)
    case True
    with Cons.prems(3) xs obtain v vs' where vs: "vs = v # vs'" and rv: "R x v"
      and rest: "list_all2 R (map fst (filter snd (zip xs' msk))) vs'"
      by (auto simp: list_all2_Cons1)
    from Cons.IH [OF _ _ rest, of arr'] Cons.prems xs arr
    have ih: "\<forall>i<length msk. if msk ! i then R (xs' ! i) (mask_update arr' msk vs' ! i)
                     else mask_update arr' msk vs' ! i = arr' ! i" by simp
    show ?thesis
    proof (intro allI impI)
      fix i assume "i < length (b # msk)"
      then show "if (b # msk) ! i then R (xs ! i) (mask_update arr (b # msk) vs ! i)
                     else mask_update arr (b # msk) vs ! i = arr ! i"
        using True xs arr vs rv ih by (cases i) simp_all
    qed
  next
    case False
    with Cons.prems(3) xs have rest: "list_all2 R (map fst (filter snd (zip xs' msk))) vs"
      by simp
    from Cons.IH [OF _ _ rest, of arr'] Cons.prems xs arr
    have ih: "\<forall>i<length msk. if msk ! i then R (xs' ! i) (mask_update arr' msk vs ! i)
                     else mask_update arr' msk vs ! i = arr' ! i" by simp
    show ?thesis
    proof (intro allI impI)
      fix i assume "i < length (b # msk)"
      then show "if (b # msk) ! i then R (xs ! i) (mask_update arr (b # msk) vs ! i)
                     else mask_update arr (b # msk) vs ! i = arr ! i"
        using False xs arr ih by (cases i) simp_all
    qed
  qed
qed

lemma log_t2_fields [simp]:
  "candid (log_t2 ev s) = candid s" "jd (log_t2 ev s) = jd s" "fid (log_t2 ev s) = fid s"
  "magpsf (log_t2 ev s) = magpsf s" "sigmapsf (log_t2 ev s) = sigmapsf s"
  "roid (log_t2 ev s) = roid s" "cdsxmatch (log_t2 ev s) = cdsxmatch s"
  "jdstarthist (log_t2 ev s) = jdstarthist s" "model_name (log_t2 ev s) = model_name s"
  "to_return (log_t2 ev s) = to_return s" "vals (log_t2 ev s) = vals s"
  "t2_trace (log_t2 ev s) = t2_trace s @ [ev]"
  by (simp_all add: log_t2_def)

lemma classify_step:
  obtains (mixed) e where "n_filters (object_rows pdf cand) = Inl e"
      "classify env mdl pdf (cand # rest) s = (Some e, s)"
    | (sentinel) k where "n_filters (object_rows pdf cand) = Inr k" "k \<noteq> 2"
      "classify env mdl pdf (cand # rest) s =
         classify env mdl pdf rest (s\<lparr>vals := vals s @ [default_t2 env]\<rparr>)"
    | (failed) e where "n_filters (object_rows pdf cand) = Inr 2"
      "predictions env mdl cand (object_rows pdf cand) = Inl e"
      "classify env mdl pdf (cand # rest) s = (Some e, log_t2 Predict s)"
    | (predicted) p where "n_filters (object_rows pdf cand) = Inr 2"
      "predictions env mdl cand (object_rows pdf cand) = Inr p"
      "classify env mdl pdf (cand # rest) s =
         classify env mdl pdf rest ((log_t2 Predict s)\<lparr>vals := vals s @ [p]\<rparr>)"
proof (cases "n_filters (object_rows pdf cand)")
  case (Inl e)
  then show ?thesis by (intro mixed [of e]) (simp_all add: Let_def)
next
  case (Inr k)
  show ?thesis
  proof (cases "k = 2")
    case False
    with Inr show ?thesis by (intro sentinel [of k]) (simp_all add: Let_def)
  next
    case True
    show ?thesis
    proof (cases "predictions env mdl cand (object_rows pdf cand)")
      case (Inl e)
      with Inr True show ?thesis by (intro failed [of e]) (simp_all add: Let_def)
    next
      case p: (Inr p)
      with Inr True show ?thesis by (intro predicted [of p]) (simp_all add: Let_def)
    qed
  qed
qed

lemma classify_frame:
  "classify env mdl pdf cs s = (r, s') \<Longrightarrow>
     candid s' = candid s \<and> jd s' = jd s \<and> fid s' = fid s \<and> magpsf s' = magpsf s \<and>
     sigmapsf s' = sigmapsf s \<and> roid s' = roid s \<and> cdsxmatch s' = cdsxmatch s \<and>
     jdstarthist s' = jdstarthist s \<and> model_name s' = model_name s \<and>
     to_return s' = to_return s"
proof (induction cs arbitrary: s)
  case Nil
  then show ?case by simp
next
  case (Cons cand rest)
  show ?case
  proof (cases rule: classify_step [of pdf cand env mdl rest s])
    case (mixed e)
    with Cons.prems show ?thesis by simp
  next
    case (sentinel k)
    with Cons.prems Cons.IH [of "s\<lparr>vals := vals s @ [default_t2 env]\<rparr>"] show ?thesis by simp
  next
    case (failed e)
    with Cons.prems show ?thesis by auto
  next
    case (predicted p)
    with Cons.prems Cons.IH [of "(log_t2 Predict s)\<lparr>vals := vals s @ [p]\<rparr>"] show ?thesis by simp
  qed
qed

lemma classify_trace:
  "classify env mdl pdf cs s = (r, s') \<Longrightarrow>
     \<exists>k. t2_trace s' = t2_trace s @ replicate k Predict"
proof (induction cs arbitrary: s)
  case Nil
  then have "t2_trace s' = t2_trace s @ replicate 0 Predict" by simp
  then show ?case by blast
next
  case (Cons cand rest)
  show ?case
  proof (cases rule: classify_step [of pdf cand env mdl rest s])
    case (mixed e)
    with Cons.prems have "t2_trace s' = t2_trace s @ replicate 0 Predict" by simp
    then show ?thesis by blast
  next
    case (sentinel k)
    with Cons.prems Cons.IH [of "s\<lparr>vals := vals s @ [default_t2 env]\<rparr>"] show ?thesis by simp
  next
    case (failed e)
    with Cons.prems have "t2_trace s' = t2_trace s @ replicate 1 Predict" by auto
    then show ?thesis by blast
  next
    case (predicted p)
    with Cons.prems Cons.IH [of "(log_t2 Predict s)\<lparr>vals := vals s @ [p]\<rparr>"]
    obtain k where "t2_trace s' = t2_trace s @ replicate (Suc k) Predict" by auto
    then show ?thesis by blast
  qed
qed

lemma classify_vals:
  "classify env mdl pdf cs s = (None, s') \<Longrightarrow>
     \<exists>ys. vals s' = vals s @ ys \<and>
       list_all2 (\<lambda>c y. \<exists>k. n_filters (object_rows pdf c) = Inr k \<and>
                    (if k \<noteq> 2 then y = default_t2 env
                     else predictions env mdl c (object_rows pdf c) = Inr y)) cs ys"
proof (induction cs arbitrary: s)
  case Nil
  then show ?case by simp
next
  case (Cons cand rest)
  let ?R = "\<lambda>c y. \<exists>k. n_filters (object_rows pdf c) = Inr k \<and>
                    (if k \<noteq> 2 then y = default_t2 env
                     else predictions env mdl c (object_rows pdf c) = Inr y)"
  show ?case
  proof (cases rule: classify_step [of pdf cand env mdl rest s])
    case (mixed e)
    with Cons.prems show ?thesis by simp
  next
    case (sentinel k)
    with Cons.prems Cons.IH [of "s\<lparr>vals := vals s @ [default_t2 env]\<rparr>"] obtain ys where
      ys: "vals s' = (vals s @ [default_t2 env]) @ ys" "list_all2 ?R rest ys" by auto
    from sentinel(1,2) have "?R cand (default_t2 env)" by simp
    with ys have "vals s' = vals s @ (default_t2 env # ys) \<and> list_all2 ?R (cand # rest) (default_t2 env # ys)"
      by simp
    then show ?thesis by blast
  next
    case (failed e)
    with Cons.prems show ?thesis by simp
  next
    case (predicted p)
    with Cons.prems Cons.IH [of "(log_t2 Predict s)\<lparr>vals := vals s @ [p]\<rparr>"] obtain ys where
      ys: "vals s' = (vals s @ [p]) @ ys" "list_all2 ?R rest ys" by auto
    from predicted(1,2) have "?R cand p" by simp
    with ys have "vals s' = vals s @ (p # ys) \<and> list_all2 ?R (cand # rest) (p # ys)"
      by simp
    then show ?thesis by blast
  qed
qed

lemma classify_total:
  "\<forall>c\<in>set cs. (\<exists>k. n_filters (object_rows pdf c) = Inr k) \<and>
      (n_filters (object_rows pdf c) = Inr 2 \<longrightarrow>
         (\<exists>y. predictions env mdl c (object_rows pdf c) = Inr y)) \<Longrightarrow>
   fst (classify env mdl pdf cs s) = None"
proof (induction cs arbitrary: s)
  case Nil
  then show ?case by simp
next
  case (Cons cand rest)
  from Cons.prems have rest: "\<forall>c\<in>set rest. (\<exists>k. n_filters (object_rows pdf c) = Inr k) \<and>
      (n_filters (object_rows pdf c) = Inr 2 \<longrightarrow>
         (\<exists>y. predictions env mdl c (object_rows pdf c) = Inr y))" by simp
  show ?case
  proof (cases rule: classify_step [of pdf cand env mdl rest s])
    case (mixed e)
    with Cons.prems show ?thesis by auto
  next
    case (sentinel k)
    with Cons.IH [OF rest] show ?thesis by simp
  next
    case (failed e)
    with Cons.prems show ?thesis by auto
  next
    case (predicted p)
    with Cons.IH [OF rest] show ?thesis by simp
  qed
qed

lemma classify_raises:
  "\<exists>c\<in>set cs. isl (n_filters (object_rows pdf c)) \<Longrightarrow>
   fst (classify env mdl pdf cs s) \<noteq> None"
proof (induction cs arbitrary: s)
  case Nil
  then show ?case by simp
next
  case (Cons cand rest)
  show ?case
  proof (cases rule: classify_step [of pdf cand env mdl rest s])
    case (mixed e)
    then show ?thesis by simp
  next
    case (sentinel k)
    with Cons.prems have "\<exists>c\<in>set rest. isl (n_filters (object_rows pdf c))" by auto
    with sentinel Cons.IH show ?thesis by simp
  next
    case (failed e)
    then show ?thesis by simp
  next
    case (predicted p)
    with Cons.prems have "\<exists>c\<in>set rest. isl (n_filters (object_rows pdf c))" by auto
    with predicted Cons.IH show ?thesis by simp
  qed
qed

lemma light_curves_locals [simp]:
  "light_curves env msk (s\<lparr>to_return := a\<rparr>) = light_curves env msk s"
  "light_curves env msk (s\<lparr>vals := v\<rparr>) = light_curves env msk s"
  "light_curves env msk (s\<lparr>t2_trace := t\<rparr>) = light_curves env msk s"
  by (simp_all add: light_curves_def)

lemma selected_member:
  assumes "length xs = length msk" and "c \<in> set (map fst (filter snd (zip xs msk)))"
  shows "\<exists>i<length msk. msk ! i \<and> xs ! i = c"
proof -
  from assms(2) obtain b where "(c, b) \<in> set (zip xs msk)" and "b" by auto
  then have "(c, True) \<in> set (zip xs msk)" by simp
  then obtain i where "i < length xs" "i < length msk" "xs ! i = c" "msk ! i = True"
    by (auto simp: set_zip)
  then show ?thesis by auto
qed

lemma mask_assign_exact:
  "length msk = length arr \<Longrightarrow> length vs = length (filter (\<lambda>b. b) msk) \<Longrightarrow>
     mask_assign arr msk vs = Inr (mask_update arr msk vs)"
  by (simp add: mask_assign_def)

lemma mask_assign_Inr: "mask_assign arr msk vs = Inr a \<Longrightarrow> length msk = length arr"
  by (auto simp: mask_assign_def Let_def split: if_splits)

lemma t2_classified_Inr:
  assumes ok: "fst (t2_classified env msk s1) = Inr out"
  shows "\<exists>pdf name mdl.
     light_curves env msk s1 = Inr pdf \<and> lite_model_arg (model_name s1) = Inr name \<and>
     get_lite_model env name = Inr mdl \<and>
     length (candid s1) = length msk \<and> length (to_return s1) = length msk \<and>
     length out = length msk \<and>
     (\<forall>i<length msk.
        if msk ! i then
          (\<exists>k. n_filters (object_rows pdf (candid s1 ! i)) = Inr k \<and>
             (if k \<noteq> 2 then out ! i = default_t2 env
              else predictions env mdl (candid s1 ! i) (object_rows pdf (candid s1 ! i)) = Inr (out ! i)))
        else out ! i = to_return s1 ! i)"
proof -
  from ok obtain pdf where pdf: "light_curves env msk s1 = Inr pdf"
    by (cases "light_curves env msk s1") (simp_all add: t2_classified_def)
  from ok pdf obtain name where name: "lite_model_arg (model_name s1) = Inr name"
    by (cases "lite_model_arg (model_name s1)") (simp_all add: t2_classified_def)
  let ?s2 = "log_t2 (LoadLite name) s1"
  from ok pdf name obtain mdl where mdl: "get_lite_model env name = Inr mdl"
    by (cases "get_lite_model env name") (simp_all add: t2_classified_def Let_def)
  let ?s3 = "?s2\<lparr>vals := []\<rparr>"
  have c3: "candid ?s3 = candid s1" and r3: "to_return ?s3 = to_return s1"
    by (simp_all add: log_t2_def)
  from ok pdf name mdl obtain selected where sel: "mask_select (candid s1) msk = Inr selected"
    by (cases "mask_select (candid s1) msk") (simp_all add: t2_classified_def Let_def c3)
  obtain r s4 where cl: "classify env mdl pdf selected ?s3 = (r, s4)"
    by (cases "classify env mdl pdf selected ?s3")
  from ok pdf name mdl sel cl have r: "r = None"
    by (cases r) (simp_all add: t2_classified_def Let_def c3)
  from ok pdf name mdl sel cl r obtain arr where arr: "mask_assign (to_return s4) msk (vals s4) = Inr arr"
    by (cases "mask_assign (to_return s4) msk (vals s4)") (simp_all add: t2_classified_def Let_def c3)
  from ok pdf name mdl sel cl r arr have out: "out = arr"
    by (simp add: t2_classified_def Let_def c3)
  from classify_frame [OF cl] r3 have tr: "to_return s4 = to_return s1" by simp
  let ?R = "\<lambda>c y. \<exists>k. n_filters (object_rows pdf c) = Inr k \<and>
                    (if k \<noteq> 2 then y = default_t2 env
                     else predictions env mdl c (object_rows pdf c) = Inr y)"
  from classify_vals [OF cl [unfolded r]] obtain ys where
    ys: "vals s4 = ys" and rel: "list_all2 ?R selected ys"
    by (auto simp: log_t2_def)
  from mask_select_Inr [OF sel] have lc: "length msk = length (candid s1)"
    and seq: "selected = map fst (filter snd (zip (candid s1) msk))" by simp_all
  from mask_assign_Inr [OF arr] tr have lr: "length msk = length (to_return s1)" by simp
  from rel have "length ys = length selected" by (simp add: list_all2_lengthD)
  with seq lc have "length ys = length (filter (\<lambda>b. b) msk)"
    using length_selected [of "candid s1" msk] by simp
  with arr lr tr ys have a: "arr = mask_update (to_return s1) msk ys"
    by (simp add: mask_assign_exact)
  have "\<forall>i<length msk. if msk ! i then ?R (candid s1 ! i) (mask_update (to_return s1) msk ys ! i)
                     else mask_update (to_return s1) msk ys ! i = to_return s1 ! i"
    using lc lr rel [unfolded seq] by (intro mask_update_rel) simp_all
  then have rows: "\<forall>i<length msk.
        if msk ! i then
          (\<exists>k. n_filters (object_rows pdf (candid s1 ! i)) = Inr k \<and>
             (if k \<noteq> 2 then out ! i = default_t2 env
              else predictions env mdl (candid s1 ! i) (object_rows pdf (candid s1 ! i)) = Inr (out ! i)))
        else out ! i = to_return s1 ! i"
    unfolding out a .
  from a out lr have "length out = length msk" by (simp add: length_mask_update)
  with pdf name mdl lc lr rows show ?thesis by auto
qed

lemma t2_classified_total:
  assumes pdf: "light_curves env msk s1 = Inr pdf"
    and name: "lite_model_arg (model_name s1) = Inr name"
    and mdl: "get_lite_model env name = Inr mdl"
    and lc: "length (candid s1) = length msk" and lr: "length (to_return s1) = length msk"
    and nf: "\<forall>i<length msk. msk ! i \<longrightarrow> (\<exists>k. n_filters (object_rows pdf (candid s1 ! i)) = Inr k)"
    and pr: "\<forall>i<length msk. msk ! i \<and> n_filters (object_rows pdf (candid s1 ! i)) = Inr 2 \<longrightarrow>
        (\<exists>y. predictions env mdl (candid s1 ! i) (object_rows pdf (candid s1 ! i)) = Inr y)"
  shows "\<exists>out. fst (t2_classified env msk s1) = Inr out"
proof -
  let ?s3 = "(log_t2 (LoadLite name) s1)\<lparr>vals := []\<rparr>"
  let ?sel = "map fst (filter snd (zip (candid s1) msk))"
  have c3: "candid ?s3 = candid s1" and r3: "to_return ?s3 = to_return s1"
    by (simp_all add: log_t2_def)
  from lc have sel: "mask_select (candid s1) msk = Inr ?sel" by (simp add: mask_select_def)
  have "\<forall>c\<in>set ?sel. (\<exists>k. n_filters (object_rows pdf c) = Inr k) \<and>
      (n_filters (object_rows pdf c) = Inr 2 \<longrightarrow>
         (\<exists>y. predictions env mdl c (object_rows pdf c) = Inr y))"
  proof
    fix c assume c: "c \<in> set ?sel"
    from selected_member [OF lc c] obtain i where i: "i < length msk" "msk ! i" "candid s1 ! i = c"
      by blast
    from nf i have "\<exists>k. n_filters (object_rows pdf c) = Inr k" by auto
    moreover from pr i have "n_filters (object_rows pdf c) = Inr 2 \<longrightarrow>
         (\<exists>y. predictions env mdl c (object_rows pdf c) = Inr y)" by auto
    ultimately show "(\<exists>k. n_filters (object_rows pdf c) = Inr k) \<and>
      (n_filters (object_rows pdf c) = Inr 2 \<longrightarrow>
         (\<exists>y. predictions env mdl c (object_rows pdf c) = Inr y))" by blast
  qed
  then have none: "fst (classify env mdl pdf ?sel ?s3) = None" by (rule classify_total)
  obtain s4 where cl: "classify env mdl pdf ?sel ?s3 = (None, s4)"
    using none by (cases "classify env mdl pdf ?sel ?s3") simp
  from classify_frame [OF cl] r3 have tr: "to_return s4 = to_return s1" by simp
  from classify_vals [OF cl] obtain ys where ys: "vals s4 = ys"
    and len: "length ys = length ?sel"
    by (auto simp: log_t2_def dest: list_all2_lengthD)
  from len lc have "length ys = length (filter (\<lambda>b. b) msk)"
    using length_selected [of "candid s1" msk] by simp
  with lr tr ys have "mask_assign (to_return s4) msk (vals s4) = Inr (mask_update (to_return s1) msk ys)"
    by (simp add: mask_assign_exact)
  with pdf name mdl sel cl show ?thesis
    by (simp add: t2_classified_def Let_def c3)
qed

lemma t2_classified_frame:
  assumes "t2_classified env msk s1 = (r, s')"
  shows "candid s' = candid s1 \<and> jd s' = jd s1 \<and> fid s' = fid s1 \<and> magpsf s' = magpsf s1 \<and>
     sigmapsf s' = sigmapsf s1 \<and> roid s' = roid s1 \<and> cdsxmatch s' = cdsxmatch s1 \<and>
     jdstarthist s' = jdstarthist s1 \<and> model_name s' = model_name s1"
proof (cases "light_curves env msk s1")
  case (Inl e)
  with assms show ?thesis by (simp add: t2_classified_def)
next
  case pdf: (Inr pdf)
  show ?thesis
  proof (cases "lite_model_arg (model_name s1)")
    case (Inl e)
    with assms pdf show ?thesis by (simp add: t2_classified_def)
  next
    case name: (Inr name)
    let ?s2 = "log_t2 (LoadLite name) s1"
    let ?s3 = "?s2\<lparr>vals := []\<rparr>"
    show ?thesis
    proof (cases "get_lite_model env name")
      case (Inl e)
      with assms pdf name have "s' = ?s2" by (simp add: t2_classified_def Let_def)
      then show ?thesis by (simp add: log_t2_def)
    next
      case mdl: (Inr mdl)
      show ?thesis
      proof (cases "mask_select (candid ?s3) msk")
        case (Inl e)
        with assms pdf name mdl have "s' = ?s3" by (simp add: t2_classified_def Let_def)
        then show ?thesis by (simp add: log_t2_def)
      next
        case sel: (Inr selected)
        obtain r4 s4 where cl: "classify env mdl pdf selected ?s3 = (r4, s4)"
          by (cases "classify env mdl pdf selected ?s3")
        from classify_frame [OF cl] have f4: "candid s4 = candid s1 \<and> jd s4 = jd s1 \<and> fid s4 = fid s1 \<and>
          magpsf s4 = magpsf s1 \<and> sigmapsf s4 = sigmapsf s1 \<and> roid s4 = roid s1 \<and>
          cdsxmatch s4 = cdsxmatch s1 \<and> jdstarthist s4 = jdstarthist s1 \<and> model_name s4 = model_name s1"
          by (simp add: log_t2_def)
        from assms pdf name mdl sel cl have "s' = s4 \<or> (\<exists>arr. s' = s4\<lparr>to_return := arr\<rparr>)"
          by (auto simp: t2_classified_def Let_def split: option.splits sum.splits)
        with f4 show ?thesis by auto
      qed
    qed
  qed
qed

lemma t2_classified_trace:
  assumes "t2_classified env msk s1 = (r, s')"
  shows "(isl r \<and> t2_trace s' = t2_trace s1) \<or>
     (\<exists>name k. lite_model_arg (model_name s1) = Inr name \<and>
        t2_trace s' = t2_trace s1 @ LoadLite name # replicate k Predict)"
proof (cases "light_curves env msk s1")
  case (Inl e)
  with assms show ?thesis by (auto simp: t2_classified_def)
next
  case pdf: (Inr pdf)
  show ?thesis
  proof (cases "lite_model_arg (model_name s1)")
    case (Inl e)
    with assms pdf show ?thesis by (auto simp: t2_classified_def)
  next
    case name: (Inr name)
    let ?s2 = "log_t2 (LoadLite name) s1"
    let ?s3 = "?s2\<lparr>vals := []\<rparr>"
    have t3: "t2_trace ?s3 = t2_trace s1 @ [LoadLite name]" by simp
    show ?thesis
    proof (cases "get_lite_model env name")
      case (Inl e)
      with assms pdf name have "s' = ?s2" by (simp add: t2_classified_def Let_def)
      then have "t2_trace s' = t2_trace s1 @ LoadLite name # replicate 0 Predict"
        by simp
      with name show ?thesis by blast
    next
      case mdl: (Inr mdl)
      show ?thesis
      proof (cases "mask_select (candid ?s3) msk")
        case (Inl e)
        with assms pdf name mdl have "s' = ?s3" by (simp add: t2_classified_def Let_def)
        then have "t2_trace s' = t2_trace s1 @ LoadLite name # replicate 0 Predict"
          by simp
        with name show ?thesis by blast
      next
        case sel: (Inr selected)
        obtain r4 s4 where cl: "classify env mdl pdf selected ?s3 = (r4, s4)"
          by (cases "classify env mdl pdf selected ?s3")
        from classify_trace [OF cl] t3 obtain k where
          t4: "t2_trace s4 = t2_trace s1 @ LoadLite name # replicate k Predict" by auto
        from assms pdf name mdl sel cl have "s' = s4 \<or> (\<exists>arr. s' = s4\<lparr>to_return := arr\<rparr>)"
          by (auto simp: t2_classified_def Let_def split: option.splits sum.splits)
        with t4 have "t2_trace s' = t2_trace s1 @ LoadLite name # replicate k Predict" by auto
        with name show ?thesis by blast
      qed
    qed
  qed
qed

lemma t2_bad_mask:
  assumes "apply_selection_cuts_ztf env (magpsf s) (cdsxmatch s) (jd s) (jdstarthist s) (roid s) = Inr msk"
    and "length msk \<noteq> length (jd s)"
  shows "t2 env s = (Inl IndexError, s\<lparr>to_return := replicate (length (jd s)) (default_t2 env)\<rparr>)"
  using assms by (simp add: t2_def Let_def mask_select_def)

lemma t2_none_pass:
  assumes "apply_selection_cuts_ztf env (magpsf s) (cdsxmatch s) (jd s) (jdstarthist s) (roid s) = Inr msk"
    and "length msk = length (jd s)" and "\<forall>b\<in>set msk. \<not> b"
  shows "t2 env s = (Inr (replicate (length (jd s)) (default_t2 env)),
                     s\<lparr>to_return := replicate (length (jd s)) (default_t2 env)\<rparr>)"
proof -
  from assms(2) have "map fst (filter snd (zip (jd s) msk)) = [] \<longleftrightarrow> (\<forall>b\<in>set msk. \<not> b)"
    by (intro selected_empty_iff) simp
  with assms(3) have "map fst (filter snd (zip (jd s) msk)) = []" by blast
  with assms(1,2) show ?thesis by (simp add: t2_def Let_def mask_select_def)
qed

lemma t2_some_pass:
  assumes "apply_selection_cuts_ztf env (magpsf s) (cdsxmatch s) (jd s) (jdstarthist s) (roid s) = Inr msk"
    and "length msk = length (jd s)" and "\<not> (\<forall>b\<in>set msk. \<not> b)"
  shows "t2 env s = t2_classified env msk (s\<lparr>to_return := replicate (length (jd s)) (default_t2 env)\<rparr>)"
proof -
  from assms(2) have "map fst (filter snd (zip (jd s) msk)) = [] \<longleftrightarrow> (\<forall>b\<in>set msk. \<not> b)"
    by (intro selected_empty_iff) simp
  with assms(3) have "map fst (filter snd (zip (jd s) msk)) \<noteq> []" by blast
  with assms(1,2) show ?thesis by (simp add: t2_def Let_def mask_select_def)
qed

lemma t2_Inr:
  assumes asc: "apply_selection_cuts_ztf env (magpsf s) (cdsxmatch s) (jd s) (jdstarthist s) (roid s) = Inr msk"
    and ok: "fst (t2 env s) = Inr out"
  shows "length msk = length (jd s) \<and> length out = length (jd s) \<and>
     (\<forall>i<length (jd s). \<not> msk ! i \<longrightarrow> out ! i = default_t2 env) \<and>
     ((\<exists>i<length (jd s). msk ! i) \<longrightarrow>
        length (candid s) = length (jd s) \<and>
        (\<exists>pdf name mdl.
           light_curves env msk s = Inr pdf \<and> lite_model_arg (model_name s) = Inr name \<and>
           get_lite_model env name = Inr mdl \<and>
           (\<forall>i<length (jd s). msk ! i \<longrightarrow>
              (\<exists>k. n_filters (object_rows pdf (candid s ! i)) = Inr k \<and>
                 (if k \<noteq> 2 then out ! i = default_t2 env
                  else predictions env mdl (candid s ! i) (object_rows pdf (candid s ! i)) = Inr (out ! i))))))"
proof -
  let ?n = "length (jd s)"
  let ?s1 = "s\<lparr>to_return := replicate ?n (default_t2 env)\<rparr>"
  have len: "length msk = ?n"
  proof (rule ccontr)
    assume "length msk \<noteq> ?n"
    from t2_bad_mask [OF asc this] ok show False by simp
  qed
  show ?thesis
  proof (cases "\<forall>b\<in>set msk. \<not> b")
    case True
    from t2_none_pass [OF asc len True] ok have out: "out = replicate ?n (default_t2 env)"
      by simp
    from True len have no: "\<not> (\<exists>i<?n. msk ! i)" by (auto simp: all_set_conv_all_nth)
    from out have "length out = ?n" "\<forall>i<?n. \<not> msk ! i \<longrightarrow> out ! i = default_t2 env" by simp_all
    with no len show ?thesis by blast
  next
    case False
    from t2_some_pass [OF asc len False] ok have cl: "fst (t2_classified env msk ?s1) = Inr out"
      by simp
    have f1: "candid ?s1 = candid s" "to_return ?s1 = replicate ?n (default_t2 env)"
      "model_name ?s1 = model_name s" "light_curves env msk ?s1 = light_curves env msk s"
      by simp_all
    note c = t2_classified_Inr [OF cl, unfolded f1]
    from c obtain pdf name mdl where
      pdf: "light_curves env msk s = Inr pdf" and name: "lite_model_arg (model_name s) = Inr name"
      and mdl: "get_lite_model env name = Inr mdl" and lc: "length (candid s) = length msk"
      and lo: "length out = length msk"
      and rows: "\<forall>i<length msk.
        if msk ! i then
          (\<exists>k. n_filters (object_rows pdf (candid s ! i)) = Inr k \<and>
             (if k \<noteq> 2 then out ! i = default_t2 env
              else predictions env mdl (candid s ! i) (object_rows pdf (candid s ! i)) = Inr (out ! i)))
        else out ! i = replicate ?n (default_t2 env) ! i"
      by blast
    have a: "\<forall>i<?n. \<not> msk ! i \<longrightarrow> out ! i = default_t2 env"
      using rows len by auto
    have b: "\<forall>i<?n. msk ! i \<longrightarrow>
              (\<exists>k. n_filters (object_rows pdf (candid s ! i)) = Inr k \<and>
                 (if k \<noteq> 2 then out ! i = default_t2 env
                  else predictions env mdl (candid s ! i) (object_rows pdf (candid s ! i)) = Inr (out ! i)))"
      using rows len by auto
    from len lo lc a b pdf name mdl show ?thesis by auto
  qed
qed

lemma t2_total:
  assumes asc: "apply_selection_cuts_ztf env (magpsf s) (cdsxmatch s) (jd s) (jdstarthist s) (roid s) = Inr msk"
    and len: "length msk = length (jd s)" and lc: "length (candid s) = length (jd s)"
    and pdf: "light_curves env msk s = Inr pdf"
    and name: "lite_model_arg (model_name s) = Inr name"
    and mdl: "get_lite_model env name = Inr mdl"
    and nf: "\<forall>i<length (jd s). msk ! i \<longrightarrow> (\<exists>k. n_filters (object_rows pdf (candid s ! i)) = Inr k)"
    and pr: "\<forall>i<length (jd s). msk ! i \<and> n_filters (object_rows pdf (candid s ! i)) = Inr 2 \<longrightarrow>
        (\<exists>y. predictions env mdl (candid s ! i) (object_rows pdf (candid s ! i)) = Inr y)"
  shows "\<exists>out. fst (t2 env s) = Inr out"
proof (cases "\<forall>b\<in>set msk. \<not> b")
  case True
  from t2_none_pass [OF asc len True] show ?thesis by simp
next
  case False
  let ?s1 = "s\<lparr>to_return := replicate (length (jd s)) (default_t2 env)\<rparr>"
  have "\<exists>out. fst (t2_classified env msk ?s1) = Inr out"
    using pdf name mdl lc len nf pr
    by (intro t2_classified_total [where pdf = pdf and name = name and mdl = mdl]) simp_all
  with t2_some_pass [OF asc len False] show ?thesis by simp
qed

lemma t2_frame:
  "candid (snd (t2 env s)) = candid s \<and> jd (snd (t2 env s)) = jd s \<and> fid (snd (t2 env s)) = fid s \<and>
   magpsf (snd (t2 env s)) = magpsf s \<and> sigmapsf (snd (t2 env s)) = sigmapsf s \<and>
   roid (snd (t2 env s)) = roid s \<and> cdsxmatch (snd (t2 env s)) = cdsxmatch s \<and>
   jdstarthist (snd (t2 env s)) = jdstarthist s \<and> model_name (snd (t2 env s)) = model_name s"
proof -
  let ?s1 = "s\<lparr>to_return := replicate (length (jd s)) (default_t2 env)\<rparr>"
  have "snd (t2 env s) = ?s1 \<or> (\<exists>msk. snd (t2 env s) = snd (t2_classified env msk ?s1))"
    by (auto simp: t2_def Let_def split: sum.splits)
  then show ?thesis
  proof
    assume "snd (t2 env s) = ?s1"
    then show ?thesis by simp
  next
    assume "\<exists>msk. snd (t2 env s) = snd (t2_classified env msk ?s1)"
    then obtain msk where m: "snd (t2 env s) = snd (t2_classified env msk ?s1)" by blast
    obtain r s' where c: "t2_classified env msk ?s1 = (r, s')" by (cases "t2_classified env msk ?s1")
    from t2_classified_frame [OF c] m c show ?thesis by simp
  qed
qed

lemma t2_trace_shape:
  "(isl (fst (t2 env s)) \<or> (\<exists>msk. apply_selection_cuts_ztf env (magpsf s) (cdsxmatch s) (jd s) (jdstarthist s) (roid s) = Inr msk \<and> (\<forall>b\<in>set msk. \<not> b)))
       \<and> t2_trace (snd (t2 env s)) = t2_trace s \<or>
   (\<exists>name k. lite_model_arg (model_name s) = Inr name \<and>
        t2_trace (snd (t2 env s)) = t2_trace s @ LoadLite name # replicate k Predict)"
proof (cases "apply_selection_cuts_ztf env (magpsf s) (cdsxmatch s) (jd s) (jdstarthist s) (roid s)")
  case (Inl e)
  then show ?thesis by (simp add: t2_def Let_def)
next
  case (Inr msk)
  let ?s1 = "s\<lparr>to_return := replicate (length (jd s)) (default_t2 env)\<rparr>"
  show ?thesis
  proof (cases "length msk \<noteq> length (jd s)")
    case True
    from t2_bad_mask [OF Inr True] show ?thesis by simp
  next
    case False
    then have len: "length msk = length (jd s)" by simp
    show ?thesis
    proof (cases "\<forall>b\<in>set msk. \<not> b")
      case True
      from t2_none_pass [OF Inr len True] Inr True show ?thesis by simp
    next
      case False
      from t2_some_pass [OF Inr len False] have e: "t2 env s = t2_classified env msk ?s1" .
      obtain r s' where c: "t2_classified env msk ?s1 = (r, s')" by (cases "t2_classified env msk ?s1")
      from t2_classified_trace [OF c] e c show ?thesis by auto
    qed
  qed
qed

lemma member_selected:
  "length xs = length msk \<Longrightarrow> i < length msk \<Longrightarrow> msk ! i \<Longrightarrow>
     xs ! i \<in> set (map fst (filter snd (zip xs msk)))"
proof (induction msk arbitrary: xs i)
  case Nil
  then show ?case by simp
next
  case (Cons b msk)
  from Cons.prems obtain x xs' where xs: "xs = x # xs'" by (cases xs) auto
  show ?case
  proof (cases i)
    case 0
    with Cons.prems xs show ?thesis by simp
  next
    case (Suc j)
    with Cons.prems xs have "xs' ! j \<in> set (map fst (filter snd (zip xs' msk)))"
      by (intro Cons.IH) simp_all
    with Suc xs show ?thesis by simp
  qed
qed

lemma t2_classified_raises:
  assumes pdf: "light_curves env msk s1 = Inr pdf"
    and lc: "length (candid s1) = length msk"
    and bad: "i < length msk" "msk ! i" "isl (n_filters (object_rows pdf (candid s1 ! i)))"
  shows "isl (fst (t2_classified env msk s1))"
proof (cases "lite_model_arg (model_name s1)")
  case (Inl e)
  with pdf show ?thesis by (simp add: t2_classified_def)
next
  case name: (Inr name)
  show ?thesis
  proof (cases "get_lite_model env name")
    case (Inl e)
    with pdf name show ?thesis by (simp add: t2_classified_def Let_def)
  next
    case mdl: (Inr mdl)
    let ?s3 = "(log_t2 (LoadLite name) s1)\<lparr>vals := []\<rparr>"
    let ?sel = "map fst (filter snd (zip (candid s1) msk))"
    from lc have sel: "mask_select (candid s1) msk = Inr ?sel" by (simp add: mask_select_def)
    from member_selected [OF lc bad(1,2)] bad(3)
    have "\<exists>c\<in>set ?sel. isl (n_filters (object_rows pdf c))" by blast
    then have "fst (classify env mdl pdf ?sel ?s3) \<noteq> None" by (rule classify_raises)
    then obtain e s4 where "classify env mdl pdf ?sel ?s3 = (Some e, s4)"
      by (cases "classify env mdl pdf ?sel ?s3") auto
    with pdf name mdl sel show ?thesis by (simp add: t2_classified_def Let_def)
  qed
qed

lemma t2_mixed_filters_raise:
  assumes asc: "apply_selection_cuts_ztf env (magpsf s) (cdsxmatch s) (jd s) (jdstarthist s) (roid s) = Inr msk"
    and len: "length msk = length (jd s)" and lc: "length (candid s) = length (jd s)"
    and pdf: "light_curves env msk s = Inr pdf"
    and bad: "i < length (jd s)" "msk ! i" "isl (n_filters (object_rows pdf (candid s ! i)))"
  shows "isl (fst (t2 env s))"
proof -
  let ?s1 = "s\<lparr>to_return := replicate (length (jd s)) (default_t2 env)\<rparr>"
  from bad(1) len have "msk ! i \<in> set msk" by simp
  with bad(2) have some: "\<not> (\<forall>b\<in>set msk. \<not> b)" by blast
  have f1: "candid ?s1 = candid s" "light_curves env msk ?s1 = light_curves env msk s"
    by simp_all
  have i: "i < length msk" using bad(1) len by simp
  have lc1: "length (candid ?s1) = length msk" using lc len by simp
  have pdf1: "light_curves env msk ?s1 = Inr pdf" using pdf by simp
  have bad1: "isl (n_filters (object_rows pdf (candid ?s1 ! i)))" using bad(3) by simp
  from t2_classified_raises [OF pdf1 lc1 i bad(2) bad1]
  have "isl (fst (t2_classified env msk ?s1))" .
  with t2_some_pass [OF asc len some] show ?thesis by simp
qed

text \<open>
  Claim C3.  Whenever \<^verbatim>\<open>t2\<close> returns, its output has one entry per input record and
  every entry sits at its record's batch position: a record excluded by the selection mask
  carries the default mapping, a record that passed carries the default mapping if its
  light curve does not show exactly two distinct filters and otherwise the mapping built
  from the model's prediction for that record.  The default mapping sends every label of
  \<^verbatim>\<open>T2_COLS\<close> to \<open>-1\<close> and has no other key.  \<^verbatim>\<open>t2\<close> does return whenever the
  columns are aligned and the library calls return.
\<close>

theorem t2_original_positions:
  assumes asc: "apply_selection_cuts_ztf env (magpsf s) (cdsxmatch s) (jd s) (jdstarthist s) (roid s) = Inr msk"
  shows "(\<forall>k. default_t2 env k = (if k \<in> set (T2_COLS env) then Some (- 1) else None)) \<and>
     (\<forall>out. fst (t2 env s) = Inr out \<longrightarrow>
        length msk = length (jd s) \<and> length out = length (jd s) \<and>
        (\<forall>i<length (jd s). \<not> msk ! i \<longrightarrow> out ! i = default_t2 env) \<and>
        ((\<exists>i<length (jd s). msk ! i) \<longrightarrow>
           length (candid s) = length (jd s) \<and>
           (\<exists>pdf name mdl.
              light_curves env msk s = Inr pdf \<and> lite_model_arg (model_name s) = Inr name \<and>
              get_lite_model env name = Inr mdl \<and>
              (\<forall>i<length (jd s). msk ! i \<longrightarrow>
                 (\<exists>k. n_filters (object_rows pdf (candid s ! i)) = Inr k \<and>
                    (if k \<noteq> 2 then out ! i = default_t2 env
                     else predictions env mdl (candid s ! i) (object_rows pdf (candid s ! i)) = Inr (out ! i))))))) \<and>
     (\<forall>pdf name mdl.
        length msk = length (jd s) \<and> length (candid s) = length (jd s) \<and>
        light_curves env msk s = Inr pdf \<and> lite_model_arg (model_name s) = Inr name \<and>
        get_lite_model env name = Inr mdl \<and>
        (\<forall>i<length (jd s). msk ! i \<longrightarrow> (\<exists>k. n_filters (object_rows pdf (candid s ! i)) = Inr k)) \<and>
        (\<forall>i<length (jd s). msk ! i \<and> n_filters (object_rows pdf (candid s ! i)) = Inr 2 \<longrightarrow>
           (\<exists>y. predictions env mdl (candid s ! i) (object_rows pdf (candid s ! i)) = Inr y))
        \<longrightarrow> (\<exists>out. fst (t2 env s) = Inr out))"
proof (intro conjI allI impI)
  fix k show "default_t2 env k = (if k \<in> set (T2_COLS env) then Some (- 1) else None)"
    by (rule default_lookup)
next
  fix out assume ok: "fst (t2 env s) = Inr out"
  from t2_Inr [OF asc ok] show "length msk = length (jd s)" by blast
  from t2_Inr [OF asc ok] show "length out = length (jd s)" by blast
next
  fix out i assume ok: "fst (t2 env s) = Inr out" and "i < length (jd s)" "\<not> msk ! i"
  with t2_Inr [OF asc ok] show "out ! i = default_t2 env" by blast
next
  fix out assume ok: "fst (t2 env s) = Inr out" and some: "\<exists>i<length (jd s). msk ! i"
  from t2_Inr [OF asc ok] some show "length (candid s) = length (jd s)" by blast
  from t2_Inr [OF asc ok] some show "\<exists>pdf name mdl.
              light_curves env msk s = Inr pdf \<and> lite_model_arg (model_name s) = Inr name \<and>
              get_lite_model env name = Inr mdl \<and>
              (\<forall>i<length (jd s). msk ! i \<longrightarrow>
                 (\<exists>k. n_filters (object_rows pdf (candid s ! i)) = Inr k \<and>
                    (if k \<noteq> 2 then out ! i = default_t2 env
                     else predictions env mdl (candid s ! i) (object_rows pdf (candid s ! i)) = Inr (out ! i))))"
    by blast
next
  fix pdf name mdl
  assume h: "length msk = length (jd s) \<and> length (candid s) = length (jd s) \<and>
        light_curves env msk s = Inr pdf \<and> lite_model_arg (model_name s) = Inr name \<and>
        get_lite_model env name = Inr mdl \<and>
        (\<forall>i<length (jd s). msk ! i \<longrightarrow> (\<exists>k. n_filters (object_rows pdf (candid s ! i)) = Inr k)) \<and>
        (\<forall>i<length (jd s). msk ! i \<and> n_filters (object_rows pdf (candid s ! i)) = Inr 2 \<longrightarrow>
           (\<exists>y. predictions env mdl (candid s ! i) (object_rows pdf (candid s ! i)) = Inr y))"
  then show "\<exists>out. fst (t2 env s) = Inr out"
    using t2_total [OF asc, of pdf name mdl] by blast
qed

text \<open>
  Claim C8.  If no record passes the selection mask, \<^verbatim>\<open>t2\<close> returns a series of
  \<open>len(jd)\<close> default mappings (every class label mapped to \<open>-1\<close>) and the log of
  library effects is unchanged: no model is loaded and no inference is run.
\<close>

theorem t2_no_record_passes:
  assumes asc: "apply_selection_cuts_ztf env (magpsf s) (cdsxmatch s) (jd s) (jdstarthist s) (roid s) = Inr msk"
    and len: "length msk = length (jd s)"
    and none: "\<forall>b\<in>set msk. \<not> b"
  shows "fst (t2 env s) = Inr (replicate (length (jd s)) (default_t2 env)) \<and>
     (\<forall>k\<in>set (T2_COLS env). default_t2 env k = Some (- 1)) \<and>
     t2_trace (snd (t2 env s)) = t2_trace s"
  using t2_none_pass [OF asc len none] by (simp add: default_lookup)

theorem t2_no_record_passes_witness:
  "fst (t2 t2_env0 (t2_batch [10, 11] [[5], [1]] [[1], [2]] [[18], [17]] [[1], [1]] None))
     = Inr [default_t2 t2_env0, default_t2 t2_env0] \<and>
   default_t2 t2_env0 ''SNIa'' = Some (- 1) \<and>
   t2_trace (snd (t2 t2_env0 (t2_batch [10, 11] [[5], [1]] [[1], [2]] [[18], [17]] [[1], [1]] None))) = []"
proof -
  let ?s = "t2_batch [10, 11] [[5], [1]] [[1], [2]] [[18], [17]] [[1], [1]] None"
  have asc: "apply_selection_cuts_ztf t2_env0 (magpsf ?s) (cdsxmatch ?s) (jd ?s) (jdstarthist ?s) (roid ?s)
      = Inr [False, False]"
    by (simp add: t2_env0_def t2_batch_def)
  have len: "length [False, False] = length (jd ?s)" by (simp add: t2_batch_def)
  have none: "\<forall>b\<in>set [False, False]. \<not> b" by simp
  have cols: "T2_COLS t2_env0 = [''AGN'', ''SNIa'']" by (simp add: t2_env0_def)
  have n: "length (jd ?s) = 2" "t2_trace ?s = []" by (simp_all add: t2_batch_def)
  from t2_no_record_passes [OF asc len none] show ?thesis
    unfolding cols n by (simp add: numeral_2_eq_2)
qed

theorem t2_original_positions_witness:
  "\<exists>out. fst (t2 t2_env0 (t2_batch [10, 11, 12] [[5, 6], [1], [2, 3]] [[1, 2], [1], [1, 1]]
                 [[18, 19], [17], [20, 21]] [[1, 1], [1], [2, 2]] None)) = Inr out \<and>
     length out = 3 \<and> out ! 1 = default_t2 t2_env0 \<and> out ! 2 = default_t2 t2_env0 \<and>
     (out ! 0) ''SNIa'' = Some (3 / 4) \<and> default_t2 t2_env0 ''SNIa'' = Some (- 1)"
proof -
  let ?s = "t2_batch [10, 11, 12] [[5, 6], [1], [2, 3]] [[1, 2], [1], [1, 1]]
                 [[18, 19], [17], [20, 21]] [[1, 1], [1], [2, 2]] None"
  let ?msk = "[True, False, True]"
  let ?pdf = "[\<lparr>object_id = 10, lc_mjd = Some 0, flux = Some 18, flux_error = Some 1, lc_filter = Some (FltName ''ztfg'')\<rparr>,
               \<lparr>object_id = 10, lc_mjd = Some (- 1), flux = Some 19, flux_error = Some 1, lc_filter = Some (FltName ''ztfr'')\<rparr>,
               \<lparr>object_id = 12, lc_mjd = Some 0, flux = Some 20, flux_error = Some 2, lc_filter = Some (FltName ''ztfg'')\<rparr>,
               \<lparr>object_id = 12, lc_mjd = Some (- 1), flux = Some 21, flux_error = Some 2, lc_filter = Some (FltName ''ztfg'')\<rparr>]"
  have asc: "apply_selection_cuts_ztf t2_env0 (magpsf ?s) (cdsxmatch ?s) (jd ?s) (jdstarthist ?s) (roid ?s)
      = Inr ?msk"
    by (simp add: t2_env0_def t2_batch_def)
  have fields: "jd ?s = [[5, 6], [1], [2, 3]]" "candid ?s = [10, 11, 12]" "model_name ?s = None"
    by (simp_all add: t2_batch_def)
  have pdf: "light_curves t2_env0 ?msk ?s = Inr ?pdf"
    by (simp add: light_curves_def t2_env0_def t2_batch_def t2_rescale_def rename_def dropna_def
        reset_index_def snana_rows_of_def ZTF_FILTER_MAP_def raise_bind_def)
  have name: "lite_model_arg (model_name ?s) = Inr None" by (simp add: fields lite_model_arg_def)
  have mdl: "get_lite_model t2_env0 None = Inr ()" by (simp add: t2_env0_def)
  have nf: "n_filters (object_rows ?pdf 10) = Inr 2" "n_filters (object_rows ?pdf 12) = Inr 1"
    by (simp_all add: n_filters_def object_rows_def)
  have pr: "predictions t2_env0 () 10 (object_rows ?pdf 10)
      = Inr (dict (zip [''AGN'', ''SNIa''] [1 / 4, 3 / 4]))"
    by (simp add: predictions_def t2_env0_def raise_bind_def first_element_def)
  have l3: "length (jd ?s) = 3" by (simp add: fields)
  have c: "candid ?s ! 0 = 10" "candid ?s ! 2 = 12" by (simp_all add: fields)
  have nfs: "\<forall>i<length (jd ?s). ?msk ! i \<longrightarrow> (\<exists>k. n_filters (object_rows ?pdf (candid ?s ! i)) = Inr k)"
    unfolding l3 fields using nf by (simp add: less_Suc_eq numeral_3_eq_3)
  have prs: "\<forall>i<length (jd ?s). ?msk ! i \<and> n_filters (object_rows ?pdf (candid ?s ! i)) = Inr 2 \<longrightarrow>
           (\<exists>y. predictions t2_env0 () (candid ?s ! i) (object_rows ?pdf (candid ?s ! i)) = Inr y)"
    unfolding l3 fields using pr nf by (simp add: less_Suc_eq numeral_3_eq_3)
  have lens: "length ?msk = length (jd ?s)" "length (candid ?s) = length (jd ?s)"
    by (simp_all add: fields)
  note main = t2_original_positions [OF asc]
  from main [THEN conjunct2, THEN conjunct2, rule_format, of ?pdf None "()"] lens pdf name mdl nfs prs
  obtain out where out: "fst (t2 t2_env0 ?s) = Inr out" by blast
  note pos = main [THEN conjunct2, THEN conjunct1, rule_format, OF out]
  from pos have lo: "length out = length (jd ?s)" by (rule conjunct2 [THEN conjunct1])
  from pos have ex: "\<forall>i<length (jd ?s). \<not> ?msk ! i \<longrightarrow> out ! i = default_t2 t2_env0"
    by (rule conjunct2 [THEN conjunct2, THEN conjunct1])
  from pos have some: "(\<exists>i<length (jd ?s). ?msk ! i) \<longrightarrow>
           length (candid ?s) = length (jd ?s) \<and>
           (\<exists>pdf name mdl.
              light_curves t2_env0 ?msk ?s = Inr pdf \<and> lite_model_arg (model_name ?s) = Inr name \<and>
              get_lite_model t2_env0 name = Inr mdl \<and>
              (\<forall>i<length (jd ?s). ?msk ! i \<longrightarrow>
                 (\<exists>k. n_filters (object_rows pdf (candid ?s ! i)) = Inr k \<and>
                    (if k \<noteq> 2 then out ! i = default_t2 t2_env0
                     else predictions t2_env0 mdl (candid ?s ! i) (object_rows pdf (candid ?s ! i)) = Inr (out ! i)))))"
    by (rule conjunct2 [THEN conjunct2, THEN conjunct2])
  from ex l3 have o1: "out ! 1 = default_t2 t2_env0" by simp
  have "\<exists>i<length (jd ?s). ?msk ! i" unfolding l3 by (rule exI [of _ 0]) simp
  with some have "\<exists>pdf name mdl.
              light_curves t2_env0 ?msk ?s = Inr pdf \<and> lite_model_arg (model_name ?s) = Inr name \<and>
              get_lite_model t2_env0 name = Inr mdl \<and>
              (\<forall>i<length (jd ?s). ?msk ! i \<longrightarrow>
                 (\<exists>k. n_filters (object_rows pdf (candid ?s ! i)) = Inr k \<and>
                    (if k \<noteq> 2 then out ! i = default_t2 t2_env0
                     else predictions t2_env0 mdl (candid ?s ! i) (object_rows pdf (candid ?s ! i)) = Inr (out ! i))))"
    by (rule mp [THEN conjunct2])
  then obtain pdf' name' mdl' where pdf': "light_curves t2_env0 ?msk ?s = Inr pdf'"
    and rows: "\<forall>i<length (jd ?s). ?msk ! i \<longrightarrow>
                 (\<exists>k. n_filters (object_rows pdf' (candid ?s ! i)) = Inr k \<and>
                    (if k \<noteq> 2 then out ! i = default_t2 t2_env0
                     else predictions t2_env0 mdl' (candid ?s ! i) (object_rows pdf' (candid ?s ! i)) = Inr (out ! i)))"
    by (elim exE conjE)
  from pdf pdf' have pe: "pdf' = ?pdf" by simp
  have lt: "2 < length (jd ?s)" "0 < length (jd ?s)" by (simp_all add: l3)
  have m: "?msk ! 2" "?msk ! 0" by simp_all
  from rows [rule_format, OF lt(1) m(1)] obtain k2 where
    k2: "n_filters (object_rows pdf' (candid ?s ! 2)) = Inr k2"
    and r2: "if k2 \<noteq> 2 then out ! 2 = default_t2 t2_env0
             else predictions t2_env0 mdl' (candid ?s ! 2) (object_rows pdf' (candid ?s ! 2)) = Inr (out ! 2)"
    by blast
  from k2 nf(2) have "k2 = 1" unfolding pe c by simp
  with r2 have o2: "out ! 2 = default_t2 t2_env0" by simp
  from rows [rule_format, OF lt(2) m(2)] obtain k0 where
    k0: "n_filters (object_rows pdf' (candid ?s ! 0)) = Inr k0"
    and r0: "if k0 \<noteq> 2 then out ! 0 = default_t2 t2_env0
             else predictions t2_env0 mdl' (candid ?s ! 0) (object_rows pdf' (candid ?s ! 0)) = Inr (out ! 0)"
    by blast
  from k0 nf(1) have "k0 = 2" unfolding pe c by simp
  with r0 have "predictions t2_env0 mdl' 10 (object_rows ?pdf 10) = Inr (out ! 0)"
    unfolding pe c by simp
  with pr have "out ! 0 = dict (zip [''AGN'', ''SNIa''] [1 / 4, 3 / 4])" by simp
  then have o0: "(out ! 0) ''SNIa'' = Some (3 / 4)" by (simp add: dict_def)
  from main have "default_t2 t2_env0 ''SNIa'' = Some (- 1)" by (simp add: t2_env0_def)
  with out lo l3 o0 o1 o2 show ?thesis by auto
qed

text \<open>
  Claim C2 as stated (a malformed record gets a sentinel row and nothing raises) fails for
  \<^verbatim>\<open>predict_nn\<close>: a record with the unknown filter name \<open>x\<close> raises KeyError.
\<close>

theorem predict_nn_unknown_filter_counterexample:
  "fst (predict_nn cats_env0 (cats_batch [[1, 3]] [[5, 7]] [[1, 2]] [[''g'', ''x'']] None)) = Inl KeyError"
  by (simp add: predict_nn_def lc_tensor_def cats_batch_def filter_dict_def)

lemma remdups_two_iff:
  "1 < length (remdups xs) \<longleftrightarrow> (\<exists>a\<in>set xs. \<exists>b\<in>set xs. a \<noteq> b)"
proof
  assume "1 < length (remdups xs)"
  then have c: "1 < card (set xs)" by (simp add: length_remdups_card_conv)
  show "\<exists>a\<in>set xs. \<exists>b\<in>set xs. a \<noteq> b"
  proof (rule ccontr)
    assume n: "\<not> (\<exists>a\<in>set xs. \<exists>b\<in>set xs. a \<noteq> b)"
    show False
    proof (cases xs)
      case Nil
      with c show False by simp
    next
      case (Cons x ys)
      then have x: "x \<in> set xs" by simp
      have "set xs \<subseteq> {x}"
      proof
        fix a assume "a \<in> set xs"
        with n x have "a = x" by blast
        then show "a \<in> {x}" by simp
      qed
      then have "card (set xs) \<le> card {x}" by (rule card_mono [rotated]) simp
      with c show False by simp
    qed
  qed
next
  assume "\<exists>a\<in>set xs. \<exists>b\<in>set xs. a \<noteq> b"
  then obtain a b where ab: "a \<in> set xs" "b \<in> set xs" "a \<noteq> b" by blast
  then have "{a, b} \<subseteq> set xs" by simp
  then have "card {a, b} \<le> card (set xs)" by (rule card_mono [rotated]) simp
  with ab(3) have "1 < card (set xs)" by simp
  then show "1 < length (remdups xs)" by (simp add: length_remdups_card_conv)
qed

lemma n_filters_raises_iff:
  "isl (n_filters sub) \<longleftrightarrow>
     (\<exists>r\<in>set sub. \<exists>r'\<in>set sub. flt_kind (lc_filter r) \<noteq> flt_kind (lc_filter r'))"
proof -
  have "isl (n_filters sub) \<longleftrightarrow> 1 < length (remdups (map flt_kind (map lc_filter sub)))"
    by (simp add: n_filters_def Let_def)
  also have "\<dots> \<longleftrightarrow> (\<exists>a\<in>set (map flt_kind (map lc_filter sub)).
      \<exists>b\<in>set (map flt_kind (map lc_filter sub)). a \<noteq> b)"
    by (rule remdups_two_iff)
  also have "\<dots> \<longleftrightarrow> (\<exists>r\<in>set sub. \<exists>r'\<in>set sub. flt_kind (lc_filter r) \<noteq> flt_kind (lc_filter r'))"
    by simp
  finally show ?thesis .
qed

text \<open>
  Claim C2, amended.  In \<^verbatim>\<open>t2\<close> a record that passed the cuts and whose filter column
  counts a number of distinct filters other than two gets the default mapping (\<open>-1\<close> for
  every class label) at its position, and \<^verbatim>\<open>t2\<close> returns whenever the columns are
  aligned, the filter column of every passing record is of one kind, and the library calls
  return.  A passing record whose filter column mixes band names with filter ids that
  \<^verbatim>\<open>ZTF_FILTER_MAP\<close> does not know makes \<^verbatim>\<open>t2\<close> raise, at the count of line 161.
  \<^verbatim>\<open>predict_nn\<close> substitutes nothing: a non-empty record with a filter name outside
  \<^verbatim>\<open>filter_dict\<close> makes the call raise KeyError before any model is loaded.
\<close>

theorem malformed_records:
  assumes asc: "apply_selection_cuts_ztf env (magpsf s) (cdsxmatch s) (jd s) (jdstarthist s) (roid s) = Inr msk"
  shows "(fst (t2 env s) = Inr out \<and> light_curves env msk s = Inr pdf \<and> i < length (jd s) \<and> msk ! i \<and>
        n_filters (object_rows pdf (candid s ! i)) = Inr k \<and> k \<noteq> 2
      \<longrightarrow> out ! i = default_t2 env \<and> (\<forall>l\<in>set (T2_COLS env). (out ! i) l = Some (- 1))) \<and>
     (length msk = length (jd s) \<and> length (candid s) = length (jd s) \<and>
        light_curves env msk s = Inr pdf \<and> lite_model_arg (model_name s) = Inr name \<and>
        get_lite_model env name = Inr mdl \<and>
        (\<forall>i<length (jd s). msk ! i \<longrightarrow> (\<exists>k. n_filters (object_rows pdf (candid s ! i)) = Inr k)) \<and>
        (\<forall>i<length (jd s). msk ! i \<and> n_filters (object_rows pdf (candid s ! i)) = Inr 2 \<longrightarrow>
           (\<exists>y. predictions env mdl (candid s ! i) (object_rows pdf (candid s ! i)) = Inr y))
      \<longrightarrow> (\<exists>out. fst (t2 env s) = Inr out)) \<and>
     (length msk = length (jd s) \<and> length (candid s) = length (jd s) \<and>
        light_curves env msk s = Inr pdf \<and> i < length (jd s) \<and> msk ! i \<and>
        (\<exists>r\<in>set (object_rows pdf (candid s ! i)). \<exists>r'\<in>set (object_rows pdf (candid s ! i)).
            flt_kind (lc_filter r) \<noteq> flt_kind (lc_filter r'))
      \<longrightarrow> isl (fst (t2 env s))) \<and>
     (length (filterName c) = length (midpointTai c) \<and> r < length (midpointTai c) \<and>
        midpointTai c ! r \<noteq> [] \<and> \<not> set (filterName c ! r) \<subseteq> dom filter_dict
      \<longrightarrow> fst (predict_nn cenv c) = Inl KeyError \<and>
          cats_trace (snd (predict_nn cenv c)) = cats_trace c)"
proof (intro conjI impI)
  assume h: "fst (t2 env s) = Inr out \<and> light_curves env msk s = Inr pdf \<and> i < length (jd s) \<and> msk ! i \<and>
        n_filters (object_rows pdf (candid s ! i)) = Inr k \<and> k \<noteq> 2"
  then have ok: "fst (t2 env s) = Inr out" and pdf: "light_curves env msk s = Inr pdf"
    and i: "i < length (jd s)" "msk ! i"
    and nf: "n_filters (object_rows pdf (candid s ! i)) = Inr k" "k \<noteq> 2"
    by simp_all
  have some: "\<exists>i<length (jd s). msk ! i" using i by blast
  note imp = t2_Inr [OF asc ok, THEN conjunct2, THEN conjunct2, THEN conjunct2]
  from imp some have "\<exists>pdf name mdl.
           light_curves env msk s = Inr pdf \<and> lite_model_arg (model_name s) = Inr name \<and>
           get_lite_model env name = Inr mdl \<and>
           (\<forall>i<length (jd s). msk ! i \<longrightarrow>
              (\<exists>k. n_filters (object_rows pdf (candid s ! i)) = Inr k \<and>
                 (if k \<noteq> 2 then out ! i = default_t2 env
                  else predictions env mdl (candid s ! i) (object_rows pdf (candid s ! i)) = Inr (out ! i))))"
    by (rule mp [THEN conjunct2])
  then obtain pdf' name' mdl' where pdf': "light_curves env msk s = Inr pdf'"
    and rows: "\<forall>i<length (jd s). msk ! i \<longrightarrow>
              (\<exists>k. n_filters (object_rows pdf' (candid s ! i)) = Inr k \<and>
                 (if k \<noteq> 2 then out ! i = default_t2 env
                  else predictions env mdl' (candid s ! i) (object_rows pdf' (candid s ! i)) = Inr (out ! i)))"
    by (elim exE conjE)
  from pdf pdf' have pe: "pdf' = pdf" by simp
  from rows [rule_format, OF i] obtain k' where
    k': "n_filters (object_rows pdf' (candid s ! i)) = Inr k'"
    and r: "if k' \<noteq> 2 then out ! i = default_t2 env
            else predictions env mdl' (candid s ! i) (object_rows pdf' (candid s ! i)) = Inr (out ! i)"
    by blast
  from k' nf(1) have "k' = k" unfolding pe by simp
  with r nf(2) show d: "out ! i = default_t2 env" by simp
  show "\<forall>l\<in>set (T2_COLS env). (out ! i) l = Some (- 1)"
    unfolding d by (simp add: default_lookup)
next
  assume "length msk = length (jd s) \<and> length (candid s) = length (jd s) \<and>
        light_curves env msk s = Inr pdf \<and> lite_model_arg (model_name s) = Inr name \<and>
        get_lite_model env name = Inr mdl \<and>
        (\<forall>i<length (jd s). msk ! i \<longrightarrow> (\<exists>k. n_filters (object_rows pdf (candid s ! i)) = Inr k)) \<and>
        (\<forall>i<length (jd s). msk ! i \<and> n_filters (object_rows pdf (candid s ! i)) = Inr 2 \<longrightarrow>
           (\<exists>y. predictions env mdl (candid s ! i) (object_rows pdf (candid s ! i)) = Inr y))"
  then have h: "length msk = length (jd s)" "length (candid s) = length (jd s)"
    "light_curves env msk s = Inr pdf" "lite_model_arg (model_name s) = Inr name"
    "get_lite_model env name = Inr mdl"
    "\<forall>i<length (jd s). msk ! i \<longrightarrow> (\<exists>k. n_filters (object_rows pdf (candid s ! i)) = Inr k)"
    "\<forall>i<length (jd s). msk ! i \<and> n_filters (object_rows pdf (candid s ! i)) = Inr 2 \<longrightarrow>
           (\<exists>y. predictions env mdl (candid s ! i) (object_rows pdf (candid s ! i)) = Inr y)"
    by simp_all
  show "\<exists>out. fst (t2 env s) = Inr out"
    by (rule t2_total [OF asc h])
next
  assume h: "length msk = length (jd s) \<and> length (candid s) = length (jd s) \<and>
        light_curves env msk s = Inr pdf \<and> i < length (jd s) \<and> msk ! i \<and>
        (\<exists>r\<in>set (object_rows pdf (candid s ! i)). \<exists>r'\<in>set (object_rows pdf (candid s ! i)).
            flt_kind (lc_filter r) \<noteq> flt_kind (lc_filter r'))"
  then have g: "length msk = length (jd s)" "length (candid s) = length (jd s)"
    "light_curves env msk s = Inr pdf" "i < length (jd s)" "msk ! i"
    and mixed: "\<exists>r\<in>set (object_rows pdf (candid s ! i)). \<exists>r'\<in>set (object_rows pdf (candid s ! i)).
            flt_kind (lc_filter r) \<noteq> flt_kind (lc_filter r')"
    by simp_all
  from mixed have "isl (n_filters (object_rows pdf (candid s ! i)))"
    by (simp only: n_filters_raises_iff)
  with g show "isl (fst (t2 env s))"
    by (intro t2_mixed_filters_raise [OF asc, of pdf i])
next
  assume h: "length (filterName c) = length (midpointTai c) \<and> r < length (midpointTai c) \<and>
        midpointTai c ! r \<noteq> [] \<and> \<not> set (filterName c ! r) \<subseteq> dom filter_dict"
  then have "fst (predict_nn cenv c) = Inl KeyError \<and>
        cats_trace (snd (predict_nn cenv c)) = cats_trace c"
    by (intro predict_nn_KeyError [of c r cenv]) simp_all
  then show "fst (predict_nn cenv c) = Inl KeyError"
    and "cats_trace (snd (predict_nn cenv c)) = cats_trace c" by simp_all
qed

theorem malformed_records_witness:
  "(\<exists>out. fst (t2 t2_env0 (t2_batch [10, 11, 12] [[5, 6], [1], [2, 3]] [[1, 2], [1], [1, 1]]
                 [[18, 19], [17], [20, 21]] [[1, 1], [1], [2, 2]] None)) = Inr out \<and>
      out ! 2 = default_t2 t2_env0 \<and> (out ! 2) ''AGN'' = Some (- 1)) \<and>
   isl (fst (t2 t2_env0 (t2_batch [10, 11, 12] [[5, 6], [1], [2, 3]] [[1, 4], [1], [1, 1]]
                 [[18, 19], [17], [20, 21]] [[1, 1], [1], [2, 2]] None))) \<and>
   fst (predict_nn cats_env0 (cats_batch [[1, 3], [4]] [[5, 7], [6]] [[1, 2], [1]] [[''g'', ''r''], [''q'']] None))
     = Inl KeyError"
proof -
  let ?s = "t2_batch [10, 11, 12] [[5, 6], [1], [2, 3]] [[1, 2], [1], [1, 1]]
                 [[18, 19], [17], [20, 21]] [[1, 1], [1], [2, 2]] None"
  let ?u = "t2_batch [10, 11, 12] [[5, 6], [1], [2, 3]] [[1, 4], [1], [1, 1]]
                 [[18, 19], [17], [20, 21]] [[1, 1], [1], [2, 2]] None"
  let ?msk = "[True, False, True]"
  let ?pdf = "[\<lparr>object_id = 10, lc_mjd = Some 0, flux = Some 18, flux_error = Some 1, lc_filter = Some (FltName ''ztfg'')\<rparr>,
               \<lparr>object_id = 10, lc_mjd = Some (- 1), flux = Some 19, flux_error = Some 1, lc_filter = Some (FltName ''ztfr'')\<rparr>,
               \<lparr>object_id = 12, lc_mjd = Some 0, flux = Some 20, flux_error = Some 2, lc_filter = Some (FltName ''ztfg'')\<rparr>,
               \<lparr>object_id = 12, lc_mjd = Some (- 1), flux = Some 21, flux_error = Some 2, lc_filter = Some (FltName ''ztfg'')\<rparr>]"
  let ?pdu = "[\<lparr>object_id = 10, lc_mjd = Some 0, flux = Some 18, flux_error = Some 1, lc_filter = Some (FltName ''ztfg'')\<rparr>,
               \<lparr>object_id = 10, lc_mjd = Some (- 1), flux = Some 19, flux_error = Some 1, lc_filter = Some (FltId 4)\<rparr>,
               \<lparr>object_id = 12, lc_mjd = Some 0, flux = Some 20, flux_error = Some 2, lc_filter = Some (FltName ''ztfg'')\<rparr>,
               \<lparr>object_id = 12, lc_mjd = Some (- 1), flux = Some 21, flux_error = Some 2, lc_filter = Some (FltName ''ztfg'')\<rparr>]"
  let ?c = "cats_batch [[1, 3], [4]] [[5, 7], [6]] [[1, 2], [1]] [[''g'', ''r''], [''q'']] None"
  \<comment> \<open>a record with one filter gets the default row, and the call returns\<close>
  have asc: "apply_selection_cuts_ztf t2_env0 (magpsf ?s) (cdsxmatch ?s) (jd ?s) (jdstarthist ?s) (roid ?s)
      = Inr ?msk"
    by (simp add: t2_env0_def t2_batch_def)
  have fields: "jd ?s = [[5, 6], [1], [2, 3]]" "candid ?s = [10, 11, 12]" "model_name ?s = None"
    by (simp_all add: t2_batch_def)
  have pdf: "light_curves t2_env0 ?msk ?s = Inr ?pdf"
    by (simp add: light_curves_def t2_env0_def t2_batch_def t2_rescale_def rename_def dropna_def
        reset_index_def snana_rows_of_def ZTF_FILTER_MAP_def raise_bind_def)
  have name: "lite_model_arg (model_name ?s) = Inr None" by (simp add: fields lite_model_arg_def)
  have mdl: "get_lite_model t2_env0 None = Inr ()" by (simp add: t2_env0_def)
  have nf: "n_filters (object_rows ?pdf 10) = Inr 2" "n_filters (object_rows ?pdf 12) = Inr 1"
    by (simp_all add: n_filters_def object_rows_def)
  have pr: "predictions t2_env0 () 10 (object_rows ?pdf 10)
      = Inr (dict (zip [''AGN'', ''SNIa''] [1 / 4, 3 / 4]))"
    by (simp add: predictions_def t2_env0_def raise_bind_def first_element_def)
  have l3: "length (jd ?s) = 3" by (simp add: fields)
  have nfs: "\<forall>i<length (jd ?s). ?msk ! i \<longrightarrow> (\<exists>k. n_filters (object_rows ?pdf (candid ?s ! i)) = Inr k)"
    unfolding l3 fields using nf by (simp add: less_Suc_eq numeral_3_eq_3)
  have prs: "\<forall>i<length (jd ?s). ?msk ! i \<and> n_filters (object_rows ?pdf (candid ?s ! i)) = Inr 2 \<longrightarrow>
           (\<exists>y. predictions t2_env0 () (candid ?s ! i) (object_rows ?pdf (candid ?s ! i)) = Inr y)"
    unfolding l3 fields using pr nf by (simp add: less_Suc_eq numeral_3_eq_3)
  have lens: "length ?msk = length (jd ?s)" "length (candid ?s) = length (jd ?s)"
    by (simp_all add: fields)
  note m = malformed_records [OF asc, where pdf = ?pdf and name = None and mdl = "()" and c = ?c
      and r = 1 and cenv = cats_env0 and i = 2 and k = 1]
  from m [THEN conjunct2, THEN conjunct1] lens pdf name mdl nfs prs
  obtain out where out: "fst (t2 t2_env0 ?s) = Inr out" by blast
  have i: "2 < length (jd ?s)" "?msk ! 2" "n_filters (object_rows ?pdf (candid ?s ! 2)) = Inr 1"
    "(1::nat) \<noteq> 2"
    using nf by (simp_all add: fields)
  from m [where out = out, THEN conjunct1] out pdf i
  have o2: "out ! 2 = default_t2 t2_env0" "\<forall>l\<in>set (T2_COLS t2_env0). (out ! 2) l = Some (- 1)"
    by blast+
  from o2(2) have agn: "(out ! 2) ''AGN'' = Some (- 1)" by (simp add: t2_env0_def)
  \<comment> \<open>a record that mixes a band name with the unknown filter id 4 makes the call raise\<close>
  have ascu: "apply_selection_cuts_ztf t2_env0 (magpsf ?u) (cdsxmatch ?u) (jd ?u) (jdstarthist ?u) (roid ?u)
      = Inr ?msk"
    by (simp add: t2_env0_def t2_batch_def)
  have fu: "jd ?u = [[5, 6], [1], [2, 3]]" "candid ?u = [10, 11, 12]"
    by (simp_all add: t2_batch_def)
  have pdu: "light_curves t2_env0 ?msk ?u = Inr ?pdu"
    by (simp add: light_curves_def t2_env0_def t2_batch_def t2_rescale_def rename_def dropna_def
        reset_index_def snana_rows_of_def ZTF_FILTER_MAP_def raise_bind_def)
  have mixed: "\<exists>r\<in>set (object_rows ?pdu (candid ?u ! 0)). \<exists>r'\<in>set (object_rows ?pdu (candid ?u ! 0)).
            flt_kind (lc_filter r) \<noteq> flt_kind (lc_filter r')"
  proof -
    have "isl (n_filters (object_rows ?pdu 10))" by (simp add: n_filters_def object_rows_def)
    then show ?thesis unfolding fu by (simp only: n_filters_raises_iff nth_Cons_0)
  qed
  have lu: "length ?msk = length (jd ?u)" "length (candid ?u) = length (jd ?u)" "0 < length (jd ?u)"
    "?msk ! 0"
    by (simp_all add: fu)
  from malformed_records [OF ascu, where pdf = ?pdu and i = 0, THEN conjunct2, THEN conjunct2,
      THEN conjunct1] lu pdu mixed
  have raised: "isl (fst (t2 t2_env0 ?u))" by blast
  \<comment> \<open>an unknown filter name in the second record\<close>
  have cats: "length (filterName ?c) = length (midpointTai ?c)" "1 < length (midpointTai ?c)"
    "midpointTai ?c ! 1 \<noteq> []" "\<not> set (filterName ?c ! 1) \<subseteq> dom filter_dict"
    by (simp_all add: cats_batch_def filter_dict_def)
  from m [THEN conjunct2, THEN conjunct2, THEN conjunct2] cats
  have "fst (predict_nn cats_env0 ?c) = Inl KeyError" by blast
  with out o2(1) agn raised show ?thesis by blast
qed

section \<open>Model selection and frame\<close>

lemma predict_nn_load_fails:
  assumes lc: "fst (lc_tensor env s) = Inr lc" and p: "model_path env (model s) = Inr p"
    and e: "load_model env p = Inl e"
  shows "fst (predict_nn env s) = Inl e"
proof -
  obtain s2 where l: "lc_tensor env s = (Inr lc, s2)" using lc by (cases "lc_tensor env s") simp
  from lc_tensor_frame [OF l] have m: "model s2 = model s" by simp
  show ?thesis unfolding predict_nn_def l by (simp add: m p e Let_def)
qed

lemma predict_nn_loaded:
  assumes ok: "fst (predict_nn env s) = Inr preds"
  shows "\<exists>lc p NN. fst (lc_tensor env s) = Inr lc \<and> model_path env (model s) = Inr p \<and>
     load_model env p = Inr NN \<and> nn_predict env NN lc = Inr preds"
proof -
  obtain s' where p: "predict_nn env s = (Inr preds, s')" using ok by (cases "predict_nn env s") simp
  obtain lr s2 where l: "lc_tensor env s = (lr, s2)" by (cases "lc_tensor env s")
  from predict_nn_Inr [OF p l] l show ?thesis by auto
qed

lemma predict_nn_returns:
  assumes lc: "fst (lc_tensor env s) = Inr lc" and p: "model_path env (model s) = Inr p"
    and NN: "load_model env p = Inr NN" and preds: "nn_predict env NN lc = Inr preds"
  shows "fst (predict_nn env s) = Inr preds"
proof -
  obtain s2 where l: "lc_tensor env s = (Inr lc, s2)" using lc by (cases "lc_tensor env s") simp
  from lc_tensor_frame [OF l] have m: "model s2 = model s" by simp
  show ?thesis unfolding predict_nn_def l by (simp add: m p NN preds Let_def)
qed

lemma first_element_Inr: "first_element col = Inr x \<Longrightarrow> \<exists>xs. col = x # xs"
  by (cases col) (simp_all add: first_element_def)

lemma lite_model_arg_Some:
  "lite_model_arg (Some col) = Inr a \<Longrightarrow> \<exists>nm nms. col = nm # nms \<and> a = Some nm"
  by (cases col) (simp_all add: lite_model_arg_def first_element_def raise_bind_def)

lemma t2_load_fails:
  assumes asc: "apply_selection_cuts_ztf env (magpsf s) (cdsxmatch s) (jd s) (jdstarthist s) (roid s) = Inr msk"
    and len: "length msk = length (jd s)" and some: "\<exists>b\<in>set msk. b"
    and pdf: "light_curves env msk s = Inr pdf"
    and name: "lite_model_arg (model_name s) = Inr a"
    and e: "get_lite_model env a = Inl e"
  shows "fst (t2 env s) = Inl e"
proof -
  let ?s1 = "s\<lparr>to_return := replicate (length (jd s)) (default_t2 env)\<rparr>"
  from some have n: "\<not> (\<forall>b\<in>set msk. \<not> b)" by blast
  have "fst (t2_classified env msk ?s1) = Inl e"
    using pdf name e by (simp add: t2_classified_def Let_def)
  with t2_some_pass [OF asc len n] show ?thesis by simp
qed

lemma t2_loaded:
  assumes asc: "apply_selection_cuts_ztf env (magpsf s) (cdsxmatch s) (jd s) (jdstarthist s) (roid s) = Inr msk"
    and some: "\<exists>b\<in>set msk. b" and ok: "fst (t2 env s) = Inr out"
  shows "\<exists>a mdl pdf. lite_model_arg (model_name s) = Inr a \<and> get_lite_model env a = Inr mdl \<and>
     light_curves env msk s = Inr pdf \<and>
     (\<forall>i<length (jd s). msk ! i \<and> n_filters (object_rows pdf (candid s ! i)) = Inr 2 \<longrightarrow>
        predictions env mdl (candid s ! i) (object_rows pdf (candid s ! i)) = Inr (out ! i))"
proof -
  from t2_Inr [OF asc ok] have len: "length msk = length (jd s)" by (rule conjunct1)
  from some obtain i where "i < length msk" "msk ! i" by (auto simp: in_set_conv_nth)
  with len have ex: "\<exists>i<length (jd s). msk ! i" by auto
  note imp = t2_Inr [OF asc ok, THEN conjunct2, THEN conjunct2, THEN conjunct2]
  from imp ex have "\<exists>pdf name mdl.
           light_curves env msk s = Inr pdf \<and> lite_model_arg (model_name s) = Inr name \<and>
           get_lite_model env name = Inr mdl \<and>
           (\<forall>i<length (jd s). msk ! i \<longrightarrow>
              (\<exists>k. n_filters (object_rows pdf (candid s ! i)) = Inr k \<and>
                 (if k \<noteq> 2 then out ! i = default_t2 env
                  else predictions env mdl (candid s ! i) (object_rows pdf (candid s ! i)) = Inr (out ! i))))"
    by (rule mp [THEN conjunct2])
  then obtain pdf name mdl where pdf: "light_curves env msk s = Inr pdf"
    and name: "lite_model_arg (model_name s) = Inr name" and mdl: "get_lite_model env name = Inr mdl"
    and rows: "\<forall>i<length (jd s). msk ! i \<longrightarrow>
              (\<exists>k. n_filters (object_rows pdf (candid s ! i)) = Inr k \<and>
                 (if k \<noteq> 2 then out ! i = default_t2 env
                  else predictions env mdl (candid s ! i) (object_rows pdf (candid s ! i)) = Inr (out ! i)))"
    by (elim exE conjE)
  have "\<forall>i<length (jd s). msk ! i \<and> n_filters (object_rows pdf (candid s ! i)) = Inr 2 \<longrightarrow>
        predictions env mdl (candid s ! i) (object_rows pdf (candid s ! i)) = Inr (out ! i)"
  proof (intro allI impI)
    fix i assume i: "i < length (jd s)"
      and h: "msk ! i \<and> n_filters (object_rows pdf (candid s ! i)) = Inr 2"
    from rows [rule_format, OF i] h obtain k where
      k: "n_filters (object_rows pdf (candid s ! i)) = Inr k"
      and r: "if k \<noteq> 2 then out ! i = default_t2 env
              else predictions env mdl (candid s ! i) (object_rows pdf (candid s ! i)) = Inr (out ! i)"
      by blast
    from k h have "k = 2" by simp
    with r show "predictions env mdl (candid s ! i) (object_rows pdf (candid s ! i)) = Inr (out ! i)"
      by simp
  qed
  with pdf name mdl show ?thesis by blast
qed

text \<open>
  Claim C5.  A call of \<^verbatim>\<open>predict_nn\<close> that returns has run the network that the keras
  loader gave for the fixed file \<^verbatim>\<open>data/models/cats_models/cats_small_nometa_serial.keras\<close>
  under the package directory when the model argument is absent, and for the first
  element of the model column when it is supplied; if the loader fails on that path, the
  call fails with the loader's error.  A call of \<^verbatim>\<open>t2\<close> in which some record passes
  the cuts takes its predictions from the model that \<^verbatim>\<open>get_lite_model\<close> gave when
  called with no argument (no model column) or with the first element of the model column,
  one model for the whole batch, and fails with the loader's error if that call fails.
  In both functions a returning call has loaded its model exactly once.
\<close>

theorem model_loaded_from:
  "(model s = None \<and> fst (predict_nn env s) = Inr preds \<longrightarrow>
      (\<exists>lc NN. fst (lc_tensor env s) = Inr lc \<and>
         load_model env (curdir env @ ''/data/models/cats_models/cats_small_nometa_serial.keras'') = Inr NN \<and>
         nn_predict env NN lc = Inr preds)) \<and>
   (model s = Some col \<and> fst (predict_nn env s) = Inr preds \<longrightarrow>
      (\<exists>p ps lc NN. col = p # ps \<and> fst (lc_tensor env s) = Inr lc \<and>
         load_model env p = Inr NN \<and> nn_predict env NN lc = Inr preds)) \<and>
   (fst (lc_tensor env s) = Inr lc \<and> model_path env (model s) = Inr q \<and> load_model env q = Inl e
      \<longrightarrow> fst (predict_nn env s) = Inl e) \<and>
   (fst (predict_nn env s) = Inr preds \<longrightarrow>
      (\<exists>p. model_path env (model s) = Inr p \<and>
         cats_trace (snd (predict_nn env s)) = cats_trace s @ [LoadKeras p, Predict])) \<and>
   (apply_selection_cuts_ztf tenv (magpsf u) (cdsxmatch u) (jd u) (jdstarthist u) (roid u) = Inr msk \<and>
      (\<exists>b\<in>set msk. b) \<and> fst (t2 tenv u) = Inr out \<and> model_name u = None \<longrightarrow>
      (\<exists>mdl pdf. get_lite_model tenv None = Inr mdl \<and> light_curves tenv msk u = Inr pdf \<and>
         (\<forall>i<length (jd u). msk ! i \<and> n_filters (object_rows pdf (candid u ! i)) = Inr 2 \<longrightarrow>
            predictions tenv mdl (candid u ! i) (object_rows pdf (candid u ! i)) = Inr (out ! i)))) \<and>
   (apply_selection_cuts_ztf tenv (magpsf u) (cdsxmatch u) (jd u) (jdstarthist u) (roid u) = Inr msk \<and>
      (\<exists>b\<in>set msk. b) \<and> fst (t2 tenv u) = Inr out \<and> model_name u = Some names \<longrightarrow>
      (\<exists>nm nms mdl pdf. names = nm # nms \<and> get_lite_model tenv (Some nm) = Inr mdl \<and>
         light_curves tenv msk u = Inr pdf \<and>
         (\<forall>i<length (jd u). msk ! i \<and> n_filters (object_rows pdf (candid u ! i)) = Inr 2 \<longrightarrow>
            predictions tenv mdl (candid u ! i) (object_rows pdf (candid u ! i)) = Inr (out ! i)))) \<and>
   (apply_selection_cuts_ztf tenv (magpsf u) (cdsxmatch u) (jd u) (jdstarthist u) (roid u) = Inr msk \<and>
      length msk = length (jd u) \<and> (\<exists>b\<in>set msk. b) \<and> light_curves tenv msk u = Inr rows \<and>
      lite_model_arg (model_name u) = Inr a \<and> get_lite_model tenv a = Inl e
      \<longrightarrow> fst (t2 tenv u) = Inl e) \<and>
   (apply_selection_cuts_ztf tenv (magpsf u) (cdsxmatch u) (jd u) (jdstarthist u) (roid u) = Inr msk \<and>
      (\<exists>b\<in>set msk. b) \<and> fst (t2 tenv u) = Inr out \<longrightarrow>
      (\<exists>a k. lite_model_arg (model_name u) = Inr a \<and>
           t2_trace (snd (t2 tenv u)) = t2_trace u @ LoadLite a # replicate k Predict))"
proof (intro conjI impI)
  assume h: "model s = None \<and> fst (predict_nn env s) = Inr preds"
  from predict_nn_loaded [of env s preds] h obtain lc p NN where
    "fst (lc_tensor env s) = Inr lc" "model_path env (model s) = Inr p"
    "load_model env p = Inr NN" "nn_predict env NN lc = Inr preds" by blast
  with h show "\<exists>lc NN. fst (lc_tensor env s) = Inr lc \<and>
         load_model env (curdir env @ ''/data/models/cats_models/cats_small_nometa_serial.keras'') = Inr NN \<and>
         nn_predict env NN lc = Inr preds"
    by (auto simp: model_path_def)
next
  assume h: "model s = Some col \<and> fst (predict_nn env s) = Inr preds"
  from predict_nn_loaded [of env s preds] h obtain lc p NN where
    f: "fst (lc_tensor env s) = Inr lc" "model_path env (model s) = Inr p"
    "load_model env p = Inr NN" "nn_predict env NN lc = Inr preds" by blast
  from f(2) h have "first_element col = Inr p" by (simp add: model_path_def)
  from first_element_Inr [OF this] obtain ps where "col = p # ps" by blast
  with f show "\<exists>p ps lc NN. col = p # ps \<and> fst (lc_tensor env s) = Inr lc \<and>
         load_model env p = Inr NN \<and> nn_predict env NN lc = Inr preds"
    by blast
next
  assume "fst (lc_tensor env s) = Inr lc \<and> model_path env (model s) = Inr q \<and> load_model env q = Inl e"
  then show "fst (predict_nn env s) = Inl e"
    by (intro predict_nn_load_fails [of env s lc q e]) simp_all
next
  assume ok: "fst (predict_nn env s) = Inr preds"
  from predict_nn_trace [of env s] ok
  show "\<exists>p. model_path env (model s) = Inr p \<and>
         cats_trace (snd (predict_nn env s)) = cats_trace s @ [LoadKeras p, Predict]"
    by auto
next
  assume h: "apply_selection_cuts_ztf tenv (magpsf u) (cdsxmatch u) (jd u) (jdstarthist u) (roid u) = Inr msk \<and>
      (\<exists>b\<in>set msk. b) \<and> fst (t2 tenv u) = Inr out \<and> model_name u = None"
  then have asc: "apply_selection_cuts_ztf tenv (magpsf u) (cdsxmatch u) (jd u) (jdstarthist u) (roid u) = Inr msk"
    and some: "\<exists>b\<in>set msk. b" and ok: "fst (t2 tenv u) = Inr out" and mn: "model_name u = None"
    by simp_all
  from t2_loaded [OF asc some ok] obtain a mdl pdf where
    f: "lite_model_arg (model_name u) = Inr a" "get_lite_model tenv a = Inr mdl"
    "light_curves tenv msk u = Inr pdf"
    "\<forall>i<length (jd u). msk ! i \<and> n_filters (object_rows pdf (candid u ! i)) = Inr 2 \<longrightarrow>
        predictions tenv mdl (candid u ! i) (object_rows pdf (candid u ! i)) = Inr (out ! i)"
    by blast
  from f(1) mn have "a = None" by (simp add: lite_model_arg_def)
  with f show "\<exists>mdl pdf. get_lite_model tenv None = Inr mdl \<and> light_curves tenv msk u = Inr pdf \<and>
         (\<forall>i<length (jd u). msk ! i \<and> n_filters (object_rows pdf (candid u ! i)) = Inr 2 \<longrightarrow>
            predictions tenv mdl (candid u ! i) (object_rows pdf (candid u ! i)) = Inr (out ! i))"
    by blast
next
  assume h: "apply_selection_cuts_ztf tenv (magpsf u) (cdsxmatch u) (jd u) (jdstarthist u) (roid u) = Inr msk \<and>
      (\<exists>b\<in>set msk. b) \<and> fst (t2 tenv u) = Inr out \<and> model_name u = Some names"
  then have asc: "apply_selection_cuts_ztf tenv (magpsf u) (cdsxmatch u) (jd u) (jdstarthist u) (roid u) = Inr msk"
    and some: "\<exists>b\<in>set msk. b" and ok: "fst (t2 tenv u) = Inr out" and mn: "model_name u = Some names"
    by simp_all
  from t2_loaded [OF asc some ok] obtain a mdl pdf where
    f: "lite_model_arg (model_name u) = Inr a" "get_lite_model tenv a = Inr mdl"
    "light_curves tenv msk u = Inr pdf"
    "\<forall>i<length (jd u). msk ! i \<and> n_filters (object_rows pdf (candid u ! i)) = Inr 2 \<longrightarrow>
        predictions tenv mdl (candid u ! i) (object_rows pdf (candid u ! i)) = Inr (out ! i)"
    by blast
  from f(1) mn have "lite_model_arg (Some names) = Inr a" by simp
  from lite_model_arg_Some [OF this] obtain nm nms where "names = nm # nms" "a = Some nm" by blast
  with f show "\<exists>nm nms mdl pdf. names = nm # nms \<and> get_lite_model tenv (Some nm) = Inr mdl \<and>
         light_curves tenv msk u = Inr pdf \<and>
         (\<forall>i<length (jd u). msk ! i \<and> n_filters (object_rows pdf (candid u ! i)) = Inr 2 \<longrightarrow>
            predictions tenv mdl (candid u ! i) (object_rows pdf (candid u ! i)) = Inr (out ! i))"
    by blast
next
  assume h: "apply_selection_cuts_ztf tenv (magpsf u) (cdsxmatch u) (jd u) (jdstarthist u) (roid u) = Inr msk \<and>
      length msk = length (jd u) \<and> (\<exists>b\<in>set msk. b) \<and> light_curves tenv msk u = Inr rows \<and>
      lite_model_arg (model_name u) = Inr a \<and> get_lite_model tenv a = Inl e"
  then show "fst (t2 tenv u) = Inl e"
    by (intro t2_load_fails [of tenv u msk rows a e]) simp_all
next
  assume h: "apply_selection_cuts_ztf tenv (magpsf u) (cdsxmatch u) (jd u) (jdstarthist u) (roid u) = Inr msk \<and>
      (\<exists>b\<in>set msk. b) \<and> fst (t2 tenv u) = Inr out"
  from t2_trace_shape [of tenv u] h
  show "\<exists>a k. lite_model_arg (model_name u) = Inr a \<and>
           t2_trace (snd (t2 tenv u)) = t2_trace u @ LoadLite a # replicate k Predict"
    by auto
qed

theorem model_loaded_from_witness:
  "(\<exists>lc. fst (lc_tensor cats_env0 (cats_batch [[1, 3]] [[5, 7]] [[1, 2]] [[''g'', ''r'']] None)) = Inr lc \<and>
      nn_predict cats_env0 () lc = Inr [[1, 0, 0, 0, 0]]) \<and>
   fst (predict_nn (cats_env0\<lparr>load_model := (\<lambda>p. if p = ''/m/a.keras'' then Inr () else Inl IOError)\<rparr>)
         (cats_batch [[1, 3]] [[5, 7]] [[1, 2]] [[''g'', ''r'']] None)) = Inl IOError \<and>
   cats_trace (snd (predict_nn (cats_env0\<lparr>load_model := (\<lambda>p. if p = ''/m/a.keras'' then Inr () else Inl IOError)\<rparr>)
         (cats_batch [[1, 3]] [[5, 7]] [[1, 2]] [[''g'', ''r'']] (Some [''/m/a.keras'', ''/m/b.keras'']))))
     = [LoadKeras ''/m/a.keras'', Predict] \<and>
   fst (t2 (t2_env0\<lparr>get_lite_model := (\<lambda>a. if a = Some ''tinho'' then Inr () else Inl IOError)\<rparr>)
         (t2_batch [10, 11, 12] [[5, 6], [1], [2, 3]] [[1, 2], [1], [1, 1]]
                 [[18, 19], [17], [20, 21]] [[1, 1], [1], [2, 2]] None)) = Inl IOError \<and>
   (\<exists>k. t2_trace (snd (t2 (t2_env0\<lparr>get_lite_model := (\<lambda>a. if a = Some ''tinho'' then Inr () else Inl IOError)\<rparr>)
         (t2_batch [10, 11, 12] [[5, 6], [1], [2, 3]] [[1, 2], [1], [1, 1]]
                 [[18, 19], [17], [20, 21]] [[1, 1], [1], [2, 2]] (Some [''tinho'', ''other'']))))
      = LoadLite (Some ''tinho'') # replicate k Predict)"
proof -
  let ?cn = "cats_batch [[1, 3]] [[5, 7]] [[1, 2]] [[''g'', ''r'']] None"
  let ?cs = "cats_batch [[1, 3]] [[5, 7]] [[1, 2]] [[''g'', ''r'']] (Some [''/m/a.keras'', ''/m/b.keras''])"
  let ?envL = "cats_env0\<lparr>load_model := (\<lambda>p. if p = ''/m/a.keras'' then Inr () else Inl IOError)\<rparr>"
  let ?un = "t2_batch [10, 11, 12] [[5, 6], [1], [2, 3]] [[1, 2], [1], [1, 1]]
                 [[18, 19], [17], [20, 21]] [[1, 1], [1], [2, 2]] None"
  let ?us = "t2_batch [10, 11, 12] [[5, 6], [1], [2, 3]] [[1, 2], [1], [1, 1]]
                 [[18, 19], [17], [20, 21]] [[1, 1], [1], [2, 2]] (Some [''tinho'', ''other''])"
  let ?tenvL = "t2_env0\<lparr>get_lite_model := (\<lambda>a. if a = Some ''tinho'' then Inr () else Inl IOError)\<rparr>"
  let ?msk = "[True, False, True]"
  let ?pdf = "[\<lparr>object_id = 10, lc_mjd = Some 0, flux = Some 18, flux_error = Some 1, lc_filter = Some (FltName ''ztfg'')\<rparr>,
               \<lparr>object_id = 10, lc_mjd = Some (- 1), flux = Some 19, flux_error = Some 1, lc_filter = Some (FltName ''ztfr'')\<rparr>,
               \<lparr>object_id = 12, lc_mjd = Some 0, flux = Some 20, flux_error = Some 2, lc_filter = Some (FltName ''ztfg'')\<rparr>,
               \<lparr>object_id = 12, lc_mjd = Some (- 1), flux = Some 21, flux_error = Some 2, lc_filter = Some (FltName ''ztfg'')\<rparr>]"
  \<comment> \<open>the tensor of the CATS batch exists, in either environment and with either model argument\<close>
  have tensor: "\<exists>lc. fst (lc_tensor env (cats_batch [[1, 3]] [[5, 7]] [[1, 2]] [[''g'', ''r'']] m)) = Inr lc"
    if "norm_column env = Inr" for env :: "unit cats_env" and m
  proof -
    let ?c = "cats_batch [[1, 3]] [[5, 7]] [[1, 2]] [[''g'', ''r'']] m"
    have len: "length (midpointTai ?c) = 1" "length (psFlux ?c) = 1" "length (psFluxErr ?c) = 1"
      "length (filterName ?c) = 1"
      by (simp_all add: cats_batch_def)
    have wf: "\<forall>r<1. midpointTai ?c ! r \<noteq> [] \<and> set (filterName ?c ! r) \<subseteq> dom filter_dict \<and>
             (\<exists>y. norm_column env (psFlux ?c ! r) = Inr y) \<and>
             (\<exists>y. norm_column env (psFluxErr ?c ! r) = Inr y)"
      using that by (simp add: cats_batch_def filter_dict_def)
    from lc_tensor_total [OF len wf] show ?thesis .
  qed
  have n0: "norm_column cats_env0 = Inr" "norm_column ?envL = Inr"
    by (auto simp: cats_env0_def)
  \<comment> \<open>no model argument, default file present\<close>
  from tensor [OF n0(1), of None] obtain lc0 where lc0: "fst (lc_tensor cats_env0 ?cn) = Inr lc0" by blast
  have len0: "length (midpointTai ?cn) = 1" "length (psFlux ?cn) = 1" "length (psFluxErr ?cn) = 1"
    "length (filterName ?cn) = 1"
    by (simp_all add: cats_batch_def)
  from lc_tensor_Inr [OF len0 lc0] have l0: "length lc0 = 1" by blast
  have mp0: "model_path cats_env0 (model ?cn)
      = Inr (curdir cats_env0 @ ''/data/models/cats_models/cats_small_nometa_serial.keras'')"
    by (simp add: model_path_def cats_batch_def)
  have ld0: "load_model cats_env0 (curdir cats_env0 @ ''/data/models/cats_models/cats_small_nometa_serial.keras'')
      = Inr ()" by (simp add: cats_env0_def)
  have pr0: "nn_predict cats_env0 () lc0 = Inr (map (\<lambda>row. [1, 0, 0, 0, 0]) lc0)"
    by (simp add: cats_env0_def)
  from predict_nn_returns [OF lc0 mp0 ld0 pr0]
  have ok0: "fst (predict_nn cats_env0 ?cn) = Inr (map (\<lambda>row. [1, 0, 0, 0, 0]) lc0)" .
  have none0: "model ?cn = None" by (simp add: cats_batch_def)
  from model_loaded_from [where env = cats_env0 and s = ?cn and preds = "map (\<lambda>row. [1, 0, 0, 0, 0]) lc0",
      THEN conjunct1] none0 ok0
  obtain lc NN where a1: "fst (lc_tensor cats_env0 ?cn) = Inr lc"
    "nn_predict cats_env0 NN lc = Inr (map (\<lambda>row. [1, 0, 0, 0, 0]) lc0)" by blast
  from l0 have "map (\<lambda>row. [1, 0, 0, 0, 0 :: real]) lc0 = [[1, 0, 0, 0, 0]]"
    by (cases lc0) simp_all
  with a1 have A: "\<exists>lc. fst (lc_tensor cats_env0 ?cn) = Inr lc \<and>
      nn_predict cats_env0 () lc = Inr [[1, 0, 0, 0, 0]]" by auto
  \<comment> \<open>no model argument, default file absent\<close>
  from tensor [OF n0(2), of None] obtain lc1 where lc1: "fst (lc_tensor ?envL ?cn) = Inr lc1" by blast
  have mp1: "model_path ?envL (model ?cn) = Inr ''/pkg/data/models/cats_models/cats_small_nometa_serial.keras''"
    by (simp add: model_path_def cats_batch_def cats_env0_def)
  have ld1: "load_model ?envL ''/pkg/data/models/cats_models/cats_small_nometa_serial.keras'' = Inl IOError"
    by simp
  from model_loaded_from [where env = ?envL and s = ?cn and lc = lc1 and e = IOError
      and q = "''/pkg/data/models/cats_models/cats_small_nometa_serial.keras''",
      THEN conjunct2, THEN conjunct2, THEN conjunct1] lc1 mp1 ld1
  have B: "fst (predict_nn ?envL ?cn) = Inl IOError" by blast
  \<comment> \<open>a model column\<close>
  from tensor [OF n0(2), of "Some [''/m/a.keras'', ''/m/b.keras'']"]
  obtain lc2 where lc2: "fst (lc_tensor ?envL ?cs) = Inr lc2" by blast
  have mp2: "model_path ?envL (model ?cs) = Inr ''/m/a.keras''"
    by (simp add: model_path_def cats_batch_def first_element_def)
  have ld2: "load_model ?envL ''/m/a.keras'' = Inr ()" by simp
  have pr2: "nn_predict ?envL () lc2 = Inr (map (\<lambda>row. [1, 0, 0, 0, 0]) lc2)"
    by (simp add: cats_env0_def)
  from predict_nn_returns [OF lc2 mp2 ld2 pr2]
  have ok2: "fst (predict_nn ?envL ?cs) = Inr (map (\<lambda>row. [1, 0, 0, 0, 0]) lc2)" .
  from model_loaded_from [where env = ?envL and s = ?cs and preds = "map (\<lambda>row. [1, 0, 0, 0, 0]) lc2",
      THEN conjunct2, THEN conjunct2, THEN conjunct2, THEN conjunct1] ok2
  obtain p where "model_path ?envL (model ?cs) = Inr p"
    "cats_trace (snd (predict_nn ?envL ?cs)) = cats_trace ?cs @ [LoadKeras p, Predict]" by blast
  with mp2 have C: "cats_trace (snd (predict_nn ?envL ?cs)) = [LoadKeras ''/m/a.keras'', Predict]"
    by (simp add: cats_batch_def)
  \<comment> \<open>T2: the default model is absent\<close>
  have ascn: "apply_selection_cuts_ztf ?tenvL (magpsf ?un) (cdsxmatch ?un) (jd ?un) (jdstarthist ?un) (roid ?un)
      = Inr ?msk"
    by (simp add: t2_env0_def t2_batch_def)
  have pdn: "light_curves ?tenvL ?msk ?un = Inr ?pdf"
    by (simp add: light_curves_def t2_env0_def t2_batch_def t2_rescale_def rename_def dropna_def
        reset_index_def snana_rows_of_def ZTF_FILTER_MAP_def raise_bind_def)
  have hn: "length ?msk = length (jd ?un)" "\<exists>b\<in>set ?msk. b"
    "lite_model_arg (model_name ?un) = Inr None" "get_lite_model ?tenvL None = Inl IOError"
    by (simp_all add: t2_batch_def lite_model_arg_def)
  from model_loaded_from [where tenv = ?tenvL and u = ?un and msk = ?msk and rows = ?pdf
      and a = None and e = IOError,
      THEN conjunct2, THEN conjunct2, THEN conjunct2, THEN conjunct2, THEN conjunct2, THEN conjunct2,
      THEN conjunct1] ascn hn pdn
  have D: "fst (t2 ?tenvL ?un) = Inl IOError" by blast
  \<comment> \<open>T2: a model column\<close>
  have ascs: "apply_selection_cuts_ztf ?tenvL (magpsf ?us) (cdsxmatch ?us) (jd ?us) (jdstarthist ?us) (roid ?us)
      = Inr ?msk"
    by (simp add: t2_env0_def t2_batch_def)
  have fields: "jd ?us = [[5, 6], [1], [2, 3]]" "candid ?us = [10, 11, 12]"
    "model_name ?us = Some [''tinho'', ''other'']" "t2_trace ?us = []"
    by (simp_all add: t2_batch_def)
  have pds: "light_curves ?tenvL ?msk ?us = Inr ?pdf"
    by (simp add: light_curves_def t2_env0_def t2_batch_def t2_rescale_def rename_def dropna_def
        reset_index_def snana_rows_of_def ZTF_FILTER_MAP_def raise_bind_def)
  have name: "lite_model_arg (model_name ?us) = Inr (Some ''tinho'')"
    by (simp add: fields lite_model_arg_def first_element_def raise_bind_def)
  have mdl: "get_lite_model ?tenvL (Some ''tinho'') = Inr ()" by simp
  have nf: "n_filters (object_rows ?pdf 10) = Inr 2" "n_filters (object_rows ?pdf 12) = Inr 1"
    by (simp_all add: n_filters_def object_rows_def)
  have l3: "length (jd ?us) = 3" by (simp add: fields)
  have nfs: "\<forall>i<length (jd ?us). ?msk ! i \<longrightarrow> (\<exists>k. n_filters (object_rows ?pdf (candid ?us ! i)) = Inr k)"
    unfolding l3 fields using nf by (simp add: less_Suc_eq numeral_3_eq_3)
  have prs: "\<forall>i<length (jd ?us). ?msk ! i \<and> n_filters (object_rows ?pdf (candid ?us ! i)) = Inr 2 \<longrightarrow>
           (\<exists>y. predictions ?tenvL () (candid ?us ! i) (object_rows ?pdf (candid ?us ! i)) = Inr y)"
    by (simp add: predictions_def t2_env0_def raise_bind_def first_element_def)
  have lens: "length ?msk = length (jd ?us)" "length (candid ?us) = length (jd ?us)"
    by (simp_all add: fields)
  from t2_total [OF ascs lens pds name mdl nfs prs]
  obtain out where out: "fst (t2 ?tenvL ?us) = Inr out" by blast
  from model_loaded_from [where tenv = ?tenvL and u = ?us and msk = ?msk and out = out,
      THEN conjunct2, THEN conjunct2, THEN conjunct2, THEN conjunct2, THEN conjunct2, THEN conjunct2,
      THEN conjunct2] ascs hn(2) out
  obtain a' k where a': "lite_model_arg (model_name ?us) = Inr a'"
    and tt: "t2_trace (snd (t2 ?tenvL ?us)) = t2_trace ?us @ LoadLite a' # replicate k Predict"
    by blast
  from a' name have "a' = Some ''tinho''" by simp
  with tt fields have "t2_trace (snd (t2 ?tenvL ?us)) = LoadLite (Some ''tinho'') # replicate k Predict"
    by simp
  then have E: "\<exists>k. t2_trace (snd (t2 ?tenvL ?us)) = LoadLite (Some ''tinho'') # replicate k Predict"
    by blast
  from A B C D E show ?thesis by blast
qed

text \<open>
  Claim C6.  After a call of \<^verbatim>\<open>predict_nn\<close> or of \<^verbatim>\<open>t2\<close>, whether it returned or
  raised, every argument column holds what it held before; the only effects besides the
  function's own locals are loads of a model and inferences, which write nothing.
\<close>

theorem inputs_unchanged:
  "midpointTai (snd (predict_nn env s)) = midpointTai s \<and>
   psFlux (snd (predict_nn env s)) = psFlux s \<and>
   psFluxErr (snd (predict_nn env s)) = psFluxErr s \<and>
   filterName (snd (predict_nn env s)) = filterName s \<and>
   model (snd (predict_nn env s)) = model s \<and>
   (\<exists>evs. cats_trace (snd (predict_nn env s)) = cats_trace s @ evs \<and>
      (\<forall>ev\<in>set evs. ev = Predict \<or> (\<exists>p. ev = LoadKeras p))) \<and>
   candid (snd (t2 tenv u)) = candid u \<and> jd (snd (t2 tenv u)) = jd u \<and>
   fid (snd (t2 tenv u)) = fid u \<and> magpsf (snd (t2 tenv u)) = magpsf u \<and>
   sigmapsf (snd (t2 tenv u)) = sigmapsf u \<and> roid (snd (t2 tenv u)) = roid u \<and>
   cdsxmatch (snd (t2 tenv u)) = cdsxmatch u \<and> jdstarthist (snd (t2 tenv u)) = jdstarthist u \<and>
   model_name (snd (t2 tenv u)) = model_name u \<and>
   (\<exists>evs. t2_trace (snd (t2 tenv u)) = t2_trace u @ evs \<and>
      (\<forall>ev\<in>set evs. ev = Predict \<or> (\<exists>a. ev = LoadLite a)))"
proof -
  have c: "\<exists>evs. cats_trace (snd (predict_nn env s)) = cats_trace s @ evs \<and>
      (\<forall>ev\<in>set evs. ev = Predict \<or> (\<exists>p. ev = LoadKeras p))"
  proof -
    from predict_nn_trace [of env s]
    consider "cats_trace (snd (predict_nn env s)) = cats_trace s @ []"
      | p where "cats_trace (snd (predict_nn env s)) = cats_trace s @ [LoadKeras p]"
      | p where "cats_trace (snd (predict_nn env s)) = cats_trace s @ [LoadKeras p, Predict]"
      by auto
    then show ?thesis
    proof cases
      case 1
      then show ?thesis by (intro exI [of _ "[]"]) simp
    next
      case (2 p)
      then show ?thesis by (intro exI [of _ "[LoadKeras p]"]) simp
    next
      case (3 p)
      then show ?thesis by (intro exI [of _ "[LoadKeras p, Predict]"]) simp
    qed
  qed
  have t: "\<exists>evs. t2_trace (snd (t2 tenv u)) = t2_trace u @ evs \<and>
      (\<forall>ev\<in>set evs. ev = Predict \<or> (\<exists>a. ev = LoadLite a))"
  proof -
    from t2_trace_shape [of tenv u]
    consider "t2_trace (snd (t2 tenv u)) = t2_trace u @ []"
      | a k where "t2_trace (snd (t2 tenv u)) = t2_trace u @ LoadLite a # replicate k Predict"
      by auto
    then show ?thesis
    proof cases
      case 1
      then show ?thesis by (intro exI [of _ "[]"]) simp
    next
      case (2 a k)
      then show ?thesis by (intro exI [of _ "LoadLite a # replicate k Predict"]) auto
    qed
  qed
  from predict_nn_frame [of env s] t2_frame [of tenv u] c t show ?thesis by simp
qed

theorem inputs_unchanged_witness:
  "midpointTai (snd (predict_nn cats_env0 (cats_batch [[1, 3]] [[5, 7]] [[1, 2]] [[''g'', ''r'']] None)))
     = [[1, 3]] \<and>
   filterName (snd (predict_nn cats_env0 (cats_batch [[1, 3]] [[5, 7]] [[1, 2]] [[''g'', ''r'']] None)))
     = [[''g'', ''r'']] \<and>
   jd (snd (t2 t2_env0 (t2_batch [10, 11, 12] [[5, 6], [1], [2, 3]] [[1, 2], [1], [1, 1]]
                 [[18, 19], [17], [20, 21]] [[1, 1], [1], [2, 2]] None))) = [[5, 6], [1], [2, 3]] \<and>
   candid (snd (t2 t2_env0 (t2_batch [10, 11, 12] [[5, 6], [1], [2, 3]] [[1, 2], [1], [1, 1]]
                 [[18, 19], [17], [20, 21]] [[1, 1], [1], [2, 2]] None))) = [10, 11, 12]"
  using inputs_unchanged [of cats_env0 "cats_batch [[1, 3]] [[5, 7]] [[1, 2]] [[''g'', ''r'']] None"
      t2_env0 "t2_batch [10, 11, 12] [[5, 6], [1], [2, 3]] [[1, 2], [1], [1, 1]]
                 [[18, 19], [17], [20, 21]] [[1, 1], [1], [2, 2]] None"]
  by (simp add: cats_batch_def t2_batch_def)

section \<open>Time rescaling in both processors\<close>

lemma light_curves_Inr:
  assumes "light_curves env msk s = Inr pdf"
  shows "\<exists>raw. format_data_as_snana env (map t2_rescale (jd s)) (magpsf s) (sigmapsf s) (fid s)
             (candid s) msk ZTF_FILTER_MAP = Inr raw \<and>
           pdf = reset_index (dropna (rename raw))"
  using assms by (auto simp: light_curves_def Let_def dest!: raise_bind_Inr)

lemma lc_tensor_time_channel:
  assumes n: "length (midpointTai s) = n" "length (psFlux s) = n" "length (psFluxErr s) = n"
      "length (filterName s) = n"
    and ok: "fst (lc_tensor env s) = Inr lc"
    and r: "r < n" and j: "j < 395" "j < length (midpointTai s ! r)"
  shows "lc ! r ! j ! 0 =
     midpointTai s ! r ! (length (midpointTai s ! r) - 395 + j) - midpointTai s ! r ! 0"
proof -
  let ?t = "midpointTai s ! r"
  from lc_tensor_Inr [OF n ok] obtain flux err codes where
    row: "lc ! r = stack_row (pad_row 395 (-999) (cats_rescale ?t))
                                 (pad_row 395 (-999) (flux ! r))
                                 (pad_row 395 (-999) (err ! r))
                                 (pad_row 395 0 (codes ! r))"
    using r by blast
  have cell: "lc ! r ! j ! 0 = pad_row 395 (- 999) (cats_rescale ?t) ! j"
    unfolding row using j(1) by (simp add: stack_row_nth length_pad_row)
  have len: "length (cats_rescale ?t) = length ?t" by (simp add: cats_rescale_def)
  from j len have "pad_row 395 (- 999) (cats_rescale ?t) ! j = cats_rescale ?t ! (length ?t - 395 + j)"
    by (simp add: pad_row_nth_data)
  moreover from j have "length ?t - 395 + j < length ?t" by simp
  then have "cats_rescale ?t ! (length ?t - 395 + j) = ?t ! (length ?t - 395 + j) - ?t ! 0"
    by (simp add: cats_rescale_def)
  ultimately show ?thesis using cell by simp
qed

text \<open>
  Claim C9.  Both functions shift each object's time series by its first timestamp, with
  opposite signs.  In the tensor that a returning call of \<^verbatim>\<open>predict_nn\<close> gave to the
  network, the time cell of an observation \<open>t[i]\<close> is \<open>t[i] - t[0]\<close>; the dates that a
  call of \<^verbatim>\<open>t2\<close> gave to \<^verbatim>\<open>format_data_as_snana\<close>, and from which its predictions
  are computed, are \<open>t[0] - t[i]\<close> for every record of the batch.  On one non-empty list
  the second is the elementwise negation of the first, both send the first timestamp to
  \<open>0\<close>, and for increasing times the first is non-negative and the second non-positive.
\<close>

theorem rescale_opposite_signs:
  "(length (midpointTai s) = n \<and> length (psFlux s) = n \<and> length (psFluxErr s) = n \<and>
      length (filterName s) = n \<and> fst (predict_nn env s) = Inr preds \<longrightarrow>
      (\<exists>lc NN. nn_predict env NN lc = Inr preds \<and> length lc = n \<and>
         (\<forall>r<n. \<forall>j<395. j < length (midpointTai s ! r) \<longrightarrow>
            lc ! r ! j ! 0 =
              midpointTai s ! r ! (length (midpointTai s ! r) - 395 + j) - midpointTai s ! r ! 0))) \<and>
   (apply_selection_cuts_ztf tenv (magpsf u) (cdsxmatch u) (jd u) (jdstarthist u) (roid u) = Inr msk \<and>
      (\<exists>b\<in>set msk. b) \<and> fst (t2 tenv u) = Inr out \<longrightarrow>
      (\<exists>dates raw mdl.
         length dates = length (jd u) \<and>
         (\<forall>i<length (jd u). length (dates ! i) = length (jd u ! i) \<and>
            (\<forall>k<length (jd u ! i). dates ! i ! k = jd u ! i ! 0 - jd u ! i ! k)) \<and>
         format_data_as_snana tenv dates (magpsf u) (sigmapsf u) (fid u) (candid u) msk ZTF_FILTER_MAP
           = Inr raw \<and>
         (\<forall>i<length (jd u).
            msk ! i \<and> n_filters (object_rows (reset_index (dropna (rename raw))) (candid u ! i)) = Inr 2 \<longrightarrow>
            predictions tenv mdl (candid u ! i)
              (object_rows (reset_index (dropna (rename raw))) (candid u ! i)) = Inr (out ! i)))) \<and>
   (t \<noteq> [] \<and> i < length t \<longrightarrow>
      cats_rescale t ! i = t ! i - t ! 0 \<and> t2_rescale t ! i = t ! 0 - t ! i \<and>
      cats_rescale t ! 0 = 0 \<and> t2_rescale t ! 0 = 0 \<and>
      t2_rescale t = map uminus (cats_rescale t) \<and>
      (sorted t \<longrightarrow> 0 \<le> cats_rescale t ! i \<and> t2_rescale t ! i \<le> 0))"
proof (intro conjI)
  show "length (midpointTai s) = n \<and> length (psFlux s) = n \<and> length (psFluxErr s) = n \<and>
      length (filterName s) = n \<and> fst (predict_nn env s) = Inr preds \<longrightarrow>
      (\<exists>lc NN. nn_predict env NN lc = Inr preds \<and> length lc = n \<and>
         (\<forall>r<n. \<forall>j<395. j < length (midpointTai s ! r) \<longrightarrow>
            lc ! r ! j ! 0 =
              midpointTai s ! r ! (length (midpointTai s ! r) - 395 + j) - midpointTai s ! r ! 0))"
  proof
    assume h: "length (midpointTai s) = n \<and> length (psFlux s) = n \<and> length (psFluxErr s) = n \<and>
      length (filterName s) = n \<and> fst (predict_nn env s) = Inr preds"
    then have n: "length (midpointTai s) = n" "length (psFlux s) = n" "length (psFluxErr s) = n"
      "length (filterName s) = n" and ok: "fst (predict_nn env s) = Inr preds"
      by simp_all
    from predict_nn_loaded [OF ok] obtain lc NN where lc: "fst (lc_tensor env s) = Inr lc"
      and pr: "nn_predict env NN lc = Inr preds" by blast
    from lc_tensor_Inr [OF n lc] have len: "length lc = n" by blast
    have "\<forall>r<n. \<forall>j<395. j < length (midpointTai s ! r) \<longrightarrow>
            lc ! r ! j ! 0 =
              midpointTai s ! r ! (length (midpointTai s ! r) - 395 + j) - midpointTai s ! r ! 0"
      using lc_tensor_time_channel [OF n lc] by blast
    with pr len show "\<exists>lc NN. nn_predict env NN lc = Inr preds \<and> length lc = n \<and>
         (\<forall>r<n. \<forall>j<395. j < length (midpointTai s ! r) \<longrightarrow>
            lc ! r ! j ! 0 =
              midpointTai s ! r ! (length (midpointTai s ! r) - 395 + j) - midpointTai s ! r ! 0)"
      by blast
  qed
next
  show "apply_selection_cuts_ztf tenv (magpsf u) (cdsxmatch u) (jd u) (jdstarthist u) (roid u) = Inr msk \<and>
      (\<exists>b\<in>set msk. b) \<and> fst (t2 tenv u) = Inr out \<longrightarrow>
      (\<exists>dates raw mdl.
         length dates = length (jd u) \<and>
         (\<forall>i<length (jd u). length (dates ! i) = length (jd u ! i) \<and>
            (\<forall>k<length (jd u ! i). dates ! i ! k = jd u ! i ! 0 - jd u ! i ! k)) \<and>
         format_data_as_snana tenv dates (magpsf u) (sigmapsf u) (fid u) (candid u) msk ZTF_FILTER_MAP
           = Inr raw \<and>
         (\<forall>i<length (jd u).
            msk ! i \<and> n_filters (object_rows (reset_index (dropna (rename raw))) (candid u ! i)) = Inr 2 \<longrightarrow>
            predictions tenv mdl (candid u ! i)
              (object_rows (reset_index (dropna (rename raw))) (candid u ! i)) = Inr (out ! i)))"
  proof
    assume h: "apply_selection_cuts_ztf tenv (magpsf u) (cdsxmatch u) (jd u) (jdstarthist u) (roid u) = Inr msk \<and>
      (\<exists>b\<in>set msk. b) \<and> fst (t2 tenv u) = Inr out"
    then have asc: "apply_selection_cuts_ztf tenv (magpsf u) (cdsxmatch u) (jd u) (jdstarthist u) (roid u) = Inr msk"
      and some: "\<exists>b\<in>set msk. b" and ok: "fst (t2 tenv u) = Inr out"
      by simp_all
    from t2_loaded [OF asc some ok] obtain a mdl pdf where
      pdf: "light_curves tenv msk u = Inr pdf"
      and rows: "\<forall>i<length (jd u). msk ! i \<and> n_filters (object_rows pdf (candid u ! i)) = Inr 2 \<longrightarrow>
        predictions tenv mdl (candid u ! i) (object_rows pdf (candid u ! i)) = Inr (out ! i)"
      by blast
    from light_curves_Inr [OF pdf] obtain raw where
      raw: "format_data_as_snana tenv (map t2_rescale (jd u)) (magpsf u) (sigmapsf u) (fid u)
             (candid u) msk ZTF_FILTER_MAP = Inr raw"
      and pe: "pdf = reset_index (dropna (rename raw))" by blast
    let ?dates = "map t2_rescale (jd u)"
    have d: "length ?dates = length (jd u) \<and>
         (\<forall>i<length (jd u). length (?dates ! i) = length (jd u ! i) \<and>
            (\<forall>k<length (jd u ! i). ?dates ! i ! k = jd u ! i ! 0 - jd u ! i ! k))"
      by (simp add: t2_rescale_def)
    from d raw rows [unfolded pe] show "\<exists>dates raw mdl.
         length dates = length (jd u) \<and>
         (\<forall>i<length (jd u). length (dates ! i) = length (jd u ! i) \<and>
            (\<forall>k<length (jd u ! i). dates ! i ! k = jd u ! i ! 0 - jd u ! i ! k)) \<and>
         format_data_as_snana tenv dates (magpsf u) (sigmapsf u) (fid u) (candid u) msk ZTF_FILTER_MAP
           = Inr raw \<and>
         (\<forall>i<length (jd u).
            msk ! i \<and> n_filters (object_rows (reset_index (dropna (rename raw))) (candid u ! i)) = Inr 2 \<longrightarrow>
            predictions tenv mdl (candid u ! i)
              (object_rows (reset_index (dropna (rename raw))) (candid u ! i)) = Inr (out ! i))"
      by (intro exI [of _ ?dates] exI [of _ raw] exI [of _ mdl]) (intro conjI, simp_all)
  qed
next
  show "t \<noteq> [] \<and> i < length t \<longrightarrow>
      cats_rescale t ! i = t ! i - t ! 0 \<and> t2_rescale t ! i = t ! 0 - t ! i \<and>
      cats_rescale t ! 0 = 0 \<and> t2_rescale t ! 0 = 0 \<and>
      t2_rescale t = map uminus (cats_rescale t) \<and>
      (sorted t \<longrightarrow> 0 \<le> cats_rescale t ! i \<and> t2_rescale t ! i \<le> 0)"
  proof
    assume h: "t \<noteq> [] \<and> i < length t"
    then have pos: "0 < length t" and i: "i < length t" by simp_all
    have a: "cats_rescale t ! i = t ! i - t ! 0" using i by (simp add: cats_rescale_def)
    have b: "t2_rescale t ! i = t ! 0 - t ! i" using i by (simp add: t2_rescale_def)
    have c: "cats_rescale t ! 0 = 0" using pos by (simp add: cats_rescale_def)
    have d: "t2_rescale t ! 0 = 0" using pos by (simp add: t2_rescale_def)
    have e: "t2_rescale t = map uminus (cats_rescale t)"
      by (simp add: t2_rescale_def cats_rescale_def)
    have f: "sorted t \<longrightarrow> 0 \<le> cats_rescale t ! i \<and> t2_rescale t ! i \<le> 0"
    proof
      assume "sorted t"
      with i have "t ! 0 \<le> t ! i" by (simp add: sorted_nth_mono)
      with a b show "0 \<le> cats_rescale t ! i \<and> t2_rescale t ! i \<le> 0" by simp
    qed
    from a b c d e f show "cats_rescale t ! i = t ! i - t ! 0 \<and> t2_rescale t ! i = t ! 0 - t ! i \<and>
      cats_rescale t ! 0 = 0 \<and> t2_rescale t ! 0 = 0 \<and>
      t2_rescale t = map uminus (cats_rescale t) \<and>
      (sorted t \<longrightarrow> 0 \<le> cats_rescale t ! i \<and> t2_rescale t ! i \<le> 0)" by blast
  qed
qed

theorem rescale_opposite_signs_witness:
  "(\<exists>lc NN. nn_predict cats_env0 NN lc = fst (predict_nn cats_env0
          (cats_batch [[1, 3]] [[5, 7]] [[1, 2]] [[''g'', ''r'']] None)) \<and>
      lc ! 0 ! 0 ! 0 = 0 \<and> lc ! 0 ! 1 ! 0 = 2) \<and>
   (\<exists>dates raw. format_data_as_snana t2_env0 dates [[18, 19], [17], [20, 21]] [[1, 1], [1], [2, 2]]
          [[1, 2], [1], [1, 1]] [10, 11, 12] [True, False, True] ZTF_FILTER_MAP = Inr raw \<and>
      dates ! 0 ! 0 = 0 \<and> dates ! 0 ! 1 = - 1 \<and> dates ! 2 ! 1 = - 1) \<and>
   cats_rescale [5, 6, 8] ! 2 = 3 \<and> t2_rescale [5, 6, 8] ! 2 = - 3 \<and>
   t2_rescale [5, 6, 8] = map uminus (cats_rescale [5, 6, 8])"
proof -
  let ?c = "cats_batch [[1, 3]] [[5, 7]] [[1, 2]] [[''g'', ''r'']] None"
  let ?u = "t2_batch [10, 11, 12] [[5, 6], [1], [2, 3]] [[1, 2], [1], [1, 1]]
                 [[18, 19], [17], [20, 21]] [[1, 1], [1], [2, 2]] None"
  let ?msk = "[True, False, True]"
  let ?pdf = "[\<lparr>object_id = 10, lc_mjd = Some 0, flux = Some 18, flux_error = Some 1, lc_filter = Some (FltName ''ztfg'')\<rparr>,
               \<lparr>object_id = 10, lc_mjd = Some (- 1), flux = Some 19, flux_error = Some 1, lc_filter = Some (FltName ''ztfr'')\<rparr>,
               \<lparr>object_id = 12, lc_mjd = Some 0, flux = Some 20, flux_error = Some 2, lc_filter = Some (FltName ''ztfg'')\<rparr>,
               \<lparr>object_id = 12, lc_mjd = Some (- 1), flux = Some 21, flux_error = Some 2, lc_filter = Some (FltName ''ztfg'')\<rparr>]"
  note main = rescale_opposite_signs [where s = ?c and n = 1 and env = cats_env0 and tenv = t2_env0
      and u = ?u and msk = ?msk and t = "[5, 6, 8]" and i = 2]
  \<comment> \<open>the CATS call returns\<close>
  have len: "length (midpointTai ?c) = 1" "length (psFlux ?c) = 1" "length (psFluxErr ?c) = 1"
    "length (filterName ?c) = 1"
    by (simp_all add: cats_batch_def)
  have wf: "\<forall>r<1. midpointTai ?c ! r \<noteq> [] \<and> set (filterName ?c ! r) \<subseteq> dom filter_dict \<and>
             (\<exists>y. norm_column cats_env0 (psFlux ?c ! r) = Inr y) \<and>
             (\<exists>y. norm_column cats_env0 (psFluxErr ?c ! r) = Inr y)"
    by (simp add: cats_batch_def cats_env0_def filter_dict_def)
  from lc_tensor_total [OF len wf] obtain lc0 where lc0: "fst (lc_tensor cats_env0 ?c) = Inr lc0" by blast
  have mp0: "model_path cats_env0 (model ?c)
      = Inr (curdir cats_env0 @ ''/data/models/cats_models/cats_small_nometa_serial.keras'')"
    by (simp add: model_path_def cats_batch_def)
  have ld0: "load_model cats_env0 (curdir cats_env0 @ ''/data/models/cats_models/cats_small_nometa_serial.keras'')
      = Inr ()" by (simp add: cats_env0_def)
  have pr0: "nn_predict cats_env0 () lc0 = Inr (map (\<lambda>row. [1, 0, 0, 0, 0]) lc0)"
    by (simp add: cats_env0_def)
  from predict_nn_returns [OF lc0 mp0 ld0 pr0]
  have ok0: "fst (predict_nn cats_env0 ?c) = Inr (map (\<lambda>row. [1, 0, 0, 0, 0]) lc0)" .
  from main [where preds = "map (\<lambda>row. [1, 0, 0, 0, 0]) lc0", THEN conjunct1] len ok0
  obtain lc NN where pr: "nn_predict cats_env0 NN lc = Inr (map (\<lambda>row. [1, 0, 0, 0, 0]) lc0)"
    and cells: "\<forall>r<1. \<forall>j<395. j < length (midpointTai ?c ! r) \<longrightarrow>
            lc ! r ! j ! 0 =
              midpointTai ?c ! r ! (length (midpointTai ?c ! r) - 395 + j) - midpointTai ?c ! r ! 0"
    by blast
  have t0: "midpointTai ?c ! 0 = [1, 3]" by (simp add: cats_batch_def)
  from cells [rule_format, of 0 0] have c00: "lc ! 0 ! 0 ! 0 = 0" unfolding t0 by simp
  from cells [rule_format, of 0 1] have c01: "lc ! 0 ! 1 ! 0 = 2" unfolding t0 by simp
  from pr ok0 c00 c01 have A: "\<exists>lc NN. nn_predict cats_env0 NN lc = fst (predict_nn cats_env0 ?c) \<and>
      lc ! 0 ! 0 ! 0 = 0 \<and> lc ! 0 ! 1 ! 0 = 2"
    by auto
  \<comment> \<open>the T2 call returns\<close>
  have asc: "apply_selection_cuts_ztf t2_env0 (magpsf ?u) (cdsxmatch ?u) (jd ?u) (jdstarthist ?u) (roid ?u)
      = Inr ?msk"
    by (simp add: t2_env0_def t2_batch_def)
  have fields: "jd ?u = [[5, 6], [1], [2, 3]]" "candid ?u = [10, 11, 12]" "model_name ?u = None"
    "magpsf ?u = [[18, 19], [17], [20, 21]]" "sigmapsf ?u = [[1, 1], [1], [2, 2]]"
    "fid ?u = [[1, 2], [1], [1, 1]]"
    by (simp_all add: t2_batch_def)
  have pdf: "light_curves t2_env0 ?msk ?u = Inr ?pdf"
    by (simp add: light_curves_def t2_env0_def t2_batch_def t2_rescale_def rename_def dropna_def
        reset_index_def snana_rows_of_def ZTF_FILTER_MAP_def raise_bind_def)
  have name: "lite_model_arg (model_name ?u) = Inr None" by (simp add: fields lite_model_arg_def)
  have mdl: "get_lite_model t2_env0 None = Inr ()" by (simp add: t2_env0_def)
  have nf: "n_filters (object_rows ?pdf 10) = Inr 2" "n_filters (object_rows ?pdf 12) = Inr 1"
    by (simp_all add: n_filters_def object_rows_def)
  have l3: "length (jd ?u) = 3" by (simp add: fields)
  have nfs: "\<forall>i<length (jd ?u). ?msk ! i \<longrightarrow> (\<exists>k. n_filters (object_rows ?pdf (candid ?u ! i)) = Inr k)"
    unfolding l3 fields using nf by (simp add: less_Suc_eq numeral_3_eq_3)
  have prs: "\<forall>i<length (jd ?u). ?msk ! i \<and> n_filters (object_rows ?pdf (candid ?u ! i)) = Inr 2 \<longrightarrow>
           (\<exists>y. predictions t2_env0 () (candid ?u ! i) (object_rows ?pdf (candid ?u ! i)) = Inr y)"
    by (simp add: predictions_def t2_env0_def raise_bind_def first_element_def)
  have lens: "length ?msk = length (jd ?u)" "length (candid ?u) = length (jd ?u)"
    by (simp_all add: fields)
  from t2_total [OF asc lens pdf name mdl nfs prs]
  obtain out where out: "fst (t2 t2_env0 ?u) = Inr out" by blast
  have some: "\<exists>b\<in>set ?msk. b" by simp
  from main [where out = out, THEN conjunct2, THEN conjunct1] asc some out
  obtain dates raw where
    d: "\<forall>i<length (jd ?u). length (dates ! i) = length (jd ?u ! i) \<and>
            (\<forall>k<length (jd ?u ! i). dates ! i ! k = jd ?u ! i ! 0 - jd ?u ! i ! k)"
    and f: "format_data_as_snana t2_env0 dates (magpsf ?u) (sigmapsf ?u) (fid ?u) (candid ?u) ?msk ZTF_FILTER_MAP
           = Inr raw"
    by blast
  have j0: "jd ?u ! 0 = [5, 6]" and j2: "jd ?u ! 2 = [2, 3]" by (simp_all add: fields)
  from d [rule_format, of 0, THEN conjunct2, rule_format, of 0] l3
  have d00: "dates ! 0 ! 0 = 0" unfolding j0 by simp
  from d [rule_format, of 0, THEN conjunct2, rule_format, of 1] l3
  have d01: "dates ! 0 ! 1 = - 1" unfolding j0 by simp
  from d [rule_format, of 2, THEN conjunct2, rule_format, of 1] l3
  have d21: "dates ! 2 ! 1 = - 1" unfolding j2 by simp
  from f d00 d01 d21 have B: "\<exists>dates raw. format_data_as_snana t2_env0 dates [[18, 19], [17], [20, 21]]
          [[1, 1], [1], [2, 2]] [[1, 2], [1], [1, 1]] [10, 11, 12] [True, False, True] ZTF_FILTER_MAP = Inr raw \<and>
      dates ! 0 ! 0 = 0 \<and> dates ! 0 ! 1 = - 1 \<and> dates ! 2 ! 1 = - 1"
    unfolding fields by blast
  \<comment> \<open>one list under both shifts\<close>
  have ne: "[5, 6, 8 :: real] \<noteq> [] \<and> 2 < length [5, 6, 8 :: real]" by simp
  from main [THEN conjunct2, THEN conjunct2] ne
  have C: "cats_rescale [5, 6, 8] ! 2 = 3 \<and> t2_rescale [5, 6, 8] ! 2 = - 3 \<and>
     t2_rescale [5, 6, 8] = map uminus (cats_rescale [5, 6, 8])"
    by (simp add: cats_rescale_def t2_rescale_def)
  from A B C show ?thesis by blast
qed

end
